theory Spec2Isabelle
  imports Complex_Main
begin

section \<open>Tensors, exceptions and library layers\<close>

text \<open>
  The source file \<^verbatim>\<open>models/rnn.py\<close> is written against the PyTorch tensor library.
  Tensors are nested lists here: a vector is a list of scalars, a matrix a list of rows,
  a rank-3 tensor a list of matrices. The scalar type is left open (any semiring), so that
  every equation below is an equation of the values the layers compute.
  A raised Python exception is the left summand of a sum type.
\<close>

type_synonym 'a vec = "'a list"
type_synonym 'a mat = "'a list list"
type_synonym 'a t3 = "'a list list list"

datatype error = IndexError | RuntimeError | AttributeError | TypeError | ValueError

definition ebind :: "error + 'a \<Rightarrow> ('a \<Rightarrow> error + 'b) \<Rightarrow> error + 'b" where
  "ebind m f = (case m of Inl e \<Rightarrow> Inl e | Inr x \<Rightarrow> f x)"

text \<open>\<^verbatim>\<open>x.size(1)\<close> and \<^verbatim>\<open>x.size(2)\<close>, read off the first row.\<close>

definition size1 :: "'a list list \<Rightarrow> nat" where
  "size1 x = (case x of [] \<Rightarrow> 0 | r # _ \<Rightarrow> length r)"

definition size2 :: "'a t3 \<Rightarrow> nat" where
  "size2 x = (case x of [] \<Rightarrow> 0 | [] # _ \<Rightarrow> 0 | (v # _) # _ \<Rightarrow> length v)"

definition has_shape2 :: "'a mat \<Rightarrow> nat \<Rightarrow> nat \<Rightarrow> bool" where
  "has_shape2 m r c = (length m = r \<and> list_all (\<lambda>v. length v = c) m)"

definition has_shape3 :: "'a t3 \<Rightarrow> nat \<Rightarrow> nat \<Rightarrow> nat \<Rightarrow> bool" where
  "has_shape3 x a b c = (length x = a \<and> list_all (\<lambda>m. has_shape2 m b c) x)"

text \<open>\<^verbatim>\<open>x.transpose(0, 1)\<close> on a tensor of rank two or more, and \<^verbatim>\<open>x.transpose(1, 2)\<close>.\<close>

definition transpose01 :: "'a list list \<Rightarrow> 'a list list" where
  "transpose01 x = map (\<lambda>j. map (\<lambda>r. r ! j) x) [0..<size1 x]"

definition transpose12 :: "'a t3 \<Rightarrow> 'a t3" where
  "transpose12 x = map transpose01 x"

text \<open>The slices \<^verbatim>\<open>x[:, :, :h]\<close> and \<^verbatim>\<open>x[:, :, h:]\<close>, and \<^verbatim>\<open>x[::2]\<close>.\<close>

definition slice_to :: "nat \<Rightarrow> 'a t3 \<Rightarrow> 'a t3" where
  "slice_to h x = map (map (take h)) x"

definition slice_from :: "nat \<Rightarrow> 'a t3 \<Rightarrow> 'a t3" where
  "slice_from h x = map (map (drop h)) x"

fun stride2 :: "'a list \<Rightarrow> 'a list" where
  "stride2 [] = []"
| "stride2 [x] = [x]"
| "stride2 (x # y # xs) = x # stride2 xs"

text \<open>
  Tensor addition of two rank-3 tensors that agree in their first two dimensions. The last
  dimension follows the broadcasting rule: equal sizes add elementwise, a size of one is
  stretched, anything else raises.
\<close>

definition vadd :: "'a::plus vec \<Rightarrow> 'a vec \<Rightarrow> 'a vec" where
  "vadd u v =
     (if length u = length v then map2 (+) u v
      else if length u = 1 then map (\<lambda>b. hd u + b) v
      else map (\<lambda>a. a + hd v) u)"

definition tadd :: "'a::plus t3 \<Rightarrow> 'a t3 \<Rightarrow> error + 'a t3" where
  "tadd x y =
     (let m = size2 x; n = size2 y
      in if m = n \<or> m = 1 \<or> n = 1 then Inr (map2 (map2 vadd) x y) else Inl RuntimeError)"

subsection \<open>Embedding lookup\<close>

text \<open>
  \<^verbatim>\<open>nn.Embedding\<close>: row \<open>i\<close> of the weight table for token id \<open>i\<close>; an id outside the
  table raises IndexError. The lookup is done for every position of the input.
\<close>

definition valid_id :: "'a mat \<Rightarrow> int \<Rightarrow> bool" where
  "valid_id W i = (0 \<le> i \<and> i < int (length W))"

definition Embedding1 :: "'a mat \<Rightarrow> int list \<Rightarrow> error + 'a mat" where
  "Embedding1 W ids =
     (if list_all (valid_id W) ids then Inr (map (\<lambda>i. W ! nat i) ids) else Inl IndexError)"

definition Embedding2 :: "'a mat \<Rightarrow> int mat \<Rightarrow> error + 'a t3" where
  "Embedding2 W ids =
     (if list_all (list_all (valid_id W)) ids then Inr (map (map (\<lambda>i. W ! nat i)) ids)
      else Inl IndexError)"

subsection \<open>Packing and unpacking\<close>

text \<open>
  \<^verbatim>\<open>pack_padded_sequence\<close> on a time-major tensor \<open>[T, B, F]\<close> with the default
  \<^verbatim>\<open>enforce_sorted=True\<close>: the tensor must not be empty, there is one length per example,
  every length is positive and the lengths are in decreasing order. Time step \<open>t\<close>
  contributes the rows of the examples that are longer than \<open>t\<close>, which are the first
  \<open>batch_sizes[t]\<close> ones. A first length beyond \<open>T\<close> is rejected as well.
\<close>

record 'a PackedSequence =
  ps_data :: "'a mat"
  ps_batch_sizes :: "nat list"

definition pack_steps :: "int list \<Rightarrow> nat list" where
  "pack_steps lengths = [0..<nat (hd lengths)]"

definition pack_batch_size :: "int list \<Rightarrow> nat \<Rightarrow> nat" where
  "pack_batch_size lengths t = length (filter (\<lambda>l. int t < l) lengths)"

definition pack :: "'a t3 \<Rightarrow> int list \<Rightarrow> error + 'a PackedSequence" where
  "pack x lengths =
     (if length x * size1 x * size2 x = 0 then Inl RuntimeError
      else if length lengths \<noteq> size1 x then Inl RuntimeError
      else if last lengths \<le> 0 then Inl RuntimeError
      else if \<not> sorted (rev lengths) then Inl RuntimeError
      else if int (length x) < hd lengths then Inl RuntimeError
      else Inr \<lparr>ps_data = concat (map (\<lambda>t. take (pack_batch_size lengths t) (x ! t))
                                     (pack_steps lengths)),
                ps_batch_sizes = map (pack_batch_size lengths) (pack_steps lengths)\<rparr>)"

text \<open>
  \<^verbatim>\<open>pad_packed_sequence\<close> with its defaults: the padded tensor has as many time steps as
  the packed sequence, and every position that the packed sequence does not cover is filled
  with the padding value 0. It returns the padded tensor and the lengths.
\<close>

fun unpack_rows :: "nat \<Rightarrow> nat \<Rightarrow> nat list \<Rightarrow> 'a::zero mat \<Rightarrow> 'a t3" where
  "unpack_rows B F [] d = []"
| "unpack_rows B F (b # bs) d =
     (take b d @ replicate (B - b) (replicate F 0)) # unpack_rows B F bs (drop b d)"

definition unpack :: "'a::zero PackedSequence \<Rightarrow> 'a t3 \<times> nat list" where
  "unpack p =
     (let bss = ps_batch_sizes p;
          B = (case bss of [] \<Rightarrow> 0 | b # _ \<Rightarrow> b);
          F = size1 (ps_data p)
      in (unpack_rows B F bss (ps_data p),
          map (\<lambda>b. length (filter (\<lambda>s. b < s) bss)) [0..<B]))"

subsection \<open>One-dimensional convolution, activation and dropout layers\<close>

text \<open>
  \<^verbatim>\<open>nn.Conv1d\<close> with stride 1 on an input \<open>[B, C_in, L]\<close>: each channel is padded with
  \<open>padding\<close> zeros on both sides, and output position \<open>t\<close> of output channel \<open>o\<close> is the bias
  plus the sum over input channels and kernel taps \<open>k\<close> of
  \<open>weight[o][c][k] * padded[c][t + k * dilation]\<close>. The output has
  \<open>L + 2 * padding - dilation * (kernel_size - 1)\<close> positions; the layer raises when the
  channel count is wrong or the padded input is shorter than the dilated kernel.
\<close>

record 'a Conv1d =
  conv_weight :: "'a t3"
  conv_bias :: "'a vec"
  conv_in_channels :: nat
  conv_kernel_size :: nat
  conv_padding :: nat
  conv_dilation :: nat

definition pad1d :: "nat \<Rightarrow> 'a::zero vec \<Rightarrow> 'a vec" where
  "pad1d p xs = replicate p 0 @ xs @ replicate p 0"

definition conv_channel :: "nat \<Rightarrow> nat \<Rightarrow> nat \<Rightarrow> nat \<Rightarrow> 'a::semiring_0 mat \<Rightarrow> 'a \<Rightarrow> 'a mat \<Rightarrow> 'a vec" where
  "conv_channel K d p n wo bo xb =
     map (\<lambda>t. bo + sum_list (map2 (\<lambda>w xs. sum_list (map (\<lambda>k. w ! k * pad1d p xs ! (t + k * d)) [0..<K]))
                                  wo xb))
         [0..<n]"

definition conv_span :: "'a Conv1d \<Rightarrow> nat" where
  "conv_span c = conv_dilation c * (conv_kernel_size c - 1)"

definition Conv1d_forward :: "'a::semiring_0 Conv1d \<Rightarrow> 'a t3 \<Rightarrow> error + 'a t3" where
  "Conv1d_forward c x =
     (if size1 x \<noteq> conv_in_channels c then Inl RuntimeError
      else if size2 x + 2 * conv_padding c < conv_span c + 1 then Inl RuntimeError
      else Inr (map (\<lambda>xb. map2 (\<lambda>wo bo. conv_channel (conv_kernel_size c) (conv_dilation c)
                                          (conv_padding c)
                                          (size2 x + 2 * conv_padding c - conv_span c) wo bo xb)
                               (conv_weight c) (conv_bias c))
                    x))"

text \<open>
  The members of an \<^verbatim>\<open>nn.Sequential\<close>. \<^verbatim>\<open>nn.SELU\<close> applies its activation to every
  element. \<^verbatim>\<open>nn.AlphaDropout\<close> is the identity unless the module is in training mode;
  in training mode every element is kept or replaced according to a freshly drawn mask bit.
  The activation and the elementwise dropout function belong to the library and are carried
  by the layer; the mask is the randomness the layer draws, passed in explicitly.
\<close>

datatype 'a layer = Conv "'a Conv1d" | SELU "'a \<Rightarrow> 'a" | AlphaDropout "bool \<Rightarrow> 'a \<Rightarrow> 'a"

type_synonym mask3 = "nat \<Rightarrow> nat \<Rightarrow> nat \<Rightarrow> bool"
type_synonym mask2 = "nat \<Rightarrow> nat \<Rightarrow> bool"

definition imap :: "(nat \<Rightarrow> 'a \<Rightarrow> 'b) \<Rightarrow> 'a list \<Rightarrow> 'b list" where
  "imap f xs = map2 f [0..<length xs] xs"

definition dropout2 :: "(bool \<Rightarrow> 'a \<Rightarrow> 'a) \<Rightarrow> bool \<Rightarrow> mask2 \<Rightarrow> 'a mat \<Rightarrow> 'a mat" where
  "dropout2 f training mk x =
     (if training then imap (\<lambda>i. imap (\<lambda>j. f (mk i j))) x else x)"

definition dropout3 :: "(bool \<Rightarrow> 'a \<Rightarrow> 'a) \<Rightarrow> bool \<Rightarrow> mask3 \<Rightarrow> 'a t3 \<Rightarrow> 'a t3" where
  "dropout3 f training mk x =
     (if training then imap (\<lambda>i. imap (\<lambda>j. imap (\<lambda>k. f (mk i j k)))) x else x)"

fun layer_forward :: "'a::semiring_0 layer \<Rightarrow> bool \<Rightarrow> mask3 \<Rightarrow> 'a t3 \<Rightarrow> error + 'a t3" where
  "layer_forward (Conv c) training mk x = Conv1d_forward c x"
| "layer_forward (SELU f) training mk x = Inr (map (map (map f)) x)"
| "layer_forward (AlphaDropout f) training mk x = Inr (dropout3 f training mk x)"

fun Sequential_forward :: "'a::semiring_0 layer list \<Rightarrow> bool \<Rightarrow> (nat \<Rightarrow> mask3) \<Rightarrow> nat \<Rightarrow> 'a t3 \<Rightarrow> error + 'a t3" where
  "Sequential_forward [] training mk i x = Inr x"
| "Sequential_forward (l # ls) training mk i x =
     ebind (layer_forward l training (mk i) x) (Sequential_forward ls training mk (Suc i))"

text \<open>\<^verbatim>\<open>nn.Linear\<close>: \<open>y = x W\<^sup>T + b\<close> on a batch of rows; a row of the wrong width raises.\<close>

record 'a Linear =
  lin_weight :: "'a mat"
  lin_bias :: "'a vec"
  lin_in_features :: nat
  lin_out_features :: nat

definition Linear_forward :: "'a::semiring_0 Linear \<Rightarrow> 'a mat \<Rightarrow> error + 'a mat" where
  "Linear_forward l x =
     (if list_all (\<lambda>r. length r = lin_in_features l) x
      then Inr (map (\<lambda>r. map2 (\<lambda>w b. sum_list (map2 (*) w r) + b) (lin_weight l) (lin_bias l)) x)
      else Inl RuntimeError)"

section \<open>The recurrent encoder\<close>

text \<open>
  The configuration object, with the options the two constructors read.
\<close>

record config =
  cell :: string
  emb_size :: nat
  hidden_size :: nat
  enc_num_layers :: nat
  dec_num_layers :: nat
  dropout :: real
  bidirectional :: bool
  src_vocab_size :: nat
  tgt_vocab_size :: nat
  attention :: string
  pool_size :: nat

text \<open>
  The library's recurrent networks \<^verbatim>\<open>nn.GRU\<close> and \<^verbatim>\<open>nn.LSTM\<close> are taken as given: a
  network is the function its forward pass computes from the training flag, the randomness
  its own dropout draws, and the padded input. A GRU returns the outputs and the final hidden
  state, an LSTM the outputs and the pair of final hidden and cell state.
\<close>

type_synonym ('a, 'n) gru_net = "bool \<Rightarrow> 'n \<Rightarrow> 'a t3 \<Rightarrow> error + ('a t3 \<times> 'a t3)"
type_synonym ('a, 'n) lstm_net = "bool \<Rightarrow> 'n \<Rightarrow> 'a t3 \<Rightarrow> error + ('a t3 \<times> ('a t3 \<times> 'a t3))"

datatype ('a, 'n) rnn_module = GRU "('a, 'n) gru_net" | LSTM "('a, 'n) lstm_net"

datatype 'a rnn_state = Hidden "'a t3" | HiddenCell "'a t3" "'a t3"

fun rnn_module_forward :: "('a, 'n) rnn_module \<Rightarrow> bool \<Rightarrow> 'n \<Rightarrow> 'a t3 \<Rightarrow> error + ('a t3 \<times> 'a rnn_state)" where
  "rnn_module_forward (GRU f) training nz x =
     ebind (f training nz x) (\<lambda>(outputs, h). Inr (outputs, Hidden h))"
| "rnn_module_forward (LSTM f) training nz x =
     ebind (f training nz x) (\<lambda>(outputs, (h, c)). Inr (outputs, HiddenCell h c))"

text \<open>
  What the constructor draws from the library: the freshly initialised (later learned)
  parameters of each submodule, and the library's activation and dropout functions.
\<close>

record ('a, 'n) enc_params =
  p_embedding :: "'a mat"
  p_gru :: "('a, 'n) gru_net"
  p_lstm :: "('a, 'n) lstm_net"
  p_conv_weight :: "nat \<Rightarrow> 'a t3"
  p_conv_bias :: "nat \<Rightarrow> 'a vec"
  p_selu :: "'a \<Rightarrow> 'a"
  p_alpha_dropout :: "real \<Rightarrow> bool \<Rightarrow> 'a \<Rightarrow> 'a"
  p_linear_weight :: "'a mat"
  p_linear_bias :: "'a vec"

record ('a, 'n) rnn_encoder =
  enc_training :: bool
  enc_embedding :: "'a mat"
  enc_hidden_size :: nat
  enc_config :: config
  enc_rnn :: "('a, 'n) rnn_module"
  enc_dconv :: "'a layer list"
  enc_linear :: "'a Linear"
  enc_glu :: int

definition dconv_conv :: "config \<Rightarrow> ('a, 'n) enc_params \<Rightarrow> nat \<Rightarrow> nat \<Rightarrow> nat \<Rightarrow> 'a Conv1d" where
  "dconv_conv config ps i pad dil =
     \<lparr>conv_weight = p_conv_weight ps i, conv_bias = p_conv_bias ps i,
      conv_in_channels = hidden_size config, conv_kernel_size = 3,
      conv_padding = pad, conv_dilation = dil\<rparr>"

text \<open>
  The constructor. The library's recurrent networks and dropout layers reject a dropout
  probability outside \<open>[0, 1]\<close> with a ValueError; nothing else in the constructor raises.
  A new module is in training mode.
\<close>

definition valid_dropout :: "real \<Rightarrow> bool" where
  "valid_dropout p = (0 \<le> p \<and> p \<le> 1)"

definition rnn_encoder_init ::
  "config \<Rightarrow> 'a mat option \<Rightarrow> ('a, 'n) enc_params \<Rightarrow> error + ('a, 'n) rnn_encoder" where
  "rnn_encoder_init config embedding ps =
     (if \<not> valid_dropout (dropout config) then Inl ValueError
      else Inr
     \<lparr>enc_training = True,
      enc_embedding = (case embedding of Some e \<Rightarrow> e | None \<Rightarrow> p_embedding ps),
      enc_hidden_size = hidden_size config,
      enc_config = config,
      enc_rnn = (if cell config = ''gru'' then GRU (p_gru ps) else LSTM (p_lstm ps)),
      enc_dconv =
        [Conv (dconv_conv config ps 0 1 1), SELU (p_selu ps), AlphaDropout (p_alpha_dropout ps (5 / 100)),
         Conv (dconv_conv config ps 1 1 2), SELU (p_selu ps), AlphaDropout (p_alpha_dropout ps (5 / 100)),
         Conv (dconv_conv config ps 2 1 3), SELU (p_selu ps), AlphaDropout (p_alpha_dropout ps (5 / 100))],
      enc_linear = \<lparr>lin_weight = p_linear_weight ps, lin_bias = p_linear_bias ps,
                    lin_in_features = 2 * hidden_size config,
                    lin_out_features = 2 * hidden_size config\<rparr>,
      enc_glu = - 1\<rparr>)"

text \<open>\<^verbatim>\<open>module.eval()\<close> and \<^verbatim>\<open>module.train()\<close> set the training flag.\<close>

definition enc_eval :: "('a, 'n) rnn_encoder \<Rightarrow> ('a, 'n) rnn_encoder" where
  "enc_eval self = self\<lparr>enc_training := False\<rparr>"

text \<open>
  The randomness one forward pass of the encoder draws: what the recurrent network's own
  dropout uses, and one mask for each member of the convolution stack.
\<close>

record 'n enc_noise =
  rnn_noise :: 'n
  dconv_mask :: "nat \<Rightarrow> mask3"

text \<open>
  The state handed to the decoder. The two branches that pair a GRU with the LSTM policy or
  the reverse cannot be reached from an encoder built by \<open>rnn_encoder_init\<close>, which chooses
  the network by the same test on the same configuration.
\<close>

definition reduce_state :: "config \<Rightarrow> 'a rnn_state \<Rightarrow> error + 'a rnn_state" where
  "reduce_state config state =
     (if cell config = ''gru''
      then (case state of Hidden h \<Rightarrow> Inr (Hidden (take (dec_num_layers config) h))
                        | HiddenCell h c \<Rightarrow> Inl TypeError)
      else (case state of HiddenCell h c \<Rightarrow> Inr (HiddenCell (stride2 h) (stride2 c))
                        | Hidden h \<Rightarrow> Inl TypeError))"

definition rnn_encoder_forward ::
  "('a::semiring_0, 'n) rnn_encoder \<Rightarrow> 'n enc_noise \<Rightarrow> int mat \<Rightarrow> int list
     \<Rightarrow> error + ('a t3 \<times> 'a rnn_state \<times> 'a t3)" where
  "rnn_encoder_forward self nz inputs lengths =
     ebind (Embedding2 (enc_embedding self) inputs) (\<lambda>e.
     ebind (pack e lengths) (\<lambda>embs.
     let embeds = fst (unpack embs) in
     ebind (rnn_module_forward (enc_rnn self) (enc_training self) (rnn_noise nz) embeds) (\<lambda>(outputs, state).
     ebind (if bidirectional (enc_config self)
            then tadd (slice_to (enc_hidden_size self) outputs) (slice_from (enc_hidden_size self) outputs)
            else Inr outputs) (\<lambda>outputs.
     let conv = transpose12 (transpose01 outputs) in
     ebind (Sequential_forward (enc_dconv self) (enc_training self) (dconv_mask nz) 0 conv) (\<lambda>conv.
     let conv = transpose12 conv in
     ebind (reduce_state (enc_config self) state) (\<lambda>state.
     Inr (outputs, state, conv)))))))"

section \<open>The stacked recurrent cells\<close>

text \<open>
  The library's single-layer cells \<^verbatim>\<open>nn.GRUCell\<close> and \<^verbatim>\<open>nn.LSTMCell\<close> are taken as
  given: a cell is the function of its input and its state, and raises on a shape it
  does not accept. \<^verbatim>\<open>nn.Dropout\<close> is the identity unless the module is in training mode.
  \<^verbatim>\<open>torch.stack\<close> raises on an empty list and on tensors of different sizes.
\<close>

type_synonym 'a gru_cell = "'a mat \<Rightarrow> 'a mat \<Rightarrow> error + 'a mat"
type_synonym 'a lstm_cell = "'a mat \<Rightarrow> 'a mat \<times> 'a mat \<Rightarrow> error + ('a mat \<times> 'a mat)"

definition stack :: "'a mat list \<Rightarrow> error + 'a t3" where
  "stack xs =
     (case xs of [] \<Rightarrow> Inl RuntimeError
      | x # _ \<Rightarrow> if list_all (\<lambda>y. length y = length x \<and> size1 y = size1 x) xs then Inr xs
                 else Inl RuntimeError)"

record 'a StackedGRU =
  sg_dropout :: "bool \<Rightarrow> 'a \<Rightarrow> 'a"
  sg_num_layers :: nat
  sg_layers :: "'a gru_cell list"

record 'a StackedLSTM =
  sl_dropout :: "bool \<Rightarrow> 'a \<Rightarrow> 'a"
  sl_num_layers :: nat
  sl_layers :: "'a lstm_cell list"

text \<open>
  What the decoder's constructors draw from the library and from the attention package:
  the cell created by the \<open>i\<close>-th constructor call for given sizes, the elementwise
  dropout function for a probability, the parameters of the embedding and of the output
  projection, and the attention modules. An attention module maps the training flag, the
  randomness it draws, the decoder output and a context (the step's embeddings, a matrix, or
  the convolutional context, a rank-3 tensor) to the attended output and the weights.
\<close>

datatype 'a tensor = T2 "'a mat" | T3 "'a t3"

type_synonym ('a, 'n) attention_module =
  "bool \<Rightarrow> 'n \<Rightarrow> 'a mat \<Rightarrow> 'a tensor \<Rightarrow> error + ('a mat \<times> 'a mat)"

record ('a, 'n) dec_params =
  q_embedding :: "'a mat"
  q_gru_cell :: "nat \<Rightarrow> nat \<Rightarrow> nat \<Rightarrow> 'a gru_cell"
  q_lstm_cell :: "nat \<Rightarrow> nat \<Rightarrow> nat \<Rightarrow> 'a lstm_cell"
  q_dropout :: "real \<Rightarrow> bool \<Rightarrow> 'a \<Rightarrow> 'a"
  q_linear_weight :: "'a mat"
  q_linear_bias :: "'a vec"
  q_bahdanau_attention :: "nat \<Rightarrow> nat \<Rightarrow> nat \<Rightarrow> ('a, 'n) attention_module"
  q_luong_attention :: "nat \<Rightarrow> nat \<Rightarrow> nat \<Rightarrow> ('a, 'n) attention_module"
  q_luong_gate_attention :: "nat \<Rightarrow> nat \<Rightarrow> ('a, 'n) attention_module"

text \<open>
  The layer list of a stacked cell: the first cell takes the input size, every later one the
  hidden size.
\<close>

fun make_layers :: "(nat \<Rightarrow> nat \<Rightarrow> nat \<Rightarrow> 'c) \<Rightarrow> nat \<Rightarrow> nat \<Rightarrow> nat \<Rightarrow> nat \<Rightarrow> 'c list" where
  "make_layers mk i 0 input_size hidden_sz = []"
| "make_layers mk i (Suc n) input_size hidden_sz =
     mk i input_size hidden_sz # make_layers mk (Suc i) n hidden_sz hidden_sz"

definition StackedLSTM_init ::
  "nat \<Rightarrow> nat \<Rightarrow> nat \<Rightarrow> real \<Rightarrow> ('a, 'n) dec_params \<Rightarrow> error + 'a StackedLSTM" where
  "StackedLSTM_init num_layers input_size hidden_sz p ps =
     (if \<not> valid_dropout p then Inl ValueError
      else Inr \<lparr>sl_dropout = q_dropout ps p, sl_num_layers = num_layers,
                sl_layers = make_layers (q_lstm_cell ps) 0 num_layers input_size hidden_sz\<rparr>)"

definition StackedGRU_init ::
  "nat \<Rightarrow> nat \<Rightarrow> nat \<Rightarrow> real \<Rightarrow> ('a, 'n) dec_params \<Rightarrow> error + 'a StackedGRU" where
  "StackedGRU_init num_layers input_size hidden_sz p ps =
     (if \<not> valid_dropout p then Inl ValueError
      else Inr \<lparr>sg_dropout = q_dropout ps p, sg_num_layers = num_layers,
                sg_layers = make_layers (q_gru_cell ps) 0 num_layers input_size hidden_sz\<rparr>)"

text \<open>
  One step of the stacked cells. The loop runs over the layers with their index \<open>i\<close>; reading
  \<open>h_0[i]\<close> beyond the state raises IndexError. The mask of layer \<open>i\<close> is the randomness
  the dropout call after layer \<open>i\<close> draws. Beside the output and the new state, the model
  returns the list of the layer indices after which \<^verbatim>\<open>self.dropout\<close> was called, in the
  order of the calls, as a recording test double of the dropout layer would.
\<close>

fun StackedLSTM_loop ::
  "'a StackedLSTM \<Rightarrow> bool \<Rightarrow> (nat \<Rightarrow> mask2) \<Rightarrow> 'a t3 \<Rightarrow> 'a t3 \<Rightarrow> nat \<Rightarrow> 'a lstm_cell list \<Rightarrow> 'a mat
     \<Rightarrow> 'a mat list \<Rightarrow> 'a mat list \<Rightarrow> nat list
     \<Rightarrow> error + ('a mat \<times> 'a mat list \<times> 'a mat list \<times> nat list)" where
  "StackedLSTM_loop self training mk h_0 c_0 i [] input h_1 c_1 calls = Inr (input, h_1, c_1, calls)"
| "StackedLSTM_loop self training mk h_0 c_0 i (layer # layers) input h_1 c_1 calls =
     (if i < length h_0 \<and> i < length c_0 then
        ebind (layer input (h_0 ! i, c_0 ! i)) (\<lambda>(h_1_i, c_1_i).
          if i + 1 \<noteq> sl_num_layers self
          then StackedLSTM_loop self training mk h_0 c_0 (i + 1) layers
                 (dropout2 (sl_dropout self) training (mk i) h_1_i)
                 (h_1 @ [h_1_i]) (c_1 @ [c_1_i]) (calls @ [i])
          else StackedLSTM_loop self training mk h_0 c_0 (i + 1) layers h_1_i
                 (h_1 @ [h_1_i]) (c_1 @ [c_1_i]) calls)
      else Inl IndexError)"

definition StackedLSTM_forward ::
  "'a StackedLSTM \<Rightarrow> bool \<Rightarrow> (nat \<Rightarrow> mask2) \<Rightarrow> 'a mat \<Rightarrow> 'a t3 \<times> 'a t3
     \<Rightarrow> error + ('a mat \<times> ('a t3 \<times> 'a t3) \<times> nat list)" where
  "StackedLSTM_forward self training mk input hidden =
     (case hidden of (h_0, c_0) \<Rightarrow>
        ebind (StackedLSTM_loop self training mk h_0 c_0 0 (sl_layers self) input [] [] [])
          (\<lambda>(input, h_1, c_1, calls).
        ebind (stack h_1) (\<lambda>h_1.
        ebind (stack c_1) (\<lambda>c_1.
        Inr (input, (h_1, c_1), calls)))))"

fun StackedGRU_loop ::
  "'a StackedGRU \<Rightarrow> bool \<Rightarrow> (nat \<Rightarrow> mask2) \<Rightarrow> 'a t3 \<Rightarrow> nat \<Rightarrow> 'a gru_cell list \<Rightarrow> 'a mat
     \<Rightarrow> 'a mat list \<Rightarrow> nat list \<Rightarrow> error + ('a mat \<times> 'a mat list \<times> nat list)" where
  "StackedGRU_loop self training mk h_0 i [] input h_1 calls = Inr (input, h_1, calls)"
| "StackedGRU_loop self training mk h_0 i (layer # layers) input h_1 calls =
     (if i < length h_0 then
        ebind (layer input (h_0 ! i)) (\<lambda>h_1_i.
          if i + 1 \<noteq> sg_num_layers self
          then StackedGRU_loop self training mk h_0 (i + 1) layers
                 (dropout2 (sg_dropout self) training (mk i) h_1_i) (h_1 @ [h_1_i]) (calls @ [i])
          else StackedGRU_loop self training mk h_0 (i + 1) layers h_1_i (h_1 @ [h_1_i]) calls)
      else Inl IndexError)"

definition StackedGRU_forward ::
  "'a StackedGRU \<Rightarrow> bool \<Rightarrow> (nat \<Rightarrow> mask2) \<Rightarrow> 'a mat \<Rightarrow> 'a t3
     \<Rightarrow> error + ('a mat \<times> 'a t3 \<times> nat list)" where
  "StackedGRU_forward self training mk input hidden =
     ebind (StackedGRU_loop self training mk hidden 0 (sg_layers self) input [] [])
       (\<lambda>(input, h_1, calls).
     ebind (stack h_1) (\<lambda>h_1.
     Inr (input, h_1, calls)))"

section \<open>The recurrent decoder\<close>

datatype 'a stacked_rnn = SGRU "'a StackedGRU" | SLSTM "'a StackedLSTM"

text \<open>
  The attribute \<^verbatim>\<open>self.attention\<close> is \<open>None\<close> while the constructor has not assigned it,
  \<open>Some None\<close> when it holds Python's \<^verbatim>\<open>None\<close>, and \<open>Some (Some a)\<close> when it holds an
  attention module.
\<close>

record ('a, 'n) rnn_decoder =
  dec_training :: bool
  dec_embedding :: "'a mat"
  dec_rnn :: "'a stacked_rnn"
  dec_linear :: "'a Linear"
  dec_attention :: "('a, 'n) attention_module option option"
  dec_hidden_size :: nat
  dec_dropout :: "bool \<Rightarrow> 'a \<Rightarrow> 'a"
  dec_config :: config

definition rnn_decoder_init ::
  "config \<Rightarrow> 'a mat option \<Rightarrow> bool \<Rightarrow> ('a, 'n) dec_params \<Rightarrow> error + ('a, 'n) rnn_decoder" where
  "rnn_decoder_init config embedding use_attention ps =
     (let input_size = emb_size config in
      ebind (if cell config = ''gru''
             then ebind (StackedGRU_init (dec_num_layers config) input_size (hidden_size config)
                           (dropout config) ps) (\<lambda>r. Inr (SGRU r))
             else ebind (StackedLSTM_init (dec_num_layers config) input_size (hidden_size config)
                           (dropout config) ps) (\<lambda>r. Inr (SLSTM r))) (\<lambda>rnn.
      Inr \<lparr>dec_training = True,
           dec_embedding = (case embedding of Some e \<Rightarrow> e | None \<Rightarrow> q_embedding ps),
           dec_rnn = rnn,
           dec_linear = \<lparr>lin_weight = q_linear_weight ps, lin_bias = q_linear_bias ps,
                         lin_in_features = hidden_size config,
                         lin_out_features = tgt_vocab_size config\<rparr>,
           dec_attention =
             (if \<not> use_attention \<or> attention config = ''None'' then Some None
              else if attention config = ''bahdanau''
                then Some (Some (q_bahdanau_attention ps (hidden_size config) (emb_size config)
                                   (pool_size config)))
              else if attention config = ''luong''
                then Some (Some (q_luong_attention ps (hidden_size config) (emb_size config)
                                   (pool_size config)))
              else if attention config = ''luong_gate''
                then Some (Some (q_luong_gate_attention ps (hidden_size config) (emb_size config)))
              else None),
           dec_hidden_size = hidden_size config,
           dec_dropout = q_dropout ps (dropout config),
           dec_config = config\<rparr>))"

definition dec_eval :: "('a, 'n) rnn_decoder \<Rightarrow> ('a, 'n) rnn_decoder" where
  "dec_eval self = self\<lparr>dec_training := False\<rparr>"

text \<open>
  The randomness one step of the decoder draws: one mask for each dropout call of the stacked
  cell, and what the attention module uses.
\<close>

record 'n dec_noise =
  cell_mask :: "nat \<Rightarrow> mask2"
  attn_noise :: 'n

text \<open>
  The stacked cell applied to the running state. A state of the other kind (a pair for the
  GRU stack, a single tensor for the LSTM stack) is not a state the cells accept.
\<close>

fun stacked_rnn_forward ::
  "'a stacked_rnn \<Rightarrow> bool \<Rightarrow> (nat \<Rightarrow> mask2) \<Rightarrow> 'a mat \<Rightarrow> 'a rnn_state
     \<Rightarrow> error + ('a mat \<times> 'a rnn_state \<times> nat list)" where
  "stacked_rnn_forward (SGRU r) training mk input (Hidden h) =
     ebind (StackedGRU_forward r training mk input h)
       (\<lambda>(output, h_1, calls). Inr (output, Hidden h_1, calls))"
| "stacked_rnn_forward (SLSTM r) training mk input (HiddenCell h c) =
     ebind (StackedLSTM_forward r training mk input (h, c))
       (\<lambda>(output, (h_1, c_1), calls). Inr (output, HiddenCell h_1 c_1, calls))"
| "stacked_rnn_forward (SGRU r) training mk input (HiddenCell h c) = Inl RuntimeError"
| "stacked_rnn_forward (SLSTM r) training mk input (Hidden h) = Inl RuntimeError"

definition compute_score :: "('a::semiring_0, 'n) rnn_decoder \<Rightarrow> 'a mat \<Rightarrow> error + 'a mat" where
  "compute_score self hiddens = Linear_forward (dec_linear self) hiddens"

definition rnn_decoder_forward ::
  "('a::semiring_0, 'n) rnn_decoder \<Rightarrow> 'n dec_noise \<Rightarrow> int list \<Rightarrow> 'a rnn_state \<Rightarrow> 'a t3
     \<Rightarrow> error + ('a mat \<times> 'a rnn_state \<times> 'a mat option)" where
  "rnn_decoder_forward self nz input state conv =
     ebind (Embedding1 (dec_embedding self) input) (\<lambda>embs.
     ebind (stacked_rnn_forward (dec_rnn self) (dec_training self) (cell_mask nz) embs state)
       (\<lambda>(output, state, calls).
     ebind (case dec_attention self of None \<Rightarrow> Inl AttributeError | Some a \<Rightarrow> Inr a) (\<lambda>att.
     ebind (case att of
              Some attend \<Rightarrow>
                ebind (if attention (dec_config self) = ''luong_gate''
                       then attend (dec_training self) (attn_noise nz) output (T3 conv)
                       else attend (dec_training self) (attn_noise nz) output (T2 embs))
                  (\<lambda>(output, attn_weights). Inr (output, Some attn_weights))
            | None \<Rightarrow> Inr (output, None)) (\<lambda>(output, attn_weights).
     ebind (compute_score self output) (\<lambda>output.
     Inr (output, state, attn_weights))))))"

section \<open>Encoding followed by a run of decoder steps\<close>

text \<open>
  Modelled from the spec: the external driver that owns the loop over decoding steps is not
  part of the source file. It calls the decoder once for each step's input tokens, threads
  the returned state into the next call and shares the convolutional context; step \<open>k\<close> draws
  its own randomness. The results of all steps are collected in order.
\<close>

fun decode_steps ::
  "('a::semiring_0, 'n) rnn_decoder \<Rightarrow> (nat \<Rightarrow> 'n dec_noise) \<Rightarrow> nat \<Rightarrow> int list list \<Rightarrow> 'a rnn_state
     \<Rightarrow> 'a t3 \<Rightarrow> error + ('a mat \<times> 'a rnn_state \<times> 'a mat option) list" where
  "decode_steps dec nz k [] state conv = Inr []"
| "decode_steps dec nz k (input # inputs) state conv =
     ebind (rnn_decoder_forward dec (nz k) input state conv) (\<lambda>(scores, state', w).
     ebind (decode_steps dec nz (Suc k) inputs state' conv) (\<lambda>rest.
     Inr ((scores, state', w) # rest)))"

definition encode_decode ::
  "('a::semiring_0, 'n) rnn_encoder \<Rightarrow> ('a, 'n) rnn_decoder \<Rightarrow> 'n enc_noise \<Rightarrow> (nat \<Rightarrow> 'n dec_noise)
     \<Rightarrow> int mat \<Rightarrow> int list \<Rightarrow> int list list
     \<Rightarrow> error + (('a t3 \<times> 'a rnn_state \<times> 'a t3) \<times> ('a mat \<times> 'a rnn_state \<times> 'a mat option) list)" where
  "encode_decode enc dec enz dnz inputs lengths steps =
     ebind (rnn_encoder_forward enc enz inputs lengths) (\<lambda>(outputs, state, conv).
     ebind (decode_steps dec dnz 0 steps state conv) (\<lambda>results.
     Inr ((outputs, state, conv), results)))"

section \<open>Example parameters\<close>

text \<open>
  Concrete parameters over the integers, for evaluating the model: a stand-in for the
  library's recurrent networks that returns outputs of width \<open>W\<close> and a state of \<open>L\<close>
  layers of width \<open>H\<close>, computed from the input, and small weights for the other layers.
\<close>

definition ex_gru :: "nat \<Rightarrow> nat \<Rightarrow> nat \<Rightarrow> (int, unit) gru_net" where
  "ex_gru W L H = (\<lambda>training nz x.
     Inr (map (map (\<lambda>v. replicate W (sum_list v))) x,
          map (\<lambda>l. replicate (size1 x)
                      (replicate H (int l + sum_list (map (\<lambda>m. sum_list (map sum_list m)) x))))
              [0..<L]))"

definition ex_lstm :: "nat \<Rightarrow> nat \<Rightarrow> nat \<Rightarrow> (int, unit) lstm_net" where
  "ex_lstm W L H = (\<lambda>training nz x.
     Inr (map (map (\<lambda>v. replicate W (sum_list v))) x,
          (map (\<lambda>l. replicate (size1 x) (replicate H (int l))) [0..<L],
           map (\<lambda>l. replicate (size1 x) (replicate H (- int l))) [0..<L])))"

definition ex_enc_params :: "config \<Rightarrow> (int, unit) enc_params" where
  "ex_enc_params c =
     (let H = hidden_size c; D = (if bidirectional c then 2 else 1) in
      \<lparr>p_embedding = map (\<lambda>i. replicate (emb_size c) (int i)) [0..<src_vocab_size c],
       p_gru = ex_gru (D * H) (D * enc_num_layers c) H,
       p_lstm = ex_lstm (D * H) (D * enc_num_layers c) H,
       p_conv_weight = (\<lambda>i. replicate H (replicate H [1, 1, 1])),
       p_conv_bias = (\<lambda>i. replicate H 0),
       p_selu = (\<lambda>x. x),
       p_alpha_dropout = (\<lambda>p keep x. if keep then x else 0),
       p_linear_weight = replicate (2 * H) (replicate (2 * H) 1),
       p_linear_bias = replicate (2 * H) 0\<rparr>)"

definition ex_config :: config where
  "ex_config = \<lparr>cell = ''gru'', emb_size = 1, hidden_size = 1, enc_num_layers = 2,
     dec_num_layers = 2, dropout = 0, bidirectional = True, src_vocab_size = 3,
     tgt_vocab_size = 2, attention = ''luong_gate'', pool_size = 0\<rparr>"

definition ex_encoder :: "config \<Rightarrow> (int, unit) rnn_encoder" where
  "ex_encoder c = projr (rnn_encoder_init c None (ex_enc_params c))"

definition ex_enc_noise :: "unit enc_noise" where
  "ex_enc_noise = \<lparr>rnn_noise = (), dconv_mask = (\<lambda>i b c t. True)\<rparr>"

definition ex_inputs :: "int mat" where
  "ex_inputs = [[1, 1], [2, 1], [0, 1], [1, 0], [2, 0], [0, 0], [1, 0], [2, 0]]"

text \<open>The intermediate values of the forward pass on the example batch with lengths \<open>[8, 3]\<close>.\<close>

definition ex_embedded :: "int t3" where
  "ex_embedded = [[[1], [1]], [[2], [1]], [[0], [1]], [[1], [0]], [[2], [0]], [[0], [0]], [[1], [0]], [[2], [0]]]"

definition ex_packed :: "int PackedSequence" where
  "ex_packed = \<lparr>ps_data = [[1], [1], [2], [1], [0], [1], [1], [2], [0], [1], [2]],
                ps_batch_sizes = [2, 2, 2, 1, 1, 1, 1, 1]\<rparr>"

definition ex_raw :: "int t3" where
  "ex_raw = [[[1, 1], [1, 1]], [[2, 2], [1, 1]], [[0, 0], [1, 1]], [[1, 1], [0, 0]],
             [[2, 2], [0, 0]], [[0, 0], [0, 0]], [[1, 1], [0, 0]], [[2, 2], [0, 0]]]"

definition ex_outputs :: "int t3" where
  "ex_outputs = [[[2], [2]], [[4], [2]], [[0], [2]], [[2], [0]], [[4], [0]], [[0], [0]], [[2], [0]], [[4], [0]]]"

definition ex_conv :: "int t3" where
  "ex_conv = [[[30], [30]], [[8], [12]]]"

definition ex_lstm_config :: config where
  "ex_lstm_config = ex_config\<lparr>cell := ''lstm''\<rparr>"

definition ex_hidden :: "int t3" where
  "ex_hidden = [[[12], [12]], [[13], [13]], [[14], [14]], [[15], [15]]]"

definition ex_hidden_reduced :: "int t3" where
  "ex_hidden_reduced = [[[12], [12]], [[13], [13]]]"

text \<open>
  A second batch that agrees with the example batch within the true lengths \<open>[8, 3]\<close> and
  differs in the padding of the second example.
\<close>

definition ex_inputs_alt :: "int mat" where
  "ex_inputs_alt = [[1, 1], [2, 1], [0, 1], [1, 2], [2, 2], [0, 1], [1, 2], [2, 2]]"

text \<open>
  A recurrent network that is a plain recurrence over the time steps of its padded input:
  every step adds the sum of the step's input vector plus one to the hidden state, which
  starts at zero; the outputs are the hidden states and the final state is the last one.
\<close>

fun ex_steps :: "int mat \<Rightarrow> int t3 \<Rightarrow> int t3" where
  "ex_steps h [] = []"
| "ex_steps h (xt # xs) =
     (let h' = map2 (\<lambda>xv hv. map (\<lambda>a. a + sum_list xv + 1) hv) xt h in h' # ex_steps h' xs)"

definition ex_step_gru :: "(int, unit) gru_net" where
  "ex_step_gru = (\<lambda>training nz x.
     let h0 = replicate (size1 x) [0]; hs = ex_steps h0 x
     in Inr (hs, [if hs = [] then h0 else last hs]))"

definition ex_step_config :: config where
  "ex_step_config = ex_config\<lparr>bidirectional := False, enc_num_layers := 1, dec_num_layers := 1\<rparr>"

definition ex_step_encoder :: "(int, unit) rnn_encoder" where
  "ex_step_encoder =
     projr (rnn_encoder_init ex_step_config None ((ex_enc_params ex_step_config)\<lparr>p_gru := ex_step_gru\<rparr>))"

definition ex_batch :: "int mat" where
  "ex_batch = [[1, 1], [2, 1], [0, 1], [1, 1], [2, 1], [0, 1], [1, 1], [2, 0], [1, 0]]"

definition ex_alone :: "int mat" where
  "ex_alone = [[1], [1], [1], [1], [1], [1], [1]]"

definition ex_batch_result :: "int t3 \<times> int rnn_state \<times> int t3" where
  "ex_batch_result =
     ([[[2], [2]], [[5], [4]], [[6], [6]], [[8], [8]], [[11], [10]], [[12], [12]], [[14], [14]],
       [[17], [15]], [[19], [16]]],
      Hidden [[[19], [16]]],
      [[[185], [218], [169]], [[174], [206], [159]]])"

definition ex_alone_result :: "int t3 \<times> int rnn_state \<times> int t3" where
  "ex_alone_result = ([[[2]], [[4]], [[6]], [[8]], [[10]], [[12]], [[14]]], Hidden [[[14]]], [[[72]]])"

text \<open>Batches of time length 1, 5 and 20.\<close>

definition ex_inputs1 :: "int mat" where
  "ex_inputs1 = [[1, 1]]"

definition ex_inputs5 :: "int mat" where
  "ex_inputs5 = [[1, 1], [2, 1], [0, 1], [1, 0], [2, 0]]"

definition ex_inputs20 :: "int mat" where
  "ex_inputs20 = map (\<lambda>t. [int (t mod 3), 1]) [0..<20]"

text \<open>
  Stand-ins for the library's cells, which check the widths of their arguments, and for the
  decoder's other parameters; an attention module that returns the decoder output unchanged
  together with one weight for every position of the context.
\<close>

definition ex_gru_cell :: "nat \<Rightarrow> nat \<Rightarrow> nat \<Rightarrow> int gru_cell" where
  "ex_gru_cell i n h = (\<lambda>x hx.
     if has_shape2 x (length hx) n \<and> has_shape2 hx (length x) h
     then Inr (map2 (\<lambda>xr hr. map (\<lambda>a. a + sum_list xr + int i) hr) x hx)
     else Inl RuntimeError)"

definition ex_lstm_cell :: "nat \<Rightarrow> nat \<Rightarrow> nat \<Rightarrow> int lstm_cell" where
  "ex_lstm_cell i n h = (\<lambda>x (hx, cx).
     if has_shape2 x (length hx) n \<and> has_shape2 hx (length x) h \<and> has_shape2 cx (length x) h
     then Inr (map2 (\<lambda>xr hr. map (\<lambda>a. a + sum_list xr + int i) hr) x hx,
               map2 (\<lambda>xr cr. map (\<lambda>a. a - sum_list xr) cr) x cx)
     else Inl RuntimeError)"

definition ex_attention :: "(int, unit) attention_module" where
  "ex_attention = (\<lambda>training nz output context.
     Inr (output, case context of T3 c \<Rightarrow> map (map sum_list) c | T2 e \<Rightarrow> map (\<lambda>r. [sum_list r]) e))"

definition ex_dec_params :: "config \<Rightarrow> (int, unit) dec_params" where
  "ex_dec_params c =
     \<lparr>q_embedding = map (\<lambda>i. replicate (emb_size c) (int i)) [0..<tgt_vocab_size c],
      q_gru_cell = ex_gru_cell,
      q_lstm_cell = ex_lstm_cell,
      q_dropout = (\<lambda>p keep a. if keep then a else 0),
      q_linear_weight = replicate (tgt_vocab_size c) (replicate (hidden_size c) 1),
      q_linear_bias = replicate (tgt_vocab_size c) 0,
      q_bahdanau_attention = (\<lambda>h e p. ex_attention),
      q_luong_attention = (\<lambda>h e p. ex_attention),
      q_luong_gate_attention = (\<lambda>h e. ex_attention)\<rparr>"

definition ex_mask :: "nat \<Rightarrow> mask2" where
  "ex_mask i = (\<lambda>b j. even (i + b + j))"

definition ex_stacked_gru :: "nat \<Rightarrow> int StackedGRU" where
  "ex_stacked_gru n = projr (StackedGRU_init n 1 2 0 (ex_dec_params ex_config))"

definition ex_stacked_lstm :: "nat \<Rightarrow> int StackedLSTM" where
  "ex_stacked_lstm n = projr (StackedLSTM_init n 1 2 0 (ex_dec_params ex_config))"

definition ex_h0 :: "int t3" where
  "ex_h0 = [[[1, 2], [3, 4]], [[5, 6], [7, 8]], [[9, 10], [11, 12]]]"

definition ex_c0 :: "int t3" where
  "ex_c0 = [[[0, 1], [0, 1]], [[1, 0], [1, 0]], [[2, 2], [2, 2]]]"

definition ex_step_input :: "int mat" where
  "ex_step_input = [[1], [2]]"

definition ex_h1 :: "int t3" where
  "ex_h1 = [[[2, 3], [5, 6]], [[8, 9], [14, 15]], [[20, 21], [27, 28]]]"

definition ex_c1 :: "int t3" where
  "ex_c1 = [[[- 1, 0], [- 2, - 1]], [[- 1, - 2], [- 5, - 6]], [[- 7, - 7], [- 12, - 12]]]"

definition ex_step_output :: "int mat" where
  "ex_step_output = [[20, 21], [27, 28]]"

text \<open>Decoders for the example configuration and for variants of its attention mode.\<close>

definition ex_decoder :: "config \<Rightarrow> (int, unit) rnn_decoder" where
  "ex_decoder c = projr (rnn_decoder_init c None True (ex_dec_params c))"

definition ex_dec_noise :: "unit dec_noise" where
  "ex_dec_noise = \<lparr>cell_mask = ex_mask, attn_noise = ()\<rparr>"

definition ex_none_config :: config where
  "ex_none_config = ex_config\<lparr>attention := ''None''\<rparr>"

definition ex_bad_config :: config where
  "ex_bad_config = ex_config\<lparr>attention := ''transformer''\<rparr>"

definition ex_tokens :: "int list" where
  "ex_tokens = [1, 0]"

definition ex_lower_config :: config where
  "ex_lower_config = ex_config\<lparr>attention := ''none''\<rparr>"

definition ex_scores :: "int mat" where
  "ex_scores = [[27, 27], [14, 14]]"

definition ex_next_state :: "int rnn_state" where
  "ex_next_state = Hidden [[[13], [12]], [[27], [14]]]"

text \<open>
  Two draws of the randomness of a run of three decoding steps after encoding the example
  batch, and the tokens fed to the steps.
\<close>

definition ex_enc_noise_alt :: "unit enc_noise" where
  "ex_enc_noise_alt = \<lparr>rnn_noise = (), dconv_mask = (\<lambda>i b c t. even (i + b + c + t))\<rparr>"

definition ex_dec_noises :: "nat \<Rightarrow> unit dec_noise" where
  "ex_dec_noises k = \<lparr>cell_mask = (\<lambda>i b j. even (k + i + b + j)), attn_noise = ()\<rparr>"

definition ex_dec_noises_alt :: "nat \<Rightarrow> unit dec_noise" where
  "ex_dec_noises_alt k = \<lparr>cell_mask = (\<lambda>i b j. odd (k + i + b)), attn_noise = ()\<rparr>"

definition ex_step_tokens :: "int list list" where
  "ex_step_tokens = [[1, 1], [0, 1], [1, 0]]"

definition ex_round_trip ::
  "(int t3 \<times> int rnn_state \<times> int t3) \<times> (int mat \<times> int rnn_state \<times> int mat option) list" where
  "ex_round_trip =
     ((ex_outputs, Hidden ex_hidden_reduced, ex_conv),
      [([[27, 27], [27, 27]], Hidden [[[13], [13]], [[27], [27]]], Some [[30, 30], [8, 12]]),
       ([[41, 41], [42, 42]], Hidden [[[13], [14]], [[41], [42]]], Some [[30, 30], [8, 12]]),
       ([[56, 56], [57, 57]], Hidden [[[14], [14]], [[56], [57]]], Some [[30, 30], [8, 12]])])"

text \<open>
  The end-to-end scenario: the example configuration with hidden size 8, a batch of two
  sequences of lengths 4 and 2 padded to length 4, and the values of the forward passes on
  the example batch of lengths 8 and 3.
\<close>

definition ex_scenario_config :: config where
  "ex_scenario_config = ex_config\<lparr>hidden_size := 8\<rparr>"

definition ex_inputs4 :: "int mat" where
  "ex_inputs4 = [[1, 1], [2, 1], [0, 0], [1, 0]]"

definition ex_scenario_outputs :: "int t3" where
  "ex_scenario_outputs =
     map (map (replicate 8)) [[2, 2], [4, 2], [0, 2], [2, 0], [4, 0], [0, 0], [2, 0], [4, 0]]"

definition ex_scenario_state :: "int t3" where
  "ex_scenario_state = map (map (replicate 8)) [[12, 12], [13, 13]]"

definition ex_scenario_conv :: "int t3" where
  "ex_scenario_conv = map (map (replicate 8)) [[15360, 15360], [4096, 6144]]"

definition ex_scenario_scores :: "int mat" where
  "ex_scenario_scores = [[528, 528], [496, 496]]"

definition ex_scenario_next_state :: "int t3" where
  "ex_scenario_next_state = map (map (replicate 8)) [[13, 12], [66, 62]]"

definition ex_scenario_weights :: "int mat" where
  "ex_scenario_weights = [[122880, 122880], [32768, 49152]]"

text \<open>
  Configurations with a unidirectional encoder: an LSTM with two encoder and two decoder
  layers, and a GRU with one encoder and two decoder layers.
\<close>

definition ex_uni_lstm_config :: config where
  "ex_uni_lstm_config = ex_config\<lparr>cell := ''lstm'', bidirectional := False\<rparr>"

definition ex_uni_gru_config :: config where
  "ex_uni_gru_config = ex_config\<lparr>bidirectional := False, enc_num_layers := 1\<rparr>"

definition ex_uni_outputs :: "int t3" where
  "ex_uni_outputs = [[[1], [1]], [[2], [1]], [[0], [1]], [[1], [0]], [[2], [0]], [[0], [0]], [[1], [0]], [[2], [0]]]"

definition ex_uni_conv :: "int t3" where
  "ex_uni_conv = [[[15], [15]], [[4], [6]]]"

section \<open>Basic facts\<close>

lemma ebind_Inr [simp]: "ebind (Inr x) f = f x"
  by (simp add: ebind_def)

lemma ebind_Inl [simp]: "ebind (Inl e) f = Inl e"
  by (simp add: ebind_def)

lemma ebind_eq_Inr: "ebind m f = Inr y \<longleftrightarrow> (\<exists>x. m = Inr x \<and> f x = Inr y)"
  by (cases m) auto

lemma stride2_length: "length (stride2 xs) = (length xs + 1) div 2"
  by (induction xs rule: stride2.induct) auto

lemma stride2_nth: "i < (length xs + 1) div 2 \<Longrightarrow> stride2 xs ! i = xs ! (2 * i)"
proof (induction xs arbitrary: i rule: stride2.induct)
  case (3 x y xs)
  then show ?case by (cases i) auto
qed auto

lemma stride2_map: "stride2 xs = map (\<lambda>i. xs ! (2 * i)) [0..<(length xs + 1) div 2]"
  by (rule nth_equalityI) (simp_all add: stride2_length stride2_nth)

section \<open>The encoder's unused submodules\<close>

text \<open>
  C10. The encoder's constructor builds a linear layer from \<open>2 * hidden_size\<close> to
  \<open>2 * hidden_size\<close> features and a GLU, and the forward pass applies neither: replacing
  the two submodules of an encoder by any others leaves the result of every forward pass
  unchanged, and two encoders constructed from parameters that differ only in the linear
  layer's weight and bias return the same result on every input.
\<close>

lemma forward_without_linear_glu:
  "rnn_encoder_forward (self\<lparr>enc_linear := l, enc_glu := g\<rparr>) nz inputs lengths
     = rnn_encoder_forward self nz inputs lengths"
  by (simp add: rnn_encoder_forward_def cong: if_cong)

lemma forward_without_linear:
  "rnn_encoder_forward (self\<lparr>enc_linear := l\<rparr>) nz inputs lengths
     = rnn_encoder_forward self nz inputs lengths"
  by (simp add: rnn_encoder_forward_def cong: if_cong)

lemma init_linear_params:
  "rnn_encoder_init config embedding (ps\<lparr>p_linear_weight := w, p_linear_bias := b\<rparr>)
     = ebind (rnn_encoder_init config embedding ps)
         (\<lambda>enc. Inr (enc\<lparr>enc_linear := \<lparr>lin_weight = w, lin_bias = b,
                                           lin_in_features = 2 * hidden_size config,
                                           lin_out_features = 2 * hidden_size config\<rparr>\<rparr>))"
  by (simp add: rnn_encoder_init_def dconv_conv_def split: option.splits)

lemma init_linear_features:
  "map_sum id (\<lambda>enc. (lin_in_features (enc_linear enc), lin_out_features (enc_linear enc)))
        (rnn_encoder_init config embedding ps)
     = map_sum id (\<lambda>enc. (2 * hidden_size config, 2 * hidden_size config))
        (rnn_encoder_init config embedding ps)"
  by (simp add: rnn_encoder_init_def)

theorem encoder_ignores_linear_glu:
  "rnn_encoder_forward (self\<lparr>enc_linear := l, enc_glu := g\<rparr>) nz inputs lengths
     = rnn_encoder_forward self nz inputs lengths
   \<and> ebind (rnn_encoder_init config embedding (ps\<lparr>p_linear_weight := w, p_linear_bias := b\<rparr>))
        (\<lambda>enc. rnn_encoder_forward enc nz inputs lengths)
     = ebind (rnn_encoder_init config embedding ps)
        (\<lambda>enc. rnn_encoder_forward enc nz inputs lengths)
   \<and> map_sum id (\<lambda>enc. (lin_in_features (enc_linear enc), lin_out_features (enc_linear enc)))
        (rnn_encoder_init config embedding ps)
     = map_sum id (\<lambda>enc. (2 * hidden_size config, 2 * hidden_size config))
        (rnn_encoder_init config embedding ps)"
proof (intro conjI)
  show "rnn_encoder_forward (self\<lparr>enc_linear := l, enc_glu := g\<rparr>) nz inputs lengths
     = rnn_encoder_forward self nz inputs lengths"
    by (rule forward_without_linear_glu)
  show "ebind (rnn_encoder_init config embedding (ps\<lparr>p_linear_weight := w, p_linear_bias := b\<rparr>))
        (\<lambda>enc. rnn_encoder_forward enc nz inputs lengths)
     = ebind (rnn_encoder_init config embedding ps)
        (\<lambda>enc. rnn_encoder_forward enc nz inputs lengths)"
    unfolding init_linear_params
    by (cases "rnn_encoder_init config embedding ps") (simp_all add: forward_without_linear)
  show "map_sum id (\<lambda>enc. (lin_in_features (enc_linear enc), lin_out_features (enc_linear enc)))
        (rnn_encoder_init config embedding ps)
     = map_sum id (\<lambda>enc. (2 * hidden_size config, 2 * hidden_size config))
        (rnn_encoder_init config embedding ps)"
    by (rule init_linear_features)
qed

theorem encoder_ignores_linear_glu_witness:
  "rnn_encoder_forward ((ex_encoder ex_config)\<lparr>enc_linear :=
        \<lparr>lin_weight = [[5, 5], [7, 7]], lin_bias = [1, 1], lin_in_features = 2,
         lin_out_features = 2\<rparr>, enc_glu := 0\<rparr>) ex_enc_noise ex_inputs [8, 3]
     = Inr ([[[2], [2]], [[4], [2]], [[0], [2]], [[2], [0]], [[4], [0]], [[0], [0]], [[2], [0]], [[4], [0]]],
            Hidden ex_hidden_reduced, [[[30], [30]], [[8], [12]]])"
proof -
  have "rnn_encoder_forward (ex_encoder ex_config) ex_enc_noise ex_inputs [8, 3]
     = Inr ([[[2], [2]], [[4], [2]], [[0], [2]], [[2], [0]], [[4], [0]], [[0], [0]], [[2], [0]], [[4], [0]]],
            Hidden ex_hidden_reduced, [[[30], [30]], [[8], [12]]])"
    by code_simp
  then show ?thesis
    by (simp only: conjunct1 [OF encoder_ignores_linear_glu])
qed

section \<open>State handoff\<close>

text \<open>
  C5 (amended). Whenever the encoder's forward pass returns, the state it hands to the
  decoder is the recurrent network's final state reduced as follows. With \<open>cell = gru\<close> it
  is the first \<open>dec_num_layers\<close> entries of the hidden state, all of them when the state has
  fewer: \<open>min dec_num_layers n\<close> layers for a state of \<open>n\<close> entries. With any other cell (the
  LSTM) it is every other entry, at the even indices, of the hidden state and of the cell
  state, each on its own: half the entries, rounded up, whatever \<open>dec_num_layers\<close> is.
  So the state has the decoder's layer count only when the network's state happens to
  supply it.
\<close>

theorem state_handoff:
  assumes emb: "Embedding2 (enc_embedding self) inputs = Inr e"
      and pk: "pack e lengths = Inr embs"
      and run: "rnn_module_forward (enc_rnn self) (enc_training self) (rnn_noise nz)
                  (fst (unpack embs)) = Inr (raw, st)"
      and fw: "rnn_encoder_forward self nz inputs lengths = Inr (outputs, state, conv)"
  shows "(cell (enc_config self) = ''gru'' \<longrightarrow>
            (\<exists>h s. st = Hidden h \<and> state = Hidden s
               \<and> s = take (dec_num_layers (enc_config self)) h
               \<and> length s = min (dec_num_layers (enc_config self)) (length h)))
       \<and> (cell (enc_config self) \<noteq> ''gru'' \<longrightarrow>
            (\<exists>h c sh sc. st = HiddenCell h c \<and> state = HiddenCell sh sc
               \<and> sh = map (\<lambda>i. h ! (2 * i)) [0..<(length h + 1) div 2]
               \<and> sc = map (\<lambda>i. c ! (2 * i)) [0..<(length c + 1) div 2]
               \<and> length sh = (length h + 1) div 2
               \<and> length sc = (length c + 1) div 2))"
proof -
  from fw emb pk run have "reduce_state (enc_config self) st = Inr state"
    by (auto simp: rnn_encoder_forward_def Let_def ebind_eq_Inr)
  then show ?thesis
    by (auto simp: reduce_state_def stride2_map split: if_splits rnn_state.splits)
qed

theorem state_handoff_witness:
  "Embedding2 (enc_embedding (ex_encoder ex_config)) ex_inputs = Inr ex_embedded
   \<and> pack ex_embedded [8, 3] = Inr ex_packed
   \<and> rnn_module_forward (enc_rnn (ex_encoder ex_config)) (enc_training (ex_encoder ex_config))
        (rnn_noise ex_enc_noise) (fst (unpack ex_packed))
       = Inr (ex_raw, Hidden ex_hidden)
   \<and> rnn_encoder_forward (ex_encoder ex_config) ex_enc_noise ex_inputs [8, 3]
       = Inr (ex_outputs, Hidden ex_hidden_reduced, ex_conv)
   \<and> cell (enc_config (ex_encoder ex_config)) = ''gru''
   \<and> ex_hidden_reduced = take (dec_num_layers (enc_config (ex_encoder ex_config))) ex_hidden
   \<and> length ex_hidden_reduced
       = min (dec_num_layers (enc_config (ex_encoder ex_config))) (length ex_hidden)
   \<and> rnn_module_forward (enc_rnn (ex_encoder ex_lstm_config)) (enc_training (ex_encoder ex_lstm_config))
        (rnn_noise ex_enc_noise) (fst (unpack ex_packed))
       = Inr (ex_raw, HiddenCell [[[0], [0]], [[1], [1]], [[2], [2]], [[3], [3]]]
                                 [[[0], [0]], [[- 1], [- 1]], [[- 2], [- 2]], [[- 3], [- 3]]])
   \<and> rnn_encoder_forward (ex_encoder ex_lstm_config) ex_enc_noise ex_inputs [8, 3]
       = Inr (ex_outputs, HiddenCell [[[0], [0]], [[2], [2]]] [[[0], [0]], [[- 2], [- 2]]], ex_conv)
   \<and> cell (enc_config (ex_encoder ex_lstm_config)) \<noteq> ''gru''"
proof -
  have a: "Embedding2 (enc_embedding (ex_encoder ex_config)) ex_inputs = Inr ex_embedded"
    by code_simp
  have b: "pack ex_embedded [8, 3] = Inr ex_packed"
    by code_simp
  have c: "rnn_module_forward (enc_rnn (ex_encoder ex_config)) (enc_training (ex_encoder ex_config))
        (rnn_noise ex_enc_noise) (fst (unpack ex_packed))
       = Inr (ex_raw, Hidden ex_hidden)"
    by code_simp
  have d: "rnn_encoder_forward (ex_encoder ex_config) ex_enc_noise ex_inputs [8, 3]
       = Inr (ex_outputs, Hidden ex_hidden_reduced, ex_conv)"
    by code_simp
  have g: "cell (enc_config (ex_encoder ex_config)) = ''gru''"
    by code_simp
  have c': "rnn_module_forward (enc_rnn (ex_encoder ex_lstm_config)) (enc_training (ex_encoder ex_lstm_config))
        (rnn_noise ex_enc_noise) (fst (unpack ex_packed))
       = Inr (ex_raw, HiddenCell [[[0], [0]], [[1], [1]], [[2], [2]], [[3], [3]]]
                                 [[[0], [0]], [[- 1], [- 1]], [[- 2], [- 2]], [[- 3], [- 3]]])"
    by code_simp
  have d': "rnn_encoder_forward (ex_encoder ex_lstm_config) ex_enc_noise ex_inputs [8, 3]
       = Inr (ex_outputs, HiddenCell [[[0], [0]], [[2], [2]]] [[[0], [0]], [[- 2], [- 2]]], ex_conv)"
    by code_simp
  have g': "cell (enc_config (ex_encoder ex_lstm_config)) \<noteq> ''gru''"
    by code_simp
  have "\<exists>h s. Hidden ex_hidden = Hidden h \<and> Hidden ex_hidden_reduced = Hidden s
          \<and> s = take (dec_num_layers (enc_config (ex_encoder ex_config))) h
          \<and> length s = min (dec_num_layers (enc_config (ex_encoder ex_config))) (length h)"
    by (rule state_handoff [OF a b c d, THEN conjunct1, THEN mp, OF g])
  then have h1: "ex_hidden_reduced
                   = take (dec_num_layers (enc_config (ex_encoder ex_config))) ex_hidden"
    and h2: "length ex_hidden_reduced
               = min (dec_num_layers (enc_config (ex_encoder ex_config))) (length ex_hidden)"
    by auto
  show ?thesis
    by (intro conjI a b c d g h1 h2 c' d' g')
qed

text \<open>
  C5 (as stated). The state is not always reduced to the decoder's layer count. A
  unidirectional LSTM encoder with two layers and a decoder with two layers: the network's
  state has two entries, the encoder hands over one, and the decoder's first step on it
  raises an IndexError. A unidirectional GRU encoder with one layer and a decoder with two:
  the encoder hands over the one entry there is, and the decoder's step raises as well.
\<close>

theorem state_handoff_counterexample:
  "cell ex_uni_lstm_config = ''lstm''
   \<and> enc_num_layers ex_uni_lstm_config = 2 \<and> dec_num_layers ex_uni_lstm_config = 2
   \<and> rnn_module_forward (enc_rnn (ex_encoder ex_uni_lstm_config)) True (rnn_noise ex_enc_noise)
        (fst (unpack ex_packed))
       = Inr (ex_uni_outputs, HiddenCell [[[0], [0]], [[1], [1]]] [[[0], [0]], [[- 1], [- 1]]])
   \<and> rnn_encoder_forward (ex_encoder ex_uni_lstm_config) ex_enc_noise ex_inputs [8, 3]
       = Inr (ex_uni_outputs, HiddenCell [[[0], [0]]] [[[0], [0]]], ex_uni_conv)
   \<and> rnn_decoder_forward (ex_decoder ex_uni_lstm_config) ex_dec_noise ex_tokens
        (HiddenCell [[[0], [0]]] [[[0], [0]]]) ex_uni_conv = Inl IndexError
   \<and> cell ex_uni_gru_config = ''gru''
   \<and> enc_num_layers ex_uni_gru_config = 1 \<and> dec_num_layers ex_uni_gru_config = 2
   \<and> rnn_encoder_forward (ex_encoder ex_uni_gru_config) ex_enc_noise ex_inputs [8, 3]
       = Inr (ex_uni_outputs, Hidden [[[12], [12]]], ex_uni_conv)
   \<and> rnn_decoder_forward (ex_decoder ex_uni_gru_config) ex_dec_noise ex_tokens
        (Hidden [[[12], [12]]]) ex_uni_conv = Inl IndexError"
  by code_simp

section \<open>Folding the two directions\<close>

lemma map2_same: "map2 f (map g xs) (map h xs) = map (\<lambda>x. f (g x) (h x)) xs"
  by (induction xs) auto

lemma tadd_slices:
  "map2 (map2 vadd) (slice_to H x) (slice_from H x) = map (map (\<lambda>v. vadd (take H v) (drop H v))) x"
  by (simp add: slice_to_def slice_from_def map2_same)

lemma has_shape2_iff: "has_shape2 m r c \<longleftrightarrow> length m = r \<and> (\<forall>v\<in>set m. length v = c)"
  by (simp add: has_shape2_def list_all_iff)

lemma has_shape3_iff: "has_shape3 x a b c \<longleftrightarrow> length x = a \<and> (\<forall>m\<in>set x. has_shape2 m b c)"
  by (simp add: has_shape3_def list_all_iff)

lemma vadd_halves: "length v = 2 * H \<Longrightarrow> vadd (take H v) (drop H v) = map2 (+) (take H v) (drop H v)"
  by (simp add: vadd_def)

lemma sum_halves:
  assumes "has_shape3 x T B (2 * H)"
  shows "map (map (\<lambda>v. vadd (take H v) (drop H v))) x
           = map (map (\<lambda>v. map2 (+) (take H v) (drop H v))) x"
    and "has_shape3 (map (map (\<lambda>v. map2 (+) (take H v) (drop H v))) x) T B H"
  using assms by (auto simp: has_shape3_iff has_shape2_iff vadd_halves)

text \<open>
  C7. When the encoder is bidirectional and the recurrent network returns per-position
  vectors of width \<open>2 * hidden_size\<close>, each output vector of the encoder is the elementwise
  sum of the first and the second half of the network's vector, so it has width
  \<open>hidden_size\<close>; when the encoder is not bidirectional its outputs are the network's.
\<close>

theorem bidirectional_halves_summed:
  assumes emb: "Embedding2 (enc_embedding self) inputs = Inr e"
      and pk: "pack e lengths = Inr embs"
      and run: "rnn_module_forward (enc_rnn self) (enc_training self) (rnn_noise nz)
                  (fst (unpack embs)) = Inr (raw, st)"
      and fw: "rnn_encoder_forward self nz inputs lengths = Inr (outputs, state, conv)"
  shows "(bidirectional (enc_config self) \<longrightarrow> has_shape3 raw T B (2 * enc_hidden_size self) \<longrightarrow>
            outputs = map (map (\<lambda>v. map2 (+) (take (enc_hidden_size self) v)
                                                 (drop (enc_hidden_size self) v))) raw
            \<and> has_shape3 outputs T B (enc_hidden_size self))
       \<and> (\<not> bidirectional (enc_config self) \<longrightarrow> outputs = raw)"
proof -
  from fw emb pk run
  have *: "(if bidirectional (enc_config self)
            then tadd (slice_to (enc_hidden_size self) raw) (slice_from (enc_hidden_size self) raw)
            else Inr raw) = Inr outputs"
    by (auto simp: rnn_encoder_forward_def Let_def ebind_eq_Inr)
  show ?thesis
  proof (intro conjI impI)
    assume "\<not> bidirectional (enc_config self)"
    with * show "outputs = raw" by simp
  next
    assume bi: "bidirectional (enc_config self)"
       and sh: "has_shape3 raw T B (2 * enc_hidden_size self)"
    from * bi have "outputs = map (map (\<lambda>v. vadd (take (enc_hidden_size self) v)
                                                  (drop (enc_hidden_size self) v))) raw"
      by (auto simp: tadd_def Let_def tadd_slices split: if_splits)
    then have o: "outputs = map (map (\<lambda>v. map2 (+) (take (enc_hidden_size self) v)
                                                 (drop (enc_hidden_size self) v))) raw"
      by (simp only: sum_halves(1) [OF sh])
    then show "outputs = map (map (\<lambda>v. map2 (+) (take (enc_hidden_size self) v)
                                                 (drop (enc_hidden_size self) v))) raw" .
    show "has_shape3 outputs T B (enc_hidden_size self)"
      unfolding o by (rule sum_halves(2) [OF sh])
  qed
qed

theorem bidirectional_halves_summed_witness:
  "Embedding2 (enc_embedding (ex_encoder ex_config)) ex_inputs = Inr ex_embedded
   \<and> pack ex_embedded [8, 3] = Inr ex_packed
   \<and> rnn_module_forward (enc_rnn (ex_encoder ex_config)) (enc_training (ex_encoder ex_config))
        (rnn_noise ex_enc_noise) (fst (unpack ex_packed))
       = Inr (ex_raw, Hidden ex_hidden)
   \<and> rnn_encoder_forward (ex_encoder ex_config) ex_enc_noise ex_inputs [8, 3]
       = Inr (ex_outputs, Hidden ex_hidden_reduced, ex_conv)
   \<and> bidirectional (enc_config (ex_encoder ex_config))
   \<and> has_shape3 ex_raw 8 2 (2 * enc_hidden_size (ex_encoder ex_config))
   \<and> ex_outputs = map (map (\<lambda>v. map2 (+) (take (enc_hidden_size (ex_encoder ex_config)) v)
                                            (drop (enc_hidden_size (ex_encoder ex_config)) v))) ex_raw
   \<and> has_shape3 ex_outputs 8 2 (enc_hidden_size (ex_encoder ex_config))"
proof -
  have a: "Embedding2 (enc_embedding (ex_encoder ex_config)) ex_inputs = Inr ex_embedded"
    by code_simp
  have b: "pack ex_embedded [8, 3] = Inr ex_packed"
    by code_simp
  have c: "rnn_module_forward (enc_rnn (ex_encoder ex_config)) (enc_training (ex_encoder ex_config))
        (rnn_noise ex_enc_noise) (fst (unpack ex_packed))
       = Inr (ex_raw, Hidden ex_hidden)"
    by code_simp
  have d: "rnn_encoder_forward (ex_encoder ex_config) ex_enc_noise ex_inputs [8, 3]
       = Inr (ex_outputs, Hidden ex_hidden_reduced, ex_conv)"
    by code_simp
  have bi: "bidirectional (enc_config (ex_encoder ex_config))"
    by code_simp
  have sh: "has_shape3 ex_raw 8 2 (2 * enc_hidden_size (ex_encoder ex_config))"
    by code_simp
  have r: "ex_outputs = map (map (\<lambda>v. map2 (+) (take (enc_hidden_size (ex_encoder ex_config)) v)
                                            (drop (enc_hidden_size (ex_encoder ex_config)) v))) ex_raw
   \<and> has_shape3 ex_outputs 8 2 (enc_hidden_size (ex_encoder ex_config))"
    by (rule bidirectional_halves_summed [OF a b c d, THEN conjunct1, THEN mp, OF bi, THEN mp, OF sh])
  show ?thesis
    by (intro conjI a b c d bi sh conjunct1 [OF r] conjunct2 [OF r])
qed

section \<open>Packing\<close>


lemma filter_prefix:
  assumes "\<And>i j. i \<le> j \<Longrightarrow> j < length ls \<Longrightarrow> P (ls ! j) \<Longrightarrow> P (ls ! i)"
      and "b < length ls"
  shows "b < length (filter P ls) \<longleftrightarrow> P (ls ! b)"
  using assms
proof (induction ls arbitrary: b)
  case Nil
  then show ?case by simp
next
  case (Cons x xs)
  have mono: "\<And>i j. i \<le> j \<Longrightarrow> j < length xs \<Longrightarrow> P (xs ! j) \<Longrightarrow> P (xs ! i)"
    using Cons.prems(1) [of "Suc _" "Suc _"] by simp
  show ?case
  proof (cases "P x")
    case True
    then show ?thesis
      using Cons.IH [OF mono] Cons.prems(2) by (cases b) auto
  next
    case False
    have none: "\<not> P (xs ! j)" if "j < length xs" for j
      using Cons.prems(1) [of 0 "Suc j"] that False by auto
    then have "filter P xs = []"
      by (auto simp: filter_empty_conv in_set_conv_nth)
    moreover have "\<not> P ((x # xs) ! b)"
      using Cons.prems(2) False none by (cases b) auto
    ultimately show ?thesis using False by simp
  qed
qed

lemma pack_batch_size_iff:
  assumes "sorted (rev lengths)" "b < length lengths"
  shows "b < pack_batch_size lengths t \<longleftrightarrow> int t < lengths ! b"
  unfolding pack_batch_size_def
proof (rule filter_prefix)
  fix i j assume "i \<le> j" "j < length lengths" "int t < lengths ! j"
  moreover from this assms(1) have "lengths ! j \<le> lengths ! i"
    by (intro sorted_rev_nth_mono)
  ultimately show "int t < lengths ! i" by simp
qed (rule assms(2))

lemma pack_batch_size_le: "pack_batch_size lengths t \<le> length lengths"
  by (simp add: pack_batch_size_def)

text \<open>The packed sequence depends on the padded tensor only within the true lengths.\<close>

lemma pack_cong:
  assumes len: "length x = length y"
      and s1: "size1 x = size1 y" and s2: "size2 x = size2 y"
      and agree: "\<And>t b. t < length x \<Longrightarrow> b < size1 x \<Longrightarrow> int t < lengths ! b \<Longrightarrow>
                    x ! t ! b = y ! t ! b"
      and rows: "\<And>t. t < length x \<Longrightarrow> length (x ! t) = size1 x \<and> length (y ! t) = size1 x"
  shows "pack x lengths = pack y lengths"
proof (cases "length x * size1 x * size2 x = 0 \<or> length lengths \<noteq> size1 x \<or> last lengths \<le> 0
               \<or> \<not> sorted (rev lengths) \<or> int (length x) < hd lengths")
  case True
  then show ?thesis by (auto simp: pack_def len [symmetric] s1 [symmetric] s2 [symmetric])
next
  case False
  then have ok: "length lengths = size1 x" "sorted (rev lengths)" "hd lengths \<le> int (length x)"
    by auto
  have "take (pack_batch_size lengths t) (x ! t) = take (pack_batch_size lengths t) (y ! t)"
    if "t \<in> set (pack_steps lengths)" for t
  proof -
    from that ok(3) have t: "t < length x" by (auto simp: pack_steps_def)
    show ?thesis
    proof (rule nth_equalityI)
      show "length (take (pack_batch_size lengths t) (x ! t))
              = length (take (pack_batch_size lengths t) (y ! t))"
        using rows [OF t] by simp
    next
      fix b assume "b < length (take (pack_batch_size lengths t) (x ! t))"
      then have b: "b < pack_batch_size lengths t" by simp
      with pack_batch_size_le [of lengths t] have bl: "b < length lengths" by simp
      with b ok(2) have "int t < lengths ! b" by (simp add: pack_batch_size_iff)
      with agree [OF t] bl ok(1) b
      show "take (pack_batch_size lengths t) (x ! t) ! b = take (pack_batch_size lengths t) (y ! t) ! b"
        by simp
    qed
  qed
  then have meq: "map (\<lambda>t. take (pack_batch_size lengths t) (x ! t)) (pack_steps lengths)
           = map (\<lambda>t. take (pack_batch_size lengths t) (y ! t)) (pack_steps lengths)"
    by simp
  show ?thesis
    by (simp only: pack_def len [symmetric] s1 [symmetric] s2 [symmetric] meq)
qed




lemma size1_shape: "length x = a \<Longrightarrow> \<forall>m\<in>set x. length m = b \<Longrightarrow> 0 < a \<Longrightarrow> size1 x = b"
  by (cases x) (auto simp: size1_def)

lemma size1_shape3: "has_shape3 x a b c \<Longrightarrow> 0 < a \<Longrightarrow> size1 x = b"
  by (rule size1_shape[of x a b]) (auto simp: has_shape3_iff has_shape2_iff)

lemma size2_shape3: "has_shape3 x a b c \<Longrightarrow> 0 < a \<Longrightarrow> 0 < b \<Longrightarrow> size2 x = c"
  by (cases x; cases "hd x") (auto simp: size2_def has_shape3_iff has_shape2_iff)

lemma shape3_nth: "has_shape3 x a b c \<Longrightarrow> t < a \<Longrightarrow> length (x ! t) = b"
  by (auto simp: has_shape3_iff has_shape2_iff)

lemma shape3_nth_nth:
  assumes "has_shape3 x a b c" "t < a" "j < b"
  shows "length (x ! t ! j) = c"
proof -
  from assms(1,2) have "x ! t \<in> set x" by (simp add: has_shape3_iff)
  with assms(1) have m: "has_shape2 (x ! t) b c" by (simp add: has_shape3_iff)
  with assms(3) have "x ! t ! j \<in> set (x ! t)" by (simp add: has_shape2_iff)
  with m show ?thesis by (simp add: has_shape2_iff)
qed

lemma unpack_rows_concat:
  assumes "\<forall>t\<in>set ts. length (rows t) = bs t"
  shows "unpack_rows B F (map bs ts) (concat (map rows ts))
           = map (\<lambda>t. rows t @ replicate (B - bs t) (replicate F 0)) ts"
  using assms by (induction ts) auto

lemma pack_Inr:
  assumes "pack x lengths = Inr embs"
  shows "length x * size1 x * size2 x \<noteq> 0" "length lengths = size1 x" "0 < last lengths"
        "sorted (rev lengths)" "hd lengths \<le> int (length x)"
        "embs = \<lparr>ps_data = concat (map (\<lambda>t. take (pack_batch_size lengths t) (x ! t))
                                       (pack_steps lengths)),
                 ps_batch_sizes = map (pack_batch_size lengths) (pack_steps lengths)\<rparr>"
  using assms by (auto simp: pack_def split: if_splits)

lemma sorted_rev_last_le:
  assumes "sorted (rev ls)" "b < length ls"
  shows "last ls \<le> ls ! b"
proof -
  from assms(2) have ne: "ls \<noteq> []" by auto
  have "ls ! (length ls - 1) \<le> ls ! b"
    using assms by (intro sorted_rev_nth_mono) auto
  then show ?thesis using ne by (simp add: last_conv_nth)
qed

lemma pack_batch_size_0:
  assumes "sorted (rev lengths)" "0 < last lengths" "lengths \<noteq> []"
  shows "pack_batch_size lengths 0 = length lengths"
proof -
  have "\<forall>l\<in>set lengths. 0 < l"
    using sorted_rev_last_le [OF assms(1)] assms(2) by (force simp: in_set_conv_nth)
  then have "filter (\<lambda>l. int 0 < l) lengths = lengths"
    by (simp add: filter_id_conv)
  then show ?thesis by (simp add: pack_batch_size_def)
qed

text \<open>
  Unpacking what was packed: the tensor has as many time steps as the longest sequence, and
  every position at or beyond an example's true length holds the zero vector.
\<close>

lemma unpack_pack:
  assumes pk: "pack e lengths = Inr embs" and sh: "has_shape3 e T B E"
  shows "fst (unpack embs)
           = map (\<lambda>t. map (\<lambda>b. if int t < lengths ! b then e ! t ! b else replicate E 0) [0..<B])
                 [0..<nat (hd lengths)]"
proof -
  note p = pack_Inr [OF pk]
  from p(1) sh have T: "0 < T" by (auto simp: has_shape3_iff)
  have s1: "size1 e = B" using sh T by (rule size1_shape3)
  from p(1) s1 have B: "0 < B" by simp
  have s2: "size2 e = E" using sh T B by (rule size2_shape3)
  from p(2) s1 have len: "length lengths = B" by simp
  with B have ne: "lengths \<noteq> []" by auto
  have eT: "length e = T" using sh by (simp add: has_shape3_iff)
  have hd_pos: "0 < hd lengths"
    using sorted_rev_last_le [OF p(4), of 0] p(3) ne by (simp add: hd_conv_nth)
  define n where "n = nat (hd lengths)"
  have n: "0 < n" "n \<le> T" using hd_pos p(5) eT by (simp_all add: n_def)
  define rows where "rows t = take (pack_batch_size lengths t) (e ! t)" for t
  have rows_len: "length (rows t) = pack_batch_size lengths t" if "t < n" for t
    using that n(2) shape3_nth [OF sh, of t] pack_batch_size_le [of lengths t] len
    by (simp add: rows_def)
  have bs0: "pack_batch_size lengths 0 = B"
    using pack_batch_size_0 [OF p(4) p(3) ne] len by simp
  have upt: "[0..<n] = 0 # [1..<n]" using n(1) by (simp add: upt_conv_Cons)
  have row0: "rows 0 = e ! 0"
    using shape3_nth [OF sh T] by (simp add: rows_def bs0)
  obtain v vs where e0: "e ! 0 = v # vs" "length v = E"
    using shape3_nth [OF sh T] shape3_nth_nth [OF sh T B] B by (cases "e ! 0") auto
  have data: "ps_data embs = concat (map rows [0..<n])"
    by (simp add: p(6) rows_def [abs_def] pack_steps_def n_def)
  have bss: "ps_batch_sizes embs = map (pack_batch_size lengths) [0..<n]"
    by (simp add: p(6) pack_steps_def n_def)
  have F: "size1 (concat (map rows [0..<n])) = E"
    by (simp add: upt row0 e0 size1_def)
  have B': "(case map (pack_batch_size lengths) [0..<n] of [] \<Rightarrow> 0 | b # _ \<Rightarrow> b) = B"
    by (simp add: upt bs0)
  have "fst (unpack embs) = unpack_rows B E (map (pack_batch_size lengths) [0..<n])
                              (concat (map rows [0..<n]))"
    by (simp add: unpack_def Let_def data bss F B')
  also have "\<dots> = map (\<lambda>t. rows t @ replicate (B - pack_batch_size lengths t) (replicate E 0)) [0..<n]"
    by (rule unpack_rows_concat) (simp add: rows_len)
  also have "\<dots> = map (\<lambda>t. map (\<lambda>b. if int t < lengths ! b then e ! t ! b else replicate E 0) [0..<B])
                       [0..<n]"
  proof (rule map_cong [OF refl])
    fix t assume "t \<in> set [0..<n]"
    then have t: "t < n" by simp
    then have tT: "t < T" using n(2) by simp
    have le: "pack_batch_size lengths t \<le> B" using pack_batch_size_le [of lengths t] len by simp
    show "rows t @ replicate (B - pack_batch_size lengths t) (replicate E 0)
            = map (\<lambda>b. if int t < lengths ! b then e ! t ! b else replicate E 0) [0..<B]"
    proof (rule nth_equalityI)
      show "length (rows t @ replicate (B - pack_batch_size lengths t) (replicate E 0))
              = length (map (\<lambda>b. if int t < lengths ! b then e ! t ! b else replicate E 0) [0..<B])"
        using rows_len [OF t] le by simp
    next
      fix b assume "b < length (rows t @ replicate (B - pack_batch_size lengths t) (replicate E 0))"
      then have b: "b < B" using rows_len [OF t] le by simp
      then have iff: "b < pack_batch_size lengths t \<longleftrightarrow> int t < lengths ! b"
        using pack_batch_size_iff [OF p(4), of b t] len by simp
      show "(rows t @ replicate (B - pack_batch_size lengths t) (replicate E 0)) ! b
              = map (\<lambda>b. if int t < lengths ! b then e ! t ! b else replicate E 0) [0..<B] ! b"
      proof (cases "b < pack_batch_size lengths t")
        case True
        then show ?thesis using b iff rows_len [OF t]
          by (simp add: nth_append rows_def)
      next
        case False
        then show ?thesis using b iff rows_len [OF t] le
          by (simp add: nth_append)
      qed
    qed
  qed
  finally show ?thesis by (simp add: n_def)
qed


lemma Embedding2_Inr:
  "list_all (list_all (valid_id W)) ids \<Longrightarrow> Embedding2 W ids = Inr (map (map (\<lambda>i. W ! nat i)) ids)"
  by (simp add: Embedding2_def)

lemma embedded_shape:
  assumes "has_shape2 W V E" "has_shape2 ids T B" "list_all (list_all (valid_id W)) ids"
  shows "has_shape3 (map (map (\<lambda>i. W ! nat i)) ids) T B E"
proof -
  have "length (W ! nat i) = E" if "valid_id W i" for i
    using that assms(1) by (auto simp: valid_id_def has_shape2_iff)
  then show ?thesis
    using assms(2,3) by (auto simp: has_shape3_iff has_shape2_iff list_all_iff)
qed

lemma shape3_sizes_eq:
  assumes "has_shape3 x T B E" "has_shape3 y T B E"
  shows "size1 x = size1 y" "size2 x = size2 y"
proof -
  show "size1 x = size1 y"
  proof (cases "T = 0")
    case True
    then have "x = []" "y = []" using assms by (simp_all add: has_shape3_iff)
    then show ?thesis by (simp add: size1_def)
  next
    case False
    then show ?thesis using assms by (simp add: size1_shape3)
  qed
  show "size2 x = size2 y"
  proof (cases "0 < T \<and> 0 < B")
    case True
    then show ?thesis using assms by (simp add: size2_shape3)
  next
    case False
    then show ?thesis using assms
      by (cases x; cases y; cases "hd x"; cases "hd y")
         (auto simp: size2_def has_shape3_iff has_shape2_iff)
  qed
qed

section \<open>Padding content\<close>

text \<open>
  C1, as the code has it. The encoder packs the embedded batch by true length and unpacks
  it again at once, and the recurrent network runs over the result: the padded tensor with
  as many time steps as the longest sequence, in which every position at or beyond an
  example's true length holds the zero vector in place of the embedding of the padding
  token. So for an embedding table of constant row width and two batches of valid token
  ids of the same shape that agree at every position within the true lengths, the forward
  pass returns the same result (outputs, state and convolutional context, or the same
  exception), whatever the padding positions contain.
\<close>

theorem padding_content_has_no_effect:
  assumes table: "has_shape2 (enc_embedding self) V E"
      and s1: "has_shape2 inputs1 T B" and s2: "has_shape2 inputs2 T B"
      and v1: "list_all (list_all (valid_id (enc_embedding self))) inputs1"
      and v2: "list_all (list_all (valid_id (enc_embedding self))) inputs2"
      and agree: "\<forall>t<T. \<forall>b<B. int t < lengths ! b \<longrightarrow> inputs1 ! t ! b = inputs2 ! t ! b"
  shows "rnn_encoder_forward self nz inputs1 lengths = rnn_encoder_forward self nz inputs2 lengths
       \<and> (\<forall>embs. pack (map (map (\<lambda>i. enc_embedding self ! nat i)) inputs1) lengths = Inr embs \<longrightarrow>
            fst (unpack embs)
              = map (\<lambda>t. map (\<lambda>b. if int t < lengths ! b
                                   then enc_embedding self ! nat (inputs1 ! t ! b)
                                   else replicate E 0) [0..<B])
                    [0..<nat (hd lengths)])"
proof
  let ?e1 = "map (map (\<lambda>i. enc_embedding self ! nat i)) inputs1"
  let ?e2 = "map (map (\<lambda>i. enc_embedding self ! nat i)) inputs2"
  have sh1: "has_shape3 ?e1 T B E" using table s1 v1 by (rule embedded_shape)
  have sh2: "has_shape3 ?e2 T B E" using table s2 v2 by (rule embedded_shape)
  have l1: "length inputs1 = T" and l2: "length inputs2 = T"
    using s1 s2 by (simp_all add: has_shape2_iff)
  have r1: "length (inputs1 ! t) = B" and r2: "length (inputs2 ! t) = B" if "t < T" for t
    using that s1 s2 by (simp_all add: has_shape2_iff)
  have pk: "pack ?e1 lengths = pack ?e2 lengths"
  proof (rule pack_cong)
    show "length ?e1 = length ?e2" by (simp add: l1 l2)
    show "size1 ?e1 = size1 ?e2" using sh1 sh2 by (rule shape3_sizes_eq)
    show "size2 ?e1 = size2 ?e2" using sh1 sh2 by (rule shape3_sizes_eq)
  next
    fix t assume t: "t < length ?e1"
    then have tT: "t < T" by (simp add: l1)
    show "length (?e1 ! t) = size1 ?e1 \<and> length (?e2 ! t) = size1 ?e1"
      using tT shape3_nth [OF sh1 tT] shape3_nth [OF sh2 tT] size1_shape3 [OF sh1] by simp
    fix b assume "b < size1 ?e1" and lt: "int t < lengths ! b"
    then have b: "b < B" using size1_shape3 [OF sh1] tT by simp
    with agree tT lt have "inputs1 ! t ! b = inputs2 ! t ! b" by simp
    then show "?e1 ! t ! b = ?e2 ! t ! b"
      using tT b by (simp add: l1 l2 r1 r2)
  qed
  show "rnn_encoder_forward self nz inputs1 lengths = rnn_encoder_forward self nz inputs2 lengths"
    by (simp only: rnn_encoder_forward_def Embedding2_Inr [OF v1] Embedding2_Inr [OF v2] ebind_Inr pk)
  show "\<forall>embs. pack ?e1 lengths = Inr embs \<longrightarrow>
            fst (unpack embs)
              = map (\<lambda>t. map (\<lambda>b. if int t < lengths ! b
                                   then enc_embedding self ! nat (inputs1 ! t ! b)
                                   else replicate E 0) [0..<B])
                    [0..<nat (hd lengths)]"
  proof (intro allI impI)
    fix embs assume p: "pack ?e1 lengths = Inr embs"
    have "hd lengths \<le> int T" using pack_Inr(5) [OF p] by (simp add: l1)
    then have "\<And>t. t < nat (hd lengths) \<Longrightarrow> t < T" by simp
    then show "fst (unpack embs)
              = map (\<lambda>t. map (\<lambda>b. if int t < lengths ! b
                                   then enc_embedding self ! nat (inputs1 ! t ! b)
                                   else replicate E 0) [0..<B])
                    [0..<nat (hd lengths)]"
      unfolding unpack_pack [OF p sh1] by (auto simp: l1 r1)
  qed
qed

theorem padding_content_has_no_effect_witness:
  "has_shape2 (enc_embedding (ex_encoder ex_config)) 3 1
   \<and> has_shape2 ex_inputs 8 2 \<and> has_shape2 ex_inputs_alt 8 2
   \<and> list_all (list_all (valid_id (enc_embedding (ex_encoder ex_config)))) ex_inputs
   \<and> list_all (list_all (valid_id (enc_embedding (ex_encoder ex_config)))) ex_inputs_alt
   \<and> ex_inputs \<noteq> ex_inputs_alt
   \<and> rnn_encoder_forward (ex_encoder ex_config) ex_enc_noise ex_inputs [8, 3]
       = rnn_encoder_forward (ex_encoder ex_config) ex_enc_noise ex_inputs_alt [8, 3]
   \<and> rnn_encoder_forward (ex_encoder ex_config) ex_enc_noise ex_inputs [8, 3]
       = Inr (ex_outputs, Hidden ex_hidden_reduced, ex_conv)"
proof -
  have a: "has_shape2 (enc_embedding (ex_encoder ex_config)) 3 1" by code_simp
  have b: "has_shape2 ex_inputs 8 2" by code_simp
  have c: "has_shape2 ex_inputs_alt 8 2" by code_simp
  have d: "list_all (list_all (valid_id (enc_embedding (ex_encoder ex_config)))) ex_inputs"
    by code_simp
  have e: "list_all (list_all (valid_id (enc_embedding (ex_encoder ex_config)))) ex_inputs_alt"
    by code_simp
  have "list_all (\<lambda>t. list_all (\<lambda>b. int t < [8, 3] ! b \<longrightarrow> ex_inputs ! t ! b = ex_inputs_alt ! t ! b)
                         [0..<2]) [0..<8]"
    by code_simp
  then have f: "\<forall>t<8. \<forall>b<2. int t < [8, 3] ! b \<longrightarrow> ex_inputs ! t ! b = ex_inputs_alt ! t ! b"
    by (simp add: list_all_iff)
  have g: "ex_inputs \<noteq> ex_inputs_alt" by code_simp
  have h: "rnn_encoder_forward (ex_encoder ex_config) ex_enc_noise ex_inputs [8, 3]
       = Inr (ex_outputs, Hidden ex_hidden_reduced, ex_conv)" by code_simp
  have r: "rnn_encoder_forward (ex_encoder ex_config) ex_enc_noise ex_inputs [8, 3]
       = rnn_encoder_forward (ex_encoder ex_config) ex_enc_noise ex_inputs_alt [8, 3]"
    by (rule padding_content_has_no_effect [OF a b c d e f, THEN conjunct1])
  show ?thesis
    by (intro conjI a b c d e g r h)
qed

text \<open>
  The recurrence is not run over the packed sequence. With a recurrent network that is a
  plain recurrence over the time steps of the tensor it is given, an example of true length
  7 whose batch is padded to 9 steps comes back with the state after 9 steps (16), while
  the same example encoded alone comes back with the state after its 7 steps (14): the two
  positions beyond its true length have advanced its hidden state.
\<close>

theorem padding_positions_counterexample:
  "rnn_encoder_forward ex_step_encoder ex_enc_noise ex_batch [9, 7] = Inr ex_batch_result
   \<and> fst (snd ex_batch_result) = Hidden [[[19], [16]]]
   \<and> rnn_encoder_forward ex_step_encoder ex_enc_noise ex_alone [7] = Inr ex_alone_result
   \<and> fst (snd ex_alone_result) = Hidden [[[14]]]"
  by code_simp


section \<open>Shapes through the convolution stack\<close>

lemma transpose01_shape3:
  assumes "has_shape3 x a b c" "0 < a"
  shows "has_shape3 (transpose01 x) b a c"
proof -
  have s1: "size1 x = b" using assms by (rule size1_shape3)
  have "\<And>j r. j < b \<Longrightarrow> r \<in> set x \<Longrightarrow> length (r ! j) = c"
    using assms(1) by (auto simp: has_shape3_iff has_shape2_iff)
  then show ?thesis using assms(1)
    by (auto simp: transpose01_def s1 has_shape3_iff has_shape2_iff)
qed

lemma transpose01_shape2:
  assumes "has_shape2 m r c" "0 < r"
  shows "has_shape2 (transpose01 m) c r"
proof -
  have "size1 m = c" using assms by (intro size1_shape[of m r c]) (auto simp: has_shape2_iff)
  then show ?thesis using assms(1) by (auto simp: transpose01_def has_shape2_iff)
qed

lemma transpose12_shape3:
  assumes "has_shape3 x a b c" "0 < b"
  shows "has_shape3 (transpose12 x) a c b"
  using assms by (auto simp: transpose12_def has_shape3_iff intro: transpose01_shape2)

lemma imap_length [simp]: "length (imap f xs) = length xs"
  by (simp add: imap_def)

lemma imap_set: "y \<in> set (imap f xs) \<Longrightarrow> \<exists>i x. x \<in> set xs \<and> y = f i x"
  by (auto simp: imap_def set_zip intro: nth_mem)

lemma dropout3_shape: "has_shape3 x a b c \<Longrightarrow> has_shape3 (dropout3 f tr mk x) a b c"
  by (fastforce simp: dropout3_def has_shape3_iff has_shape2_iff dest!: imap_set)

lemma dropout2_shape: "has_shape2 x a b \<Longrightarrow> has_shape2 (dropout2 f tr mk x) a b"
  by (fastforce simp: dropout2_def has_shape2_iff dest!: imap_set)

lemma selu_shape: "has_shape3 x a b c \<Longrightarrow> has_shape3 (map (map (map f)) x) a b c"
  by (auto simp: has_shape3_iff has_shape2_iff)

lemma conv_channel_length [simp]: "length (conv_channel K d p n wo bo xb) = n"
  by (simp add: conv_channel_def)

lemma Conv1d_forward_shape:
  assumes x: "has_shape3 x B C L" and B: "0 < B" and C: "0 < C"
      and cin: "conv_in_channels c = C"
      and w: "length (conv_weight c) = H" and b: "length (conv_bias c) = H"
  shows "L + 2 * conv_padding c < conv_span c + 1 \<Longrightarrow> Conv1d_forward c x = Inl RuntimeError"
    and "conv_span c + 1 \<le> L + 2 * conv_padding c \<Longrightarrow>
           \<exists>y. Conv1d_forward c x = Inr y \<and> has_shape3 y B H (L + 2 * conv_padding c - conv_span c)"
proof -
  have s1: "size1 x = C" using x B by (rule size1_shape3)
  have s2: "size2 x = L" using x B C by (rule size2_shape3)
  show "L + 2 * conv_padding c < conv_span c + 1 \<Longrightarrow> Conv1d_forward c x = Inl RuntimeError"
    by (simp add: Conv1d_forward_def s1 s2 cin)
  show "conv_span c + 1 \<le> L + 2 * conv_padding c \<Longrightarrow>
           \<exists>y. Conv1d_forward c x = Inr y \<and> has_shape3 y B H (L + 2 * conv_padding c - conv_span c)"
    using x by (auto simp: Conv1d_forward_def s1 s2 cin w b has_shape3_iff has_shape2_iff set_zip)
qed

text \<open>One block of the stack: a convolution, the activation and the dropout layer.\<close>

lemma block_forward:
  "Sequential_forward (Conv c # SELU f # AlphaDropout g # rest) tr mk i x
     = ebind (Conv1d_forward c x)
         (\<lambda>y. Sequential_forward rest tr mk (Suc (Suc (Suc i)))
                 (dropout3 g tr (mk (Suc (Suc i))) (map (map (map f)) y)))"
  by (cases "Conv1d_forward c x") simp_all

lemma block_shape:
  assumes x: "has_shape3 x B H L" and B: "0 < B" and H: "0 < H"
      and c: "conv_in_channels c = H" "length (conv_weight c) = H" "length (conv_bias c) = H"
             "conv_padding c = 1" "conv_kernel_size c = 3" "conv_dilation c = d"
  shows "L + 2 < 2 * d + 1 \<Longrightarrow>
           Sequential_forward (Conv c # SELU f # AlphaDropout g # rest) tr mk i x = Inl RuntimeError"
    and "2 * d + 1 \<le> L + 2 \<Longrightarrow>
           \<exists>y. has_shape3 y B H (L + 2 - 2 * d) \<and>
               Sequential_forward (Conv c # SELU f # AlphaDropout g # rest) tr mk i x
                 = Sequential_forward rest tr mk (Suc (Suc (Suc i))) y"
proof -
  have span: "conv_span c = 2 * d" by (simp add: conv_span_def c)
  {
    assume "L + 2 < 2 * d + 1"
    then have "Conv1d_forward c x = Inl RuntimeError"
      using Conv1d_forward_shape(1) [OF x B H c(1) c(2) c(3)] by (simp add: span c)
    then show "Sequential_forward (Conv c # SELU f # AlphaDropout g # rest) tr mk i x = Inl RuntimeError"
      by (simp add: block_forward)
  }
  {
    assume "2 * d + 1 \<le> L + 2"
    then obtain y where y: "Conv1d_forward c x = Inr y" "has_shape3 y B H (L + 2 - 2 * d)"
      using Conv1d_forward_shape(2) [OF x B H c(1) c(2) c(3)] by (auto simp: span c)
    have "has_shape3 (dropout3 g tr (mk (Suc (Suc i))) (map (map (map f)) y)) B H (L + 2 - 2 * d)"
      by (intro dropout3_shape selu_shape y(2))
    then show "\<exists>y. has_shape3 y B H (L + 2 - 2 * d) \<and>
               Sequential_forward (Conv c # SELU f # AlphaDropout g # rest) tr mk i x
                 = Sequential_forward rest tr mk (Suc (Suc (Suc i))) y"
      using y(1) by (auto simp: block_forward)
  }
qed

lemma dconv_shape:
  assumes init: "rnn_encoder_init config embedding ps = Inr enc"
      and w: "\<forall>i<3. length (p_conv_weight ps i) = hidden_size config
                   \<and> length (p_conv_bias ps i) = hidden_size config"
      and x: "has_shape3 x B (hidden_size config) L" and B: "0 < B" and H: "0 < hidden_size config"
  shows "L < 7 \<Longrightarrow> Sequential_forward (enc_dconv enc) tr mk 0 x = Inl RuntimeError"
    and "7 \<le> L \<Longrightarrow> \<exists>y. Sequential_forward (enc_dconv enc) tr mk 0 x = Inr y
                        \<and> has_shape3 y B (hidden_size config) (L - 6)"
proof -
  let ?H = "hidden_size config"
  let ?c = "\<lambda>i d. dconv_conv config ps i 1 d"
  let ?b3 = "[Conv (?c 2 3), SELU (p_selu ps), AlphaDropout (p_alpha_dropout ps (5 / 100))]"
  let ?b2 = "Conv (?c 1 2) # SELU (p_selu ps) # AlphaDropout (p_alpha_dropout ps (5 / 100)) # ?b3"
  let ?b1 = "Conv (?c 0 1) # SELU (p_selu ps) # AlphaDropout (p_alpha_dropout ps (5 / 100)) # ?b2"
  from init have dc: "enc_dconv enc = ?b1"
    by (auto simp: rnn_encoder_init_def split: if_splits)
  have c: "conv_in_channels (?c i d) = ?H" "length (conv_weight (?c i d)) = ?H"
          "length (conv_bias (?c i d)) = ?H" "conv_padding (?c i d) = 1"
          "conv_kernel_size (?c i d) = 3" "conv_dilation (?c i d) = d" if "i < 3" for i d
    using w that by (simp_all add: dconv_conv_def)
  have l: "(0::nat) < 3" "(1::nat) < 3" "(2::nat) < 3" by simp_all
  note b1 = block_shape [OF _ B H c [OF l(1), of 1]]
  note b2 = block_shape [OF _ B H c [OF l(2), of 2]]
  note b3 = block_shape [OF _ B H c [OF l(3), of 3]]
  let ?i3 = "Suc (Suc (Suc 0))"
  let ?i6 = "Suc (Suc (Suc ?i3))"
  let ?i9 = "Suc (Suc (Suc ?i6))"
  {
    assume L: "L < 7"
    show "Sequential_forward (enc_dconv enc) tr mk 0 x = Inl RuntimeError"
    proof (cases "L = 0")
      case True
      then have "L + 2 < 2 * 1 + 1" by simp
      from b1(1) [OF x this] show ?thesis unfolding dc .
    next
      case False
      then have "2 * 1 + 1 \<le> L + 2" by simp
      from b1(2) [OF x this, of "p_selu ps" "p_alpha_dropout ps (5 / 100)" ?b2 tr mk 0]
      obtain y1 where y1: "has_shape3 y1 B ?H (L + 2 - 2 * 1)"
          "Sequential_forward ?b1 tr mk 0 x = Sequential_forward ?b2 tr mk ?i3 y1"
        by blast
      show ?thesis
      proof (cases "L < 3")
        case True
        then have "L + 2 - 2 * 1 + 2 < 2 * 2 + 1" by simp
        from b2(1) [OF y1(1) this] show ?thesis unfolding dc y1(2) .
      next
        case False
        then have "2 * 2 + 1 \<le> L + 2 - 2 * 1 + 2" by simp
        from b2(2) [OF y1(1) this, of "p_selu ps" "p_alpha_dropout ps (5 / 100)" ?b3 tr mk ?i3]
        obtain y2 where y2: "has_shape3 y2 B ?H (L + 2 - 2 * 1 + 2 - 2 * 2)"
            "Sequential_forward ?b2 tr mk ?i3 y1 = Sequential_forward ?b3 tr mk ?i6 y2"
          by blast
        from L have "L + 2 - 2 * 1 + 2 - 2 * 2 + 2 < 2 * 3 + 1" by simp
        from b3(1) [OF y2(1) this] show ?thesis unfolding dc y1(2) y2(2) .
      qed
    qed
  }
  {
    assume L: "7 \<le> L"
    then have "2 * 1 + 1 \<le> L + 2" by simp
    from b1(2) [OF x this, of "p_selu ps" "p_alpha_dropout ps (5 / 100)" ?b2 tr mk 0]
    obtain y1 where y1: "has_shape3 y1 B ?H (L + 2 - 2 * 1)"
        "Sequential_forward ?b1 tr mk 0 x = Sequential_forward ?b2 tr mk ?i3 y1"
      by blast
    from L have "2 * 2 + 1 \<le> L + 2 - 2 * 1 + 2" by simp
    from b2(2) [OF y1(1) this, of "p_selu ps" "p_alpha_dropout ps (5 / 100)" ?b3 tr mk ?i3]
    obtain y2 where y2: "has_shape3 y2 B ?H (L + 2 - 2 * 1 + 2 - 2 * 2)"
        "Sequential_forward ?b2 tr mk ?i3 y1 = Sequential_forward ?b3 tr mk ?i6 y2"
      by blast
    from L have "2 * 3 + 1 \<le> L + 2 - 2 * 1 + 2 - 2 * 2 + 2" by simp
    from b3(2) [OF y2(1) this, of "p_selu ps" "p_alpha_dropout ps (5 / 100)" "[]" tr mk ?i6]
    obtain y3 where y3: "has_shape3 y3 B ?H (L + 2 - 2 * 1 + 2 - 2 * 2 + 2 - 2 * 3)"
        "Sequential_forward ?b3 tr mk ?i6 y2 = Sequential_forward [] tr mk ?i9 y3"
      by blast
    from L have e: "L + 2 - 2 * 1 + 2 - 2 * 2 + 2 - 2 * 3 = L - 6" by simp
    have "Sequential_forward (enc_dconv enc) tr mk 0 x = Inr y3"
      unfolding dc y1(2) y2(2) y3(2) by simp
    with y3(1) show "\<exists>y. Sequential_forward (enc_dconv enc) tr mk 0 x = Inr y
                        \<and> has_shape3 y B (hidden_size config) (L - 6)"
      unfolding e by blast
  }
qed


lemma forward_unfold:
  assumes "Embedding2 (enc_embedding self) inputs = Inr e"
      and "pack e lengths = Inr embs"
      and "rnn_module_forward (enc_rnn self) (enc_training self) (rnn_noise nz)
             (fst (unpack embs)) = Inr (raw, st)"
  shows "rnn_encoder_forward self nz inputs lengths
           = ebind (if bidirectional (enc_config self)
                    then tadd (slice_to (enc_hidden_size self) raw) (slice_from (enc_hidden_size self) raw)
                    else Inr raw) (\<lambda>outputs.
             ebind (Sequential_forward (enc_dconv self) (enc_training self) (dconv_mask nz) 0
                      (transpose12 (transpose01 outputs))) (\<lambda>conv.
             ebind (reduce_state (enc_config self) st) (\<lambda>state.
             Inr (outputs, state, transpose12 conv))))"
  by (simp add: rnn_encoder_forward_def assms Let_def)

lemma tadd_halves:
  assumes "has_shape3 raw T B (2 * H)"
  shows "tadd (slice_to H raw) (slice_from H raw)
           = Inr (map (map (\<lambda>v. map2 (+) (take H v) (drop H v))) raw)"
proof -
  have a: "has_shape3 (slice_to H raw) T B H"
    using assms by (auto simp: slice_to_def has_shape3_iff has_shape2_iff)
  have b: "has_shape3 (slice_from H raw) T B H"
    using assms by (auto simp: slice_from_def has_shape3_iff has_shape2_iff)
  have "size2 (slice_to H raw) = size2 (slice_from H raw)"
    using a b by (rule shape3_sizes_eq)
  then show ?thesis
    by (simp add: tadd_def tadd_slices sum_halves(1) [OF assms])
qed

lemma init_fields:
  assumes "rnn_encoder_init config embedding ps = Inr enc"
  shows "enc_hidden_size enc = hidden_size config" "enc_config enc = config"
        "enc_rnn enc = (if cell config = ''gru'' then GRU (p_gru ps) else LSTM (p_lstm ps))"
  using assms by (auto simp: rnn_encoder_init_def split: if_splits)

lemma init_reduce_state:
  assumes init: "rnn_encoder_init config embedding ps = Inr enc"
      and run: "rnn_module_forward (enc_rnn enc) tr n x = Inr (raw, st)"
  shows "reduce_state config st
           = Inr (case st of Hidden h \<Rightarrow> Hidden (take (dec_num_layers config) h)
                           | HiddenCell h c \<Rightarrow> HiddenCell (stride2 h) (stride2 c))"
  using run unfolding init_fields(3) [OF init]
  by (auto simp: reduce_state_def ebind_eq_Inr split: if_splits)

lemma forward_shapes:
  assumes init: "rnn_encoder_init config embedding ps = Inr enc"
      and w: "\<forall>i<3. length (p_conv_weight ps i) = hidden_size config
                   \<and> length (p_conv_bias ps i) = hidden_size config"
      and H: "0 < hidden_size config" and B: "0 < B"
      and emb: "Embedding2 (enc_embedding enc) inputs = Inr e"
      and pk: "pack e lengths = Inr embs"
      and run: "rnn_module_forward (enc_rnn enc) tr (rnn_noise nz) (fst (unpack embs)) = Inr (raw, st)"
      and raw: "has_shape3 raw T B (if bidirectional config then 2 * hidden_size config
                                    else hidden_size config)"
  shows "T < 7 \<Longrightarrow> rnn_encoder_forward (enc\<lparr>enc_training := tr\<rparr>) nz inputs lengths = Inl RuntimeError"
    and "7 \<le> T \<Longrightarrow> \<exists>outputs state conv.
           rnn_encoder_forward (enc\<lparr>enc_training := tr\<rparr>) nz inputs lengths = Inr (outputs, state, conv)
           \<and> has_shape3 outputs T B (hidden_size config)
           \<and> has_shape3 conv B (T - 6) (hidden_size config)
           \<and> reduce_state config st = Inr state"
proof -
  let ?H = "hidden_size config"
  let ?self = "enc\<lparr>enc_training := tr\<rparr>"
  define outs where "outs = (if bidirectional config
                             then map (map (\<lambda>v. map2 (+) (take ?H v) (drop ?H v))) raw else raw)"
  have fold: "(if bidirectional (enc_config ?self)
               then tadd (slice_to (enc_hidden_size ?self) raw) (slice_from (enc_hidden_size ?self) raw)
               else Inr raw) = Inr outs"
    using raw tadd_halves [of raw T B ?H]
    by (simp add: init_fields [OF init] outs_def split: if_splits)
  have outs: "has_shape3 outs T B ?H"
    using raw sum_halves(2) [of raw T B ?H] by (simp add: outs_def split: if_splits)
  obtain s where s: "reduce_state config st = Inr s"
    using init_reduce_state [OF init run] by blast
  have emb': "Embedding2 (enc_embedding ?self) inputs = Inr e" using emb by simp
  have run': "rnn_module_forward (enc_rnn ?self) (enc_training ?self) (rnn_noise nz)
                (fst (unpack embs)) = Inr (raw, st)" using run by simp
  have s': "reduce_state (enc_config ?self) st = Inr s"
    using s by (simp add: init_fields [OF init])
  have "rnn_encoder_forward ?self nz inputs lengths
           = ebind (Sequential_forward (enc_dconv ?self) (enc_training ?self) (dconv_mask nz) 0
                      (transpose12 (transpose01 outs))) (\<lambda>conv.
             Inr (outs, s, transpose12 conv))"
    by (simp only: forward_unfold [OF emb' pk run'] fold s' ebind_Inr)
  then have fw: "rnn_encoder_forward ?self nz inputs lengths
           = ebind (Sequential_forward (enc_dconv enc) tr (dconv_mask nz) 0
                      (transpose12 (transpose01 outs))) (\<lambda>conv.
             Inr (outs, s, transpose12 conv))"
    by simp
  {
    assume T: "T < 7"
    show "rnn_encoder_forward ?self nz inputs lengths = Inl RuntimeError"
    proof (cases "T = 0")
      case True
      then have "outs = []" using outs by (simp add: has_shape3_iff)
      then have "transpose12 (transpose01 outs) = []"
        by (simp add: transpose12_def transpose01_def size1_def)
      moreover have "Sequential_forward (enc_dconv enc) tr (dconv_mask nz) 0 [] = Inl RuntimeError"
        using init H by (auto simp: rnn_encoder_init_def Conv1d_forward_def size1_def dconv_conv_def
                             split: if_splits)
      ultimately show ?thesis by (simp add: fw)
    next
      case False
      then have "has_shape3 (transpose12 (transpose01 outs)) B ?H T"
        using outs by (intro transpose12_shape3 transpose01_shape3) simp_all
      from dconv_shape(1) [OF init w this B H T] show ?thesis by (simp add: fw)
    qed
  }
  {
    assume T: "7 \<le> T"
    then have "has_shape3 (transpose12 (transpose01 outs)) B ?H T"
      using outs by (intro transpose12_shape3 transpose01_shape3) simp_all
    from dconv_shape(2) [OF init w this B H T, of tr "dconv_mask nz"]
    obtain y where y: "Sequential_forward (enc_dconv enc) tr (dconv_mask nz) 0
                         (transpose12 (transpose01 outs)) = Inr y"
                      "has_shape3 y B ?H (T - 6)"
      by blast
    have "has_shape3 (transpose12 y) B (T - 6) ?H"
      using y(2) H by (rule transpose12_shape3)
    with y(1) outs s
    show "\<exists>outputs state conv.
           rnn_encoder_forward ?self nz inputs lengths = Inr (outputs, state, conv)
           \<and> has_shape3 outputs T B ?H \<and> has_shape3 conv B (T - 6) ?H
           \<and> reduce_state config st = Inr state"
      by (simp add: fw)
  }
qed

section \<open>Length of the convolutional context\<close>

text \<open>
  C2, as the code has it. The three convolutions have kernel width 3, dilations 1, 2, 3
  and padding 1 each, so the second shortens the sequence by 2 and the third by 4. For an
  encoder built by the constructor, with convolution parameters of \<open>hidden_size\<close> output
  channels, and a recurrent network that returns outputs of time length \<open>T\<close> for a batch of
  \<open>B\<close> examples: when \<open>T\<close> is at least 7, the forward pass returns outputs of shape
  \<open>[T, B, hidden_size]\<close> and a convolutional context of shape \<open>[B, T - 6, hidden_size]\<close>
  (batch first, six steps shorter); when \<open>T\<close> is below 7 the forward pass raises a
  RuntimeError in the convolution stack. The feature width is \<open>hidden_size\<close> throughout.
\<close>

theorem dconv_shortens_by_six:
  assumes init: "rnn_encoder_init config embedding ps = Inr enc"
      and w: "\<forall>i<3. length (p_conv_weight ps i) = hidden_size config
                   \<and> length (p_conv_bias ps i) = hidden_size config"
      and H: "0 < hidden_size config" and B: "0 < B"
      and emb: "Embedding2 (enc_embedding enc) inputs = Inr e"
      and pk: "pack e lengths = Inr embs"
      and run: "rnn_module_forward (enc_rnn enc) tr (rnn_noise nz) (fst (unpack embs)) = Inr (raw, st)"
      and raw: "has_shape3 raw T B (if bidirectional config then 2 * hidden_size config
                                    else hidden_size config)"
  shows "(7 \<le> T \<longrightarrow> (\<exists>outputs state conv.
           rnn_encoder_forward (enc\<lparr>enc_training := tr\<rparr>) nz inputs lengths = Inr (outputs, state, conv)
           \<and> has_shape3 outputs T B (hidden_size config)
           \<and> has_shape3 conv B (T - 6) (hidden_size config)))
       \<and> (T < 7 \<longrightarrow> rnn_encoder_forward (enc\<lparr>enc_training := tr\<rparr>) nz inputs lengths
                        = Inl RuntimeError)"
  using forward_shapes [OF assms] by blast

lemma ex_init: "rnn_encoder_init ex_config None (ex_enc_params ex_config) = Inr (ex_encoder ex_config)"
  by (simp add: ex_encoder_def rnn_encoder_init_def valid_dropout_def ex_config_def)

theorem dconv_shortens_by_six_witness:
  "rnn_encoder_init ex_config None (ex_enc_params ex_config) = Inr (ex_encoder ex_config)
   \<and> Embedding2 (enc_embedding (ex_encoder ex_config)) ex_inputs = Inr ex_embedded
   \<and> pack ex_embedded [8, 3] = Inr ex_packed
   \<and> rnn_module_forward (enc_rnn (ex_encoder ex_config)) True (rnn_noise ex_enc_noise)
        (fst (unpack ex_packed)) = Inr (ex_raw, Hidden ex_hidden)
   \<and> has_shape3 ex_raw 8 2 2
   \<and> rnn_encoder_forward ((ex_encoder ex_config)\<lparr>enc_training := True\<rparr>) ex_enc_noise ex_inputs [8, 3]
       = Inr (ex_outputs, Hidden ex_hidden_reduced, ex_conv)
   \<and> has_shape3 ex_outputs 8 2 (hidden_size ex_config)
   \<and> has_shape3 ex_conv 2 (8 - 6) (hidden_size ex_config)"
proof -
  have w: "\<forall>i<3. length (p_conv_weight (ex_enc_params ex_config) i) = hidden_size ex_config
                \<and> length (p_conv_bias (ex_enc_params ex_config) i) = hidden_size ex_config"
    by (simp add: ex_enc_params_def ex_config_def)
  have H: "0 < hidden_size ex_config" by (simp add: ex_config_def)
  have B: "(0::nat) < 2" by simp
  have a: "Embedding2 (enc_embedding (ex_encoder ex_config)) ex_inputs = Inr ex_embedded"
    by code_simp
  have b: "pack ex_embedded [8, 3] = Inr ex_packed"
    by code_simp
  have c: "rnn_module_forward (enc_rnn (ex_encoder ex_config)) True (rnn_noise ex_enc_noise)
        (fst (unpack ex_packed)) = Inr (ex_raw, Hidden ex_hidden)"
    by code_simp
  have d: "has_shape3 ex_raw 8 2 2"
    by code_simp
  then have d': "has_shape3 ex_raw 8 2 (if bidirectional ex_config then 2 * hidden_size ex_config
                                        else hidden_size ex_config)"
    by (simp add: ex_config_def)
  have f: "rnn_encoder_forward ((ex_encoder ex_config)\<lparr>enc_training := True\<rparr>) ex_enc_noise
             ex_inputs [8, 3] = Inr (ex_outputs, Hidden ex_hidden_reduced, ex_conv)"
    by code_simp
  have "\<exists>outputs state conv.
           rnn_encoder_forward ((ex_encoder ex_config)\<lparr>enc_training := True\<rparr>) ex_enc_noise
             ex_inputs [8, 3] = Inr (outputs, state, conv)
           \<and> has_shape3 outputs 8 2 (hidden_size ex_config)
           \<and> has_shape3 conv 2 (8 - 6) (hidden_size ex_config)"
    using dconv_shortens_by_six [OF ex_init w H B a b c d', THEN conjunct1] by simp
  then have r: "has_shape3 ex_outputs 8 2 (hidden_size ex_config)
              \<and> has_shape3 ex_conv 2 (8 - 6) (hidden_size ex_config)"
    unfolding f by simp
  show ?thesis
    by (intro conjI ex_init a b c d f conjunct1 [OF r] conjunct2 [OF r])
qed

text \<open>
  The convolutional context is not as long as the outputs: for a batch of time length 20
  the outputs have 20 steps and the context 14 for each of the two examples, and for time
  lengths 1 and 5 the forward pass raises.
\<close>

theorem dconv_length_counterexample:
  "length (fst (projr (rnn_encoder_forward (ex_encoder ex_config) ex_enc_noise ex_inputs20 [20, 3]))) = 20
   \<and> map length (snd (snd (projr
        (rnn_encoder_forward (ex_encoder ex_config) ex_enc_noise ex_inputs20 [20, 3])))) = [14, 14]
   \<and> isl (rnn_encoder_forward (ex_encoder ex_config) ex_enc_noise ex_inputs20 [20, 3]) = False
   \<and> rnn_encoder_forward (ex_encoder ex_config) ex_enc_noise ex_inputs5 [5, 3] = Inl RuntimeError
   \<and> rnn_encoder_forward (ex_encoder ex_config) ex_enc_noise ex_inputs1 [1, 1] = Inl RuntimeError"
  by code_simp


section \<open>The stacked cell's loop\<close>

lemma make_layers_length [simp]: "length (make_layers mk i n a b) = n"
  by (induction n arbitrary: i a) auto

lemma filter_upt_last: "filter (\<lambda>j. j + 1 \<noteq> n) [0..<n] = [0..<n - 1]"
proof (cases n)
  case 0
  then show ?thesis by simp
next
  case (Suc m)
  have "filter (\<lambda>j. j + 1 \<noteq> Suc m) [0..<m] = [0..<m]"
    by (simp add: filter_id_conv)
  then show ?thesis using Suc by simp
qed

lemma StackedGRU_loop_spec:
  assumes "StackedGRU_loop self tr mk h_0 i layers input h_1 calls = Inr (out, st, cs)"
  shows "\<exists>new. st = h_1 @ new \<and> length new = length layers
        \<and> cs = calls @ filter (\<lambda>j. j + 1 \<noteq> sg_num_layers self) [i..<i + length layers]
        \<and> out = (if layers = [] then input
                  else if i + length layers \<noteq> sg_num_layers self
                  then dropout2 (sg_dropout self) tr (mk (i + length layers - 1)) (last new)
                  else last new)
        \<and> (\<forall>k<length layers.
              i + k < length h_0 \<and>
              (layers ! k) (if k = 0 then input
                            else if i + k \<noteq> sg_num_layers self
                            then dropout2 (sg_dropout self) tr (mk (i + k - 1)) (new ! (k - 1))
                            else new ! (k - 1))
                           (h_0 ! (i + k)) = Inr (new ! k))"
  using assms
proof (induction layers arbitrary: i input h_1 calls)
  case Nil
  then show ?case by simp
next
  case (Cons layer rest)
  let ?n = "sg_num_layers self"
  from Cons.prems obtain h1i where i: "i < length h_0" and l: "layer input (h_0 ! i) = Inr h1i"
    and rec: "StackedGRU_loop self tr mk h_0 (i + 1) rest
                (if i + 1 \<noteq> ?n then dropout2 (sg_dropout self) tr (mk i) h1i else h1i)
                (h_1 @ [h1i]) (if i + 1 \<noteq> ?n then calls @ [i] else calls) = Inr (out, st, cs)"
    by (auto simp: ebind_eq_Inr split: if_splits)
  from Cons.IH [OF rec] obtain new where new:
    "st = (h_1 @ [h1i]) @ new" "length new = length rest"
    "cs = (if i + 1 \<noteq> ?n then calls @ [i] else calls)
            @ filter (\<lambda>j. j + 1 \<noteq> ?n) [i + 1..<i + 1 + length rest]"
    "out = (if rest = [] then (if i + 1 \<noteq> ?n then dropout2 (sg_dropout self) tr (mk i) h1i else h1i)
            else if i + 1 + length rest \<noteq> ?n
            then dropout2 (sg_dropout self) tr (mk (i + 1 + length rest - 1)) (last new)
            else last new)"
    "\<forall>k<length rest.
        i + 1 + k < length h_0 \<and>
        (rest ! k) (if k = 0 then (if i + 1 \<noteq> ?n then dropout2 (sg_dropout self) tr (mk i) h1i else h1i)
                    else if i + 1 + k \<noteq> ?n
                    then dropout2 (sg_dropout self) tr (mk (i + 1 + k - 1)) (new ! (k - 1))
                    else new ! (k - 1))
                   (h_0 ! (i + 1 + k)) = Inr (new ! k)"
    by blast
  show ?case
  proof (intro exI [of _ "h1i # new"] conjI allI impI)
    show "st = h_1 @ h1i # new" using new(1) by simp
    show "length (h1i # new) = length (layer # rest)" using new(2) by simp
    have u: "[i..<i + length (layer # rest)] = i # [i + 1..<i + 1 + length rest]"
      by (subst upt_rec) simp
    show "cs = calls @ filter (\<lambda>j. j + 1 \<noteq> ?n) [i..<i + length (layer # rest)]"
      unfolding u using new(3) by simp
    show "out = (if layer # rest = [] then input
                  else if i + length (layer # rest) \<noteq> ?n
                  then dropout2 (sg_dropout self) tr (mk (i + length (layer # rest) - 1)) (last (h1i # new))
                  else last (h1i # new))"
      using new(4) new(2) by (cases rest) auto
  next
    fix k assume k: "k < length (layer # rest)"
    show "i + k < length h_0"
      using k i new(5) by (cases k) auto
    show "((layer # rest) ! k) (if k = 0 then input
                            else if i + k \<noteq> ?n
                            then dropout2 (sg_dropout self) tr (mk (i + k - 1)) ((h1i # new) ! (k - 1))
                            else (h1i # new) ! (k - 1))
                           (h_0 ! (i + k)) = Inr ((h1i # new) ! k)"
    proof (cases k)
      case 0
      then show ?thesis using l by simp
    next
      case (Suc k')
      with k have "k' < length rest" by simp
      with new(5) show ?thesis unfolding Suc by (cases k') auto
    qed
  qed
qed


lemma StackedLSTM_loop_spec:
  assumes "StackedLSTM_loop self tr mk h_0 c_0 i layers input h_1 c_1 calls = Inr (out, sh, sc, cs)"
  shows "\<exists>nh nc. sh = h_1 @ nh \<and> sc = c_1 @ nc \<and> length nh = length layers
        \<and> length nc = length layers
        \<and> cs = calls @ filter (\<lambda>j. j + 1 \<noteq> sl_num_layers self) [i..<i + length layers]
        \<and> out = (if layers = [] then input
                  else if i + length layers \<noteq> sl_num_layers self
                  then dropout2 (sl_dropout self) tr (mk (i + length layers - 1)) (last nh)
                  else last nh)
        \<and> (\<forall>k<length layers.
              i + k < length h_0 \<and> i + k < length c_0 \<and>
              (layers ! k) (if k = 0 then input
                            else if i + k \<noteq> sl_num_layers self
                            then dropout2 (sl_dropout self) tr (mk (i + k - 1)) (nh ! (k - 1))
                            else nh ! (k - 1))
                           (h_0 ! (i + k), c_0 ! (i + k)) = Inr (nh ! k, nc ! k))"
  using assms
proof (induction layers arbitrary: i input h_1 c_1 calls)
  case Nil
  then show ?case by simp
next
  case (Cons layer rest)
  let ?n = "sl_num_layers self"
  from Cons.prems obtain h1i c1i where i: "i < length h_0" "i < length c_0"
    and l: "layer input (h_0 ! i, c_0 ! i) = Inr (h1i, c1i)"
    and rec: "StackedLSTM_loop self tr mk h_0 c_0 (i + 1) rest
                (if i + 1 \<noteq> ?n then dropout2 (sl_dropout self) tr (mk i) h1i else h1i)
                (h_1 @ [h1i]) (c_1 @ [c1i]) (if i + 1 \<noteq> ?n then calls @ [i] else calls)
              = Inr (out, sh, sc, cs)"
    by (auto simp: ebind_eq_Inr split: if_splits)
  from Cons.IH [OF rec] obtain nh nc where new:
    "sh = (h_1 @ [h1i]) @ nh" "sc = (c_1 @ [c1i]) @ nc"
    "length nh = length rest" "length nc = length rest"
    "cs = (if i + 1 \<noteq> ?n then calls @ [i] else calls)
            @ filter (\<lambda>j. j + 1 \<noteq> ?n) [i + 1..<i + 1 + length rest]"
    "out = (if rest = [] then (if i + 1 \<noteq> ?n then dropout2 (sl_dropout self) tr (mk i) h1i else h1i)
            else if i + 1 + length rest \<noteq> ?n
            then dropout2 (sl_dropout self) tr (mk (i + 1 + length rest - 1)) (last nh)
            else last nh)"
    "\<forall>k<length rest.
        i + 1 + k < length h_0 \<and> i + 1 + k < length c_0 \<and>
        (rest ! k) (if k = 0 then (if i + 1 \<noteq> ?n then dropout2 (sl_dropout self) tr (mk i) h1i else h1i)
                    else if i + 1 + k \<noteq> ?n
                    then dropout2 (sl_dropout self) tr (mk (i + 1 + k - 1)) (nh ! (k - 1))
                    else nh ! (k - 1))
                   (h_0 ! (i + 1 + k), c_0 ! (i + 1 + k)) = Inr (nh ! k, nc ! k)"
    by blast
  show ?case
  proof (rule exI [of _ "h1i # nh"], rule exI [of _ "c1i # nc"], intro conjI allI impI)
    show "sh = h_1 @ h1i # nh" using new(1) by simp
    show "sc = c_1 @ c1i # nc" using new(2) by simp
    show "length (h1i # nh) = length (layer # rest)" using new(3) by simp
    show "length (c1i # nc) = length (layer # rest)" using new(4) by simp
    have u: "[i..<i + length (layer # rest)] = i # [i + 1..<i + 1 + length rest]"
      by (subst upt_rec) simp
    show "cs = calls @ filter (\<lambda>j. j + 1 \<noteq> ?n) [i..<i + length (layer # rest)]"
      unfolding u using new(5) by simp
    show "out = (if layer # rest = [] then input
                  else if i + length (layer # rest) \<noteq> ?n
                  then dropout2 (sl_dropout self) tr (mk (i + length (layer # rest) - 1)) (last (h1i # nh))
                  else last (h1i # nh))"
      using new(6) new(3) by (cases rest) auto
  next
    fix k assume k: "k < length (layer # rest)"
    show "i + k < length h_0" using k i new(7) by (cases k) auto
    show "i + k < length c_0" using k i new(7) by (cases k) auto
    show "((layer # rest) ! k) (if k = 0 then input
                            else if i + k \<noteq> ?n
                            then dropout2 (sl_dropout self) tr (mk (i + k - 1)) ((h1i # nh) ! (k - 1))
                            else (h1i # nh) ! (k - 1))
                           (h_0 ! (i + k), c_0 ! (i + k)) = Inr ((h1i # nh) ! k, (c1i # nc) ! k)"
    proof (cases k)
      case 0
      then show ?thesis using l by simp
    next
      case (Suc k')
      with k have "k' < length rest" by simp
      with new(7) show ?thesis unfolding Suc by (cases k') auto
    qed
  qed
qed

lemma filter_upt_last_Suc: "filter (\<lambda>j. Suc j \<noteq> n) [0..<n] = [0..<n - Suc 0]"
  using filter_upt_last [of n] by simp

lemma stack_Inr: "stack xs = Inr ys \<Longrightarrow> ys = xs \<and> xs \<noteq> []"
  by (auto simp: stack_def split: list.splits if_splits)

lemma StackedGRU_forward_spec:
  assumes n: "length (sg_layers self) = sg_num_layers self"
      and fw: "StackedGRU_forward self tr mk input hidden = Inr (output, h_1, calls)"
  shows "0 < sg_num_layers self \<and> length h_1 = sg_num_layers self
       \<and> calls = [0..<sg_num_layers self - 1] \<and> output = last h_1
       \<and> (\<forall>k<sg_num_layers self. k < length hidden \<and>
            (sg_layers self ! k) (if k = 0 then input
                                  else dropout2 (sg_dropout self) tr (mk (k - 1)) (h_1 ! (k - 1)))
                                 (hidden ! k) = Inr (h_1 ! k))"
proof -
  from fw obtain st where loop: "StackedGRU_loop self tr mk hidden 0 (sg_layers self) input [] []
                                   = Inr (output, st, calls)"
    and st: "stack st = Inr h_1"
    by (auto simp: StackedGRU_forward_def ebind_eq_Inr)
  from stack_Inr [OF st] have h1: "h_1 = st" "st \<noteq> []" by simp_all
  from StackedGRU_loop_spec [OF loop] n h1 length_greater_0_conv [of "sg_layers self"]
  show ?thesis
    by (auto simp: filter_upt_last_Suc)
qed

lemma StackedLSTM_forward_spec:
  assumes n: "length (sl_layers self) = sl_num_layers self"
      and fw: "StackedLSTM_forward self tr mk input (h_0, c_0) = Inr (output, (h_1, c_1), calls)"
  shows "0 < sl_num_layers self \<and> length h_1 = sl_num_layers self \<and> length c_1 = sl_num_layers self
       \<and> calls = [0..<sl_num_layers self - 1] \<and> output = last h_1
       \<and> (\<forall>k<sl_num_layers self. k < length h_0 \<and> k < length c_0 \<and>
            (sl_layers self ! k) (if k = 0 then input
                                  else dropout2 (sl_dropout self) tr (mk (k - 1)) (h_1 ! (k - 1)))
                                 (h_0 ! k, c_0 ! k) = Inr (h_1 ! k, c_1 ! k))"
proof -
  from fw obtain sh sc where loop: "StackedLSTM_loop self tr mk h_0 c_0 0 (sl_layers self) input [] [] []
                                   = Inr (output, sh, sc, calls)"
    and st: "stack sh = Inr h_1" "stack sc = Inr c_1"
    by (auto simp: StackedLSTM_forward_def ebind_eq_Inr)
  from stack_Inr [OF st(1)] stack_Inr [OF st(2)] have h1: "h_1 = sh" "sh \<noteq> []" "c_1 = sc" by simp_all
  from StackedLSTM_loop_spec [OF loop] n h1 length_greater_0_conv [of "sl_layers self"]
  show ?thesis
    by (auto simp: filter_upt_last_Suc)
qed

lemma StackedGRU_init_fields:
  assumes "StackedGRU_init num_layers input_size hidden_sz p ps = Inr g"
  shows "sg_num_layers g = num_layers" "length (sg_layers g) = num_layers"
        "sg_dropout g = q_dropout ps p"
        "sg_layers g = make_layers (q_gru_cell ps) 0 num_layers input_size hidden_sz"
  using assms by (auto simp: StackedGRU_init_def split: if_splits)

lemma StackedLSTM_init_fields:
  assumes "StackedLSTM_init num_layers input_size hidden_sz p ps = Inr l"
  shows "sl_num_layers l = num_layers" "length (sl_layers l) = num_layers"
        "sl_dropout l = q_dropout ps p"
        "sl_layers l = make_layers (q_lstm_cell ps) 0 num_layers input_size hidden_sz"
  using assms by (auto simp: StackedLSTM_init_def split: if_splits)

section \<open>Dropout between the layers of a stacked cell\<close>

text \<open>
  C6. One step of a stacked cell built by its constructor with \<open>num_layers\<close> layers, when
  it returns: there is at least one layer; the dropout layer is called exactly
  \<open>num_layers - 1\<close> times, once after each layer but the last (the calls are those after
  the layers \<open>0, \<dots>, num_layers - 2\<close>); layer 0 takes the step's input, and every later
  layer takes the dropout of the new hidden vector of the layer before it; the returned
  output is the last layer's new hidden vector itself, with no dropout applied; and the
  returned state is the list of the new hidden (and, for the LSTM, cell) vectors of all
  layers, in layer order. This holds for the GRU and for the LSTM variant.
\<close>

theorem stacked_cell_dropout:
  "(StackedGRU_init num_layers input_size hidden_sz p ps = Inr g \<longrightarrow>
    StackedGRU_forward g tr mk input hidden = Inr (output, h_1, calls) \<longrightarrow>
      0 < num_layers \<and> length h_1 = num_layers
      \<and> calls = [0..<num_layers - 1] \<and> length calls = num_layers - 1
      \<and> output = last h_1
      \<and> (\<forall>k<num_layers. k < length hidden \<and>
            (sg_layers g ! k) (if k = 0 then input
                               else dropout2 (sg_dropout g) tr (mk (k - 1)) (h_1 ! (k - 1)))
                              (hidden ! k) = Inr (h_1 ! k)))
   \<and> (StackedLSTM_init num_layers input_size hidden_sz p ps = Inr l \<longrightarrow>
      StackedLSTM_forward l tr mk input (h_0, c_0) = Inr (output', (h_1', c_1'), calls') \<longrightarrow>
      0 < num_layers \<and> length h_1' = num_layers \<and> length c_1' = num_layers
      \<and> calls' = [0..<num_layers - 1] \<and> length calls' = num_layers - 1
      \<and> output' = last h_1'
      \<and> (\<forall>k<num_layers. k < length h_0 \<and> k < length c_0 \<and>
            (sl_layers l ! k) (if k = 0 then input
                               else dropout2 (sl_dropout l) tr (mk (k - 1)) (h_1' ! (k - 1)))
                              (h_0 ! k, c_0 ! k) = Inr (h_1' ! k, c_1' ! k)))"
proof (intro conjI impI)
  assume i: "StackedGRU_init num_layers input_size hidden_sz p ps = Inr g"
     and f: "StackedGRU_forward g tr mk input hidden = Inr (output, h_1, calls)"
  note n = StackedGRU_init_fields(1,2) [OF i]
  from StackedGRU_forward_spec [OF _ f] n
  have *: "0 < num_layers \<and> length h_1 = num_layers
       \<and> calls = [0..<num_layers - 1] \<and> output = last h_1
       \<and> (\<forall>k<num_layers. k < length hidden \<and>
            (sg_layers g ! k) (if k = 0 then input
                                  else dropout2 (sg_dropout g) tr (mk (k - 1)) (h_1 ! (k - 1)))
                                 (hidden ! k) = Inr (h_1 ! k))"
    by simp
  then show "0 < num_layers" "length h_1 = num_layers" "calls = [0..<num_layers - 1]"
    "output = last h_1"
    "\<forall>k<num_layers. k < length hidden \<and>
            (sg_layers g ! k) (if k = 0 then input
                               else dropout2 (sg_dropout g) tr (mk (k - 1)) (h_1 ! (k - 1)))
                              (hidden ! k) = Inr (h_1 ! k)"
    by blast+
  from * show "length calls = num_layers - 1" by simp
next
  assume i: "StackedLSTM_init num_layers input_size hidden_sz p ps = Inr l"
     and f: "StackedLSTM_forward l tr mk input (h_0, c_0) = Inr (output', (h_1', c_1'), calls')"
  note n = StackedLSTM_init_fields(1,2) [OF i]
  from StackedLSTM_forward_spec [OF _ f] n
  have *: "0 < num_layers \<and> length h_1' = num_layers \<and> length c_1' = num_layers
       \<and> calls' = [0..<num_layers - 1] \<and> output' = last h_1'
       \<and> (\<forall>k<num_layers. k < length h_0 \<and> k < length c_0 \<and>
            (sl_layers l ! k) (if k = 0 then input
                                  else dropout2 (sl_dropout l) tr (mk (k - 1)) (h_1' ! (k - 1)))
                                 (h_0 ! k, c_0 ! k) = Inr (h_1' ! k, c_1' ! k))"
    by simp
  then show "0 < num_layers" "length h_1' = num_layers" "length c_1' = num_layers"
    "calls' = [0..<num_layers - 1]" "output' = last h_1'"
    "\<forall>k<num_layers. k < length h_0 \<and> k < length c_0 \<and>
            (sl_layers l ! k) (if k = 0 then input
                               else dropout2 (sl_dropout l) tr (mk (k - 1)) (h_1' ! (k - 1)))
                              (h_0 ! k, c_0 ! k) = Inr (h_1' ! k, c_1' ! k)"
    by blast+
  from * show "length calls' = num_layers - 1" by simp
qed


lemma ex_stacked_gru_init:
  "StackedGRU_init n 1 2 0 (ex_dec_params ex_config) = Inr (ex_stacked_gru n)"
  by (simp add: ex_stacked_gru_def StackedGRU_init_def valid_dropout_def)

lemma ex_stacked_lstm_init:
  "StackedLSTM_init n 1 2 0 (ex_dec_params ex_config) = Inr (ex_stacked_lstm n)"
  by (simp add: ex_stacked_lstm_def StackedLSTM_init_def valid_dropout_def)

theorem stacked_cell_dropout_witness:
  "StackedGRU_init 3 1 2 0 (ex_dec_params ex_config) = Inr (ex_stacked_gru 3)
   \<and> StackedGRU_forward (ex_stacked_gru 3) True ex_mask ex_step_input ex_h0
       = Inr (ex_step_output, ex_h1, [0, 1])
   \<and> [0, 1] = [0..<3 - 1] \<and> length [0::nat, 1] = 3 - 1
   \<and> ex_step_output = last ex_h1 \<and> length ex_h1 = 3
   \<and> StackedLSTM_init 3 1 2 0 (ex_dec_params ex_config) = Inr (ex_stacked_lstm 3)
   \<and> StackedLSTM_forward (ex_stacked_lstm 3) True ex_mask ex_step_input (ex_h0, ex_c0)
       = Inr (ex_step_output, (ex_h1, ex_c1), [0, 1])
   \<and> length ex_c1 = 3
   \<and> StackedGRU_forward (ex_stacked_gru 1) True ex_mask ex_step_input (take 1 ex_h0)
       = Inr (hd ex_h1, take 1 ex_h1, [])"
proof -
  have f: "StackedGRU_forward (ex_stacked_gru 3) True ex_mask ex_step_input ex_h0
       = Inr (ex_step_output, ex_h1, [0, 1])"
    by code_simp
  have f': "StackedLSTM_forward (ex_stacked_lstm 3) True ex_mask ex_step_input (ex_h0, ex_c0)
       = Inr (ex_step_output, (ex_h1, ex_c1), [0, 1])"
    by code_simp
  have f1: "StackedGRU_forward (ex_stacked_gru 1) True ex_mask ex_step_input (take 1 ex_h0)
       = Inr (hd ex_h1, take 1 ex_h1, [])"
    by code_simp
  note g = stacked_cell_dropout [THEN conjunct1, THEN mp, OF ex_stacked_gru_init, THEN mp, OF f]
  note l = stacked_cell_dropout [THEN conjunct2, THEN mp, OF ex_stacked_lstm_init, THEN mp, OF f']
  from g have g1: "[0, 1] = [0..<3 - 1]" and g2: "length [0::nat, 1] = 3 - 1"
    and g3: "ex_step_output = last ex_h1" and g4: "length ex_h1 = 3"
    by blast+
  from l have l1: "length ex_c1 = 3" by blast
  show ?thesis
    by (intro conjI ex_stacked_gru_init f g1 g2 g3 g4 ex_stacked_lstm_init f' l1 f1)
qed


section \<open>The decoder's attention mode\<close>

lemma decoder_init_Inr:
  assumes "valid_dropout (dropout config)"
  shows "\<exists>dec. rnn_decoder_init config embedding use_attention ps = Inr dec
          \<and> dec_attention dec =
             (if \<not> use_attention \<or> attention config = ''None'' then Some None
              else if attention config = ''bahdanau''
                then Some (Some (q_bahdanau_attention ps (hidden_size config) (emb_size config)
                                   (pool_size config)))
              else if attention config = ''luong''
                then Some (Some (q_luong_attention ps (hidden_size config) (emb_size config)
                                   (pool_size config)))
              else if attention config = ''luong_gate''
                then Some (Some (q_luong_gate_attention ps (hidden_size config) (emb_size config)))
              else None)"
  using assms
  by (cases "cell config = ''gru''")
     (simp_all add: rnn_decoder_init_def StackedGRU_init_def StackedLSTM_init_def Let_def)

lemma decoder_init_attention:
  assumes "rnn_decoder_init config embedding use_attention ps = Inr dec"
  shows "dec_attention dec =
             (if \<not> use_attention \<or> attention config = ''None'' then Some None
              else if attention config = ''bahdanau''
                then Some (Some (q_bahdanau_attention ps (hidden_size config) (emb_size config)
                                   (pool_size config)))
              else if attention config = ''luong''
                then Some (Some (q_luong_attention ps (hidden_size config) (emb_size config)
                                   (pool_size config)))
              else if attention config = ''luong_gate''
                then Some (Some (q_luong_gate_attention ps (hidden_size config) (emb_size config)))
              else None)"
    and "valid_dropout (dropout config)" and "dec_config dec = config"
  using assms
  by (auto simp: rnn_decoder_init_def StackedGRU_init_def StackedLSTM_init_def Let_def ebind_eq_Inr
           split: if_splits)

lemma decoder_forward_unfold:
  "rnn_decoder_forward self nz input state conv =
     ebind (Embedding1 (dec_embedding self) input) (\<lambda>embs.
     ebind (stacked_rnn_forward (dec_rnn self) (dec_training self) (cell_mask nz) embs state)
       (\<lambda>r.
     ebind (case dec_attention self of None \<Rightarrow> Inl AttributeError | Some a \<Rightarrow> Inr a) (\<lambda>att.
     ebind (case att of
              Some attend \<Rightarrow>
                ebind (if attention (dec_config self) = ''luong_gate''
                       then attend (dec_training self) (attn_noise nz) (fst r) (T3 conv)
                       else attend (dec_training self) (attn_noise nz) (fst r) (T2 embs))
                  (\<lambda>(output, attn_weights). Inr (output, Some attn_weights))
            | None \<Rightarrow> Inr (fst r, None)) (\<lambda>(output, attn_weights).
     ebind (compute_score self output) (\<lambda>output.
     Inr (output, fst (snd r), attn_weights))))))"
  unfolding rnn_decoder_forward_def
  by (rule arg_cong [where f = "ebind _"], rule ext, rule arg_cong [where f = "ebind _"], rule ext)
     (simp add: split_beta)


lemma decoder_forward_unset:
  assumes "dec_attention self = None"
  shows "isl (rnn_decoder_forward self nz input state conv)"
    and "Embedding1 (dec_embedding self) input = Inr embs \<Longrightarrow>
         stacked_rnn_forward (dec_rnn self) (dec_training self) (cell_mask nz) embs state = Inr r
         \<Longrightarrow> rnn_decoder_forward self nz input state conv = Inl AttributeError"
proof -
  show "isl (rnn_decoder_forward self nz input state conv)"
  proof (cases "Embedding1 (dec_embedding self) input")
    case (Inl e)
    then show ?thesis by (simp add: decoder_forward_unfold)
  next
    case (Inr embs)
    then show ?thesis using assms
      by (cases "stacked_rnn_forward (dec_rnn self) (dec_training self) (cell_mask nz) embs state")
         (simp_all add: decoder_forward_unfold)
  qed
  show "Embedding1 (dec_embedding self) input = Inr embs \<Longrightarrow>
         stacked_rnn_forward (dec_rnn self) (dec_training self) (cell_mask nz) embs state = Inr r
         \<Longrightarrow> rnn_decoder_forward self nz input state conv = Inl AttributeError"
    using assms by (simp add: decoder_forward_unfold)
qed

text \<open>
  C4 (as stated). A decoder configuration whose attention mode is \<open>transformer\<close>, none of
  the modes the constructor tests for, is not rejected: the constructor returns a decoder.
  Its attention attribute is unset, and the first forward call on it fails with an
  AttributeError.
\<close>

theorem unrecognized_attention_counterexample:
  "\<not> isl (rnn_decoder_init ex_bad_config None True (ex_dec_params ex_bad_config))
   \<and> (case dec_attention (ex_decoder ex_bad_config) of None \<Rightarrow> True | Some a \<Rightarrow> False)
   \<and> rnn_decoder_forward (ex_decoder ex_bad_config) ex_dec_noise ex_tokens
        (Hidden ex_hidden_reduced) ex_conv = Inl AttributeError"
proof -
  have i: "rnn_decoder_init ex_bad_config None True (ex_dec_params ex_bad_config)
             = Inr (ex_decoder ex_bad_config)"
    by (simp add: ex_decoder_def rnn_decoder_init_def ex_bad_config_def ex_config_def
          StackedGRU_init_def valid_dropout_def)
  have a: "dec_attention (ex_decoder ex_bad_config) = None"
    by (simp add: ex_decoder_def rnn_decoder_init_def ex_bad_config_def ex_config_def
          StackedGRU_init_def valid_dropout_def)
  have f: "rnn_decoder_forward (ex_decoder ex_bad_config) ex_dec_noise ex_tokens
        (Hidden ex_hidden_reduced) ex_conv = Inl AttributeError"
    by code_simp
  from i a f show ?thesis by simp
qed

text \<open>
  C4 (amended). The decoder's constructor does not validate the attention mode. With
  attention in use and a mode other than the four strings it tests for (\<open>None\<close>,
  \<open>bahdanau\<close>, \<open>luong\<close>, \<open>luong_gate\<close>), construction succeeds whenever the dropout
  probability is valid, and leaves the attention attribute unset. Attention is not silently
  disabled either: every forward call on such a decoder fails, in either mode, and it is an
  AttributeError as soon as the embedding lookup and the stacked cell's step have succeeded.
\<close>

theorem unrecognized_attention_is_not_rejected:
  assumes bad: "attention config \<notin> {''None'', ''bahdanau'', ''luong'', ''luong_gate''}"
      and p: "valid_dropout (dropout config)"
  shows "\<exists>dec. rnn_decoder_init config embedding True ps = Inr dec
           \<and> dec_attention dec = None
           \<and> (\<forall>tr nz input state conv.
                 isl (rnn_decoder_forward (dec\<lparr>dec_training := tr\<rparr>) nz input state conv))
           \<and> (\<forall>tr nz input state conv embs r.
                 Embedding1 (dec_embedding dec) input = Inr embs \<longrightarrow>
                 stacked_rnn_forward (dec_rnn dec) tr (cell_mask nz) embs state = Inr r \<longrightarrow>
                 rnn_decoder_forward (dec\<lparr>dec_training := tr\<rparr>) nz input state conv
                   = Inl AttributeError)"
proof -
  from decoder_init_Inr [OF p, of embedding True ps] bad
  obtain dec where i: "rnn_decoder_init config embedding True ps = Inr dec"
    and a: "dec_attention dec = None"
    by auto
  have a': "dec_attention (dec\<lparr>dec_training := tr\<rparr>) = None" for tr
    using a by simp
  have 1: "isl (rnn_decoder_forward (dec\<lparr>dec_training := tr\<rparr>) nz input state conv)"
    for tr nz input state conv
    by (rule decoder_forward_unset(1) [OF a'])
  have 2: "rnn_decoder_forward (dec\<lparr>dec_training := tr\<rparr>) nz input state conv
             = Inl AttributeError"
    if "Embedding1 (dec_embedding dec) input = Inr embs"
      and "stacked_rnn_forward (dec_rnn dec) tr (cell_mask nz) embs state = Inr r"
    for tr nz input state conv embs r
    using decoder_forward_unset(2) [OF a', of tr input embs nz state r conv] that by simp
  from i a 1 2 show ?thesis by blast
qed

theorem unrecognized_attention_is_not_rejected_witness:
  "valid_dropout (dropout ex_lower_config)
   \<and> rnn_decoder_init ex_lower_config None True (ex_dec_params ex_lower_config)
       = Inr (ex_decoder ex_lower_config)
   \<and> isl (rnn_decoder_forward ((ex_decoder ex_lower_config)\<lparr>dec_training := False\<rparr>)
            ex_dec_noise ex_tokens (Hidden ex_hidden_reduced) ex_conv)"
proof -
  have b: "attention ex_lower_config \<notin> {''None'', ''bahdanau'', ''luong'', ''luong_gate''}"
    by (simp add: ex_lower_config_def)
  have p: "valid_dropout (dropout ex_lower_config)"
    by (simp add: ex_lower_config_def ex_config_def valid_dropout_def)
  have i: "rnn_decoder_init ex_lower_config None True (ex_dec_params ex_lower_config)
             = Inr (ex_decoder ex_lower_config)"
    by (simp add: ex_decoder_def rnn_decoder_init_def ex_lower_config_def ex_config_def
          StackedGRU_init_def valid_dropout_def)
  from unrecognized_attention_is_not_rejected [OF b p, of None "ex_dec_params ex_lower_config"]
  have f: "isl (rnn_decoder_forward ((ex_decoder ex_lower_config)\<lparr>dec_training := False\<rparr>)
            ex_dec_noise ex_tokens (Hidden ex_hidden_reduced) ex_conv)"
    unfolding i by blast
  show ?thesis by (intro conjI p i f)
qed

text \<open>
  C8 (amended). Attention is switched off by the constructor's flag \<open>use_attention\<close> or by
  the configuration's attention mode being the string \<open>None\<close>. A decoder built that way
  never reads the convolutional context: a step gives the same result, or the same
  exception, whatever context it is passed; when the step returns, the attention weights
  are the value \<open>None\<close>, the new state is the stacked cell's, and the scores are the output
  projection of the stacked cell's output itself. The attention mode \<open>none\<close> in lower case
  is not such a configuration: with attention in use, a decoder built with it has no
  attention attribute, and every step on it fails, with an AttributeError as soon as the
  embedding lookup and the stacked cell's step have succeeded.
\<close>

theorem no_attention_ignores_conv:
  assumes init: "rnn_decoder_init config embedding use_attention ps = Inr dec"
  shows "(\<not> use_attention \<or> attention config = ''None'' \<longrightarrow>
           rnn_decoder_forward (dec\<lparr>dec_training := tr\<rparr>) nz input state conv
             = rnn_decoder_forward (dec\<lparr>dec_training := tr\<rparr>) nz input state conv'
           \<and> (rnn_decoder_forward (dec\<lparr>dec_training := tr\<rparr>) nz input state conv
                = Inr (scores, state', w) \<longrightarrow>
              w = None
              \<and> (\<exists>embs output calls.
                   Embedding1 (dec_embedding dec) input = Inr embs
                   \<and> stacked_rnn_forward (dec_rnn dec) tr (cell_mask nz) embs state
                       = Inr (output, state', calls)
                   \<and> compute_score dec output = Inr scores)))
       \<and> (use_attention \<and> attention config = ''none'' \<longrightarrow>
           isl (rnn_decoder_forward (dec\<lparr>dec_training := tr\<rparr>) nz input state conv)
           \<and> (\<forall>embs r. Embedding1 (dec_embedding dec) input = Inr embs \<longrightarrow>
                 stacked_rnn_forward (dec_rnn dec) tr (cell_mask nz) embs state = Inr r \<longrightarrow>
                 rnn_decoder_forward (dec\<lparr>dec_training := tr\<rparr>) nz input state conv
                   = Inl AttributeError))"
proof (intro conjI impI)
  assume none: "\<not> use_attention \<or> attention config = ''None''"
  from decoder_init_attention(1) [OF init] none
  have a: "dec_attention (dec\<lparr>dec_training := tr\<rparr>) = Some None"
    by auto
  have cs: "compute_score (dec\<lparr>dec_training := tr\<rparr>) = compute_score dec"
    by (rule ext) (simp add: compute_score_def)
  have u: "rnn_decoder_forward (dec\<lparr>dec_training := tr\<rparr>) nz input state c =
     ebind (Embedding1 (dec_embedding dec) input) (\<lambda>embs.
     ebind (stacked_rnn_forward (dec_rnn dec) tr (cell_mask nz) embs state) (\<lambda>r.
     ebind (compute_score dec (fst r)) (\<lambda>output. Inr (output, fst (snd r), None))))" for c
    by (simp add: decoder_forward_unfold a cs)
  show "rnn_decoder_forward (dec\<lparr>dec_training := tr\<rparr>) nz input state conv
           = rnn_decoder_forward (dec\<lparr>dec_training := tr\<rparr>) nz input state conv'"
    by (simp only: u)
  assume r: "rnn_decoder_forward (dec\<lparr>dec_training := tr\<rparr>) nz input state conv
              = Inr (scores, state', w)"
  from r [unfolded u] obtain embs where e: "Embedding1 (dec_embedding dec) input = Inr embs"
    and r1: "ebind (stacked_rnn_forward (dec_rnn dec) tr (cell_mask nz) embs state) (\<lambda>r.
               ebind (compute_score dec (fst r)) (\<lambda>output. Inr (output, fst (snd r), None)))
             = Inr (scores, state', w)"
    by (auto simp: ebind_eq_Inr)
  from r1 obtain rr where s: "stacked_rnn_forward (dec_rnn dec) tr (cell_mask nz) embs state
                                = Inr rr"
    and r2: "ebind (compute_score dec (fst rr)) (\<lambda>output. Inr (output, fst (snd rr), None))
               = Inr (scores, state', w)"
    by (auto simp: ebind_eq_Inr)
  from r2 have c: "compute_score dec (fst rr) = Inr scores" and st: "state' = fst (snd rr)"
    and w: "w = None"
    by (auto simp: ebind_eq_Inr)
  from s st have "stacked_rnn_forward (dec_rnn dec) tr (cell_mask nz) embs state
                    = Inr (fst rr, state', snd (snd rr))"
    by simp
  with e c show "\<exists>embs output calls.
                   Embedding1 (dec_embedding dec) input = Inr embs
                   \<and> stacked_rnn_forward (dec_rnn dec) tr (cell_mask nz) embs state
                       = Inr (output, state', calls)
                   \<and> compute_score dec output = Inr scores"
    by blast
  from w show "w = None" .
next
  assume lower: "use_attention \<and> attention config = ''none''"
  from decoder_init_attention(1) [OF init] lower
  have a: "dec_attention (dec\<lparr>dec_training := tr\<rparr>) = None"
    by simp
  show "isl (rnn_decoder_forward (dec\<lparr>dec_training := tr\<rparr>) nz input state conv)"
    by (rule decoder_forward_unset(1) [OF a])
  show "\<forall>embs r. Embedding1 (dec_embedding dec) input = Inr embs \<longrightarrow>
                 stacked_rnn_forward (dec_rnn dec) tr (cell_mask nz) embs state = Inr r \<longrightarrow>
                 rnn_decoder_forward (dec\<lparr>dec_training := tr\<rparr>) nz input state conv
                   = Inl AttributeError"
    using decoder_forward_unset(2) [OF a, of input _ nz state _ conv] by simp
qed

theorem no_attention_ignores_conv_witness:
  "rnn_decoder_init ex_none_config None True (ex_dec_params ex_none_config)
     = Inr (ex_decoder ex_none_config)
   \<and> rnn_decoder_forward ((ex_decoder ex_none_config)\<lparr>dec_training := True\<rparr>) ex_dec_noise
       ex_tokens (Hidden ex_hidden_reduced) ex_conv = Inr (ex_scores, ex_next_state, None)
   \<and> rnn_decoder_forward ((ex_decoder ex_none_config)\<lparr>dec_training := True\<rparr>) ex_dec_noise
       ex_tokens (Hidden ex_hidden_reduced) [] = Inr (ex_scores, ex_next_state, None)
   \<and> rnn_decoder_init ex_lower_config None True (ex_dec_params ex_lower_config)
       = Inr (ex_decoder ex_lower_config)
   \<and> Embedding1 (dec_embedding (ex_decoder ex_lower_config)) ex_tokens = Inr [[1], [0]]
   \<and> stacked_rnn_forward (dec_rnn (ex_decoder ex_lower_config)) True (cell_mask ex_dec_noise)
        [[1], [0]] (Hidden ex_hidden_reduced) = Inr ([[27], [14]], ex_next_state, [0])
   \<and> rnn_decoder_forward ((ex_decoder ex_lower_config)\<lparr>dec_training := True\<rparr>) ex_dec_noise
       ex_tokens (Hidden ex_hidden_reduced) [] = Inl AttributeError"
proof -
  have i: "rnn_decoder_init ex_none_config None True (ex_dec_params ex_none_config)
             = Inr (ex_decoder ex_none_config)"
    by (simp add: ex_decoder_def rnn_decoder_init_def ex_none_config_def ex_config_def
          StackedGRU_init_def valid_dropout_def)
  have n: "\<not> True \<or> attention ex_none_config = ''None''"
    by (simp add: ex_none_config_def)
  have f: "rnn_decoder_forward ((ex_decoder ex_none_config)\<lparr>dec_training := True\<rparr>)
             ex_dec_noise ex_tokens (Hidden ex_hidden_reduced) ex_conv
           = Inr (ex_scores, ex_next_state, None)"
    by code_simp
  note t = no_attention_ignores_conv [OF i, THEN conjunct1, THEN mp, OF n, THEN conjunct1,
             of True ex_dec_noise ex_tokens "Hidden ex_hidden_reduced" ex_conv "[]"]
  have g: "rnn_decoder_forward ((ex_decoder ex_none_config)\<lparr>dec_training := True\<rparr>)
             ex_dec_noise ex_tokens (Hidden ex_hidden_reduced) []
           = Inr (ex_scores, ex_next_state, None)"
    using t f by simp
  have i': "rnn_decoder_init ex_lower_config None True (ex_dec_params ex_lower_config)
             = Inr (ex_decoder ex_lower_config)"
    by (simp add: ex_decoder_def rnn_decoder_init_def ex_lower_config_def ex_config_def
          StackedGRU_init_def valid_dropout_def)
  have l: "True \<and> attention ex_lower_config = ''none''"
    by (simp add: ex_lower_config_def)
  have e: "Embedding1 (dec_embedding (ex_decoder ex_lower_config)) ex_tokens = Inr [[1], [0]]"
    by code_simp
  have s: "stacked_rnn_forward (dec_rnn (ex_decoder ex_lower_config)) True
             (cell_mask ex_dec_noise) [[1], [0]] (Hidden ex_hidden_reduced)
           = Inr ([[27], [14]], ex_next_state, [0])"
    by code_simp
  have x: "rnn_decoder_forward ((ex_decoder ex_lower_config)\<lparr>dec_training := True\<rparr>)
             ex_dec_noise ex_tokens (Hidden ex_hidden_reduced) [] = Inl AttributeError"
    by (rule no_attention_ignores_conv [OF i', THEN conjunct2, THEN mp, OF l, THEN conjunct2,
              rule_format, OF e s])
  show ?thesis by (intro conjI i f g i' e s x)
qed

text \<open>
  C8 (as stated). With the attention mode \<open>none\<close> the constructor returns a decoder, and
  a decoding step on it returns neither scores nor the value \<open>None\<close> for the weights: it
  raises an AttributeError.
\<close>

theorem no_attention_counterexample:
  "attention ex_lower_config = ''none''
   \<and> \<not> isl (rnn_decoder_init ex_lower_config None True (ex_dec_params ex_lower_config))
   \<and> rnn_decoder_forward (ex_decoder ex_lower_config) ex_dec_noise ex_tokens
        (Hidden ex_hidden_reduced) ex_conv = Inl AttributeError"
proof -
  have a: "attention ex_lower_config = ''none''"
    by (simp add: ex_lower_config_def)
  have i: "\<not> isl (rnn_decoder_init ex_lower_config None True (ex_dec_params ex_lower_config))"
    by (simp add: rnn_decoder_init_def ex_lower_config_def ex_config_def
          StackedGRU_init_def valid_dropout_def)
  have f: "rnn_decoder_forward (ex_decoder ex_lower_config) ex_dec_noise ex_tokens
        (Hidden ex_hidden_reduced) ex_conv = Inl AttributeError"
    by code_simp
  show ?thesis by (intro conjI a i f)
qed

section \<open>Evaluation mode\<close>

lemma dropout2_eval: "dropout2 f False mk x = x"
  by (simp add: dropout2_def)

lemma dropout3_eval: "dropout3 f False mk x = x"
  by (simp add: dropout3_def)

lemma layer_forward_eval: "layer_forward l False mk x = layer_forward l False mk' x"
  by (cases l) (simp_all add: dropout3_eval)

lemma Sequential_forward_eval:
  "Sequential_forward ls False mk i x = Sequential_forward ls False mk' i' x"
proof (induction ls arbitrary: i i' x)
  case Nil
  show ?case by simp
next
  case (Cons l ls)
  have "Sequential_forward ls False mk (Suc i) = Sequential_forward ls False mk' (Suc i')"
    by (rule ext) (rule Cons.IH)
  then show ?case
    by (simp add: layer_forward_eval [of l "mk i" x "mk' i'"])
qed

lemma StackedGRU_loop_eval:
  "StackedGRU_loop self False mk h_0 i layers input h_1 calls
     = StackedGRU_loop self False mk' h_0 i layers input h_1 calls"
proof (induction layers arbitrary: i input h_1 calls)
  case Nil
  show ?case by simp
next
  case (Cons layer layers)
  show ?case
    by (simp add: dropout2_eval Cons.IH cong: if_cong)
qed

lemma StackedLSTM_loop_eval:
  "StackedLSTM_loop self False mk h_0 c_0 i layers input h_1 c_1 calls
     = StackedLSTM_loop self False mk' h_0 c_0 i layers input h_1 c_1 calls"
proof (induction layers arbitrary: i input h_1 c_1 calls)
  case Nil
  show ?case by simp
next
  case (Cons layer layers)
  show ?case
    by (simp add: dropout2_eval Cons.IH cong: if_cong)
qed

lemma stacked_rnn_forward_eval:
  "stacked_rnn_forward r False mk input state = stacked_rnn_forward r False mk' input state"
proof (cases r)
  case (SGRU g)
  then show ?thesis
    by (cases state)
       (simp_all add: StackedGRU_forward_def StackedGRU_loop_eval [of g mk _ _ _ _ _ _ mk'])
next
  case (SLSTM l)
  then show ?thesis
    by (cases state)
       (simp_all add: StackedLSTM_forward_def
          StackedLSTM_loop_eval [of l mk _ _ _ _ _ _ _ _ mk'])
qed

lemma decoder_forward_eval:
  assumes ev: "\<not> dec_training dec"
      and att: "\<And>a n n' out ctx. dec_attention dec = Some (Some a)
                  \<Longrightarrow> a False n out ctx = a False n' out ctx"
  shows "rnn_decoder_forward dec nz input state conv
           = rnn_decoder_forward dec nz' input state conv"
proof -
  have s: "stacked_rnn_forward (dec_rnn dec) (dec_training dec) (cell_mask nz) embs state
         = stacked_rnn_forward (dec_rnn dec) (dec_training dec) (cell_mask nz') embs state"
    for embs
    using ev stacked_rnn_forward_eval [of "dec_rnn dec" "cell_mask nz" embs state "cell_mask nz'"]
    by simp
  show ?thesis
  proof (cases "dec_attention dec")
    case None
    then show ?thesis by (simp add: decoder_forward_unfold s)
  next
    case (Some att')
    show ?thesis
    proof (cases att')
      case None
      with Some show ?thesis by (simp add: decoder_forward_unfold s)
    next
      case (Some a)
      with \<open>dec_attention dec = Some att'\<close> have d: "dec_attention dec = Some (Some a)" by simp
      have a: "a (dec_training dec) (attn_noise nz) out ctx
                 = a (dec_training dec) (attn_noise nz') out ctx" for out ctx
        using att [OF d, of "attn_noise nz" out ctx "attn_noise nz'"] ev by simp
      show ?thesis by (simp add: decoder_forward_unfold s d a cong: if_cong)
    qed
  qed
qed

lemma decode_steps_eval:
  assumes ev: "\<not> dec_training dec"
      and att: "\<And>a n n' out ctx. dec_attention dec = Some (Some a)
                  \<Longrightarrow> a False n out ctx = a False n' out ctx"
  shows "decode_steps dec dnz k inputs state conv = decode_steps dec dnz' k inputs state conv"
proof (induction inputs arbitrary: k state)
  case Nil
  show ?case by simp
next
  case (Cons input inputs)
  have "rnn_decoder_forward dec (dnz k) input state conv
          = rnn_decoder_forward dec (dnz' k) input state conv"
    by (rule decoder_forward_eval [OF ev]) (rule att)
  then show ?case by (simp add: Cons.IH)
qed

lemma encoder_forward_eval:
  assumes ev: "\<not> enc_training enc"
      and rnn: "\<And>n n' x. rnn_module_forward (enc_rnn enc) False n x
                  = rnn_module_forward (enc_rnn enc) False n' x"
  shows "rnn_encoder_forward enc enz inputs lengths = rnn_encoder_forward enc enz' inputs lengths"
proof -
  have r: "rnn_module_forward (enc_rnn enc) (enc_training enc) (rnn_noise enz) x
             = rnn_module_forward (enc_rnn enc) (enc_training enc) (rnn_noise enz') x" for x
    using rnn [of "rnn_noise enz" x "rnn_noise enz'"] ev by simp
  have s: "Sequential_forward (enc_dconv enc) (enc_training enc) (dconv_mask enz) 0 x
             = Sequential_forward (enc_dconv enc) (enc_training enc) (dconv_mask enz') 0 x" for x
    using Sequential_forward_eval [of "enc_dconv enc" "dconv_mask enz" 0 x "dconv_mask enz'" 0] ev
    by simp
  show ?thesis
    unfolding rnn_encoder_forward_def by (simp only: r s)
qed

text \<open>
  C9. Encoding and then running any number of decoding steps from the encoder's state is
  deterministic in evaluation mode. With the encoder and the decoder in evaluation mode, and
  with the library's recurrent network and the attention module drawing no randomness in
  that mode, what the dropout layers of the convolution stack and of the stacked cell would
  draw has no effect: two runs on the same inputs with the same parameters give the same
  encoder outputs, state and context and, at every step, the same scores, states and
  attention weights (or raise the same exception).
\<close>

theorem eval_round_trip_deterministic:
  assumes "\<not> enc_training enc" and "\<not> dec_training dec"
      and "\<forall>n n' x. rnn_module_forward (enc_rnn enc) False n x
                       = rnn_module_forward (enc_rnn enc) False n' x"
      and "\<forall>a n n' out ctx. dec_attention dec = Some (Some a)
                       \<longrightarrow> a False n out ctx = a False n' out ctx"
  shows "encode_decode enc dec enz dnz inputs lengths steps
           = encode_decode enc dec enz' dnz' inputs lengths steps"
proof -
  have e: "rnn_encoder_forward enc enz inputs lengths = rnn_encoder_forward enc enz' inputs lengths"
    using assms(1,3) by (intro encoder_forward_eval) auto
  have d: "decode_steps dec dnz 0 steps state conv = decode_steps dec dnz' 0 steps state conv"
    for state conv
    using assms(2,4) by (intro decode_steps_eval) auto
  show ?thesis
    unfolding encode_decode_def by (simp only: e d)
qed

theorem eval_round_trip_deterministic_witness:
  "\<not> enc_training (enc_eval (ex_encoder ex_config))
   \<and> \<not> dec_training (dec_eval (ex_decoder ex_config))
   \<and> encode_decode (enc_eval (ex_encoder ex_config)) (dec_eval (ex_decoder ex_config))
         ex_enc_noise ex_dec_noises ex_inputs [8, 3] ex_step_tokens = Inr ex_round_trip
   \<and> encode_decode (enc_eval (ex_encoder ex_config)) (dec_eval (ex_decoder ex_config))
         ex_enc_noise_alt ex_dec_noises_alt ex_inputs [8, 3] ex_step_tokens = Inr ex_round_trip"
proof -
  have e: "\<not> enc_training (enc_eval (ex_encoder ex_config))"
    by (simp add: enc_eval_def)
  have d: "\<not> dec_training (dec_eval (ex_decoder ex_config))"
    by (simp add: dec_eval_def)
  have r: "\<forall>n n' x. rnn_module_forward (enc_rnn (enc_eval (ex_encoder ex_config))) False n x
             = rnn_module_forward (enc_rnn (enc_eval (ex_encoder ex_config))) False n' x"
    by simp
  have a: "\<forall>a n n' out ctx. dec_attention (dec_eval (ex_decoder ex_config)) = Some (Some a)
             \<longrightarrow> a False n out ctx = a False n' out ctx"
    by simp
  have f: "encode_decode (enc_eval (ex_encoder ex_config)) (dec_eval (ex_decoder ex_config))
         ex_enc_noise ex_dec_noises ex_inputs [8, 3] ex_step_tokens = Inr ex_round_trip"
    by code_simp
  have g: "encode_decode (enc_eval (ex_encoder ex_config)) (dec_eval (ex_decoder ex_config))
         ex_enc_noise_alt ex_dec_noises_alt ex_inputs [8, 3] ex_step_tokens = Inr ex_round_trip"
    unfolding eval_round_trip_deterministic [OF e d r a,
        of ex_enc_noise_alt ex_dec_noises_alt ex_inputs "[8, 3]" ex_step_tokens
           ex_enc_noise ex_dec_noises]
    by (rule f)
  show ?thesis by (intro conjI e d f g)
qed

section \<open>The end-to-end scenario\<close>

lemma pack_succeeds:
  assumes sh: "has_shape3 e T B E" and T: "0 < T" and B: "0 < B" and E: "0 < E"
      and len: "length lengths = B" and pos: "0 < last lengths"
      and srt: "sorted (rev lengths)" and hd: "hd lengths \<le> int T"
  shows "\<exists>embs. pack e lengths = Inr embs"
proof -
  have "size1 e = B" using sh T by (rule size1_shape3)
  moreover have "size2 e = E" using sh T B by (rule size2_shape3)
  moreover have "length e = T" using sh by (simp add: has_shape3_iff)
  ultimately show ?thesis
    using T B E len pos srt hd by (simp add: pack_def)
qed

lemma unpack_shape:
  assumes pk: "pack e lengths = Inr embs" and sh: "has_shape3 e T B E"
      and hd: "hd lengths = int T"
  shows "has_shape3 (fst (unpack embs)) T B E"
proof -
  have "length (e ! t ! b) = E" if "t < T" "b < B" for t b
    using sh that by (rule shape3_nth_nth)
  then show ?thesis
    unfolding unpack_pack [OF pk sh] hd
    by (auto simp: has_shape3_iff has_shape2_iff)
qed

lemma Embedding1_shape:
  assumes "has_shape2 W V E" "list_all (valid_id W) ids"
  shows "\<exists>embs. Embedding1 W ids = Inr embs \<and> has_shape2 embs (length ids) E"
proof -
  have "length (W ! nat i) = E" if "valid_id W i" for i
    using that assms(1) by (auto simp: valid_id_def has_shape2_iff)
  then show ?thesis
    using assms(2) by (auto simp: Embedding1_def has_shape2_iff list_all_iff)
qed

lemma Linear_forward_shape:
  assumes "has_shape2 x B (lin_in_features l)" "length (lin_weight l) = V" "length (lin_bias l) = V"
  shows "\<exists>y. Linear_forward l x = Inr y \<and> has_shape2 y B V"
  using assms by (auto simp: Linear_forward_def has_shape2_iff list_all_iff)

lemma decoder_init_fields:
  assumes "rnn_decoder_init config embedding use_attention ps = Inr dec"
  shows "dec_config dec = config"
    and "dec_embedding dec = (case embedding of Some e \<Rightarrow> e | None \<Rightarrow> q_embedding ps)"
    and "dec_linear dec = \<lparr>lin_weight = q_linear_weight ps, lin_bias = q_linear_bias ps,
                            lin_in_features = hidden_size config,
                            lin_out_features = tgt_vocab_size config\<rparr>"
    and "cell config = ''gru'' \<Longrightarrow>
           \<exists>g. dec_rnn dec = SGRU g
              \<and> StackedGRU_init (dec_num_layers config) (emb_size config) (hidden_size config)
                  (dropout config) ps = Inr g"
    and "cell config \<noteq> ''gru'' \<Longrightarrow>
           \<exists>l. dec_rnn dec = SLSTM l
              \<and> StackedLSTM_init (dec_num_layers config) (emb_size config) (hidden_size config)
                  (dropout config) ps = Inr l"
  using assms
  by (auto simp: rnn_decoder_init_def Let_def ebind_eq_Inr split: if_splits)

lemma size1_shape2: "has_shape2 y B H \<Longrightarrow> 0 < B \<Longrightarrow> size1 y = H"
  by (rule size1_shape [of y B H]) (simp_all add: has_shape2_iff)

lemma stack_shape:
  assumes "xs \<noteq> []" "\<forall>x\<in>set xs. has_shape2 x B H"
  shows "stack xs = Inr xs"
proof -
  obtain x rest where xs: "xs = x # rest" using assms(1) by (cases xs) auto
  from assms(2) xs have x: "has_shape2 x B H" by simp
  have "length y = length x \<and> size1 y = size1 x" if "y \<in> set xs" for y
  proof -
    from that assms(2) have y: "has_shape2 y B H" by blast
    show ?thesis
    proof (cases "B = 0")
      case True
      with x y have "x = []" "y = []" by (simp_all add: has_shape2_iff)
      then show ?thesis by simp
    next
      case False
      then have B: "0 < B" by simp
      have "size1 y = H" "size1 x = H"
        using size1_shape2 [OF y B] size1_shape2 [OF x B] by simp_all
      moreover have "length y = B" "length x = B"
        using x y by (simp_all add: has_shape2_iff)
      ultimately show ?thesis by simp
    qed
  qed
  then have "list_all (\<lambda>y. length y = length x \<and> size1 y = size1 x) (x # rest)"
    unfolding xs [symmetric] list_all_iff by blast
  then show ?thesis unfolding stack_def xs by simp
qed

lemma stacked_gru_two_layers:
  assumes g: "StackedGRU_init 2 E H p qs = Inr g"
      and cell: "\<forall>i a x h. has_shape2 x B a \<longrightarrow> has_shape2 h B H \<longrightarrow>
                   (\<exists>h'. q_gru_cell qs i a H x h = Inr h' \<and> has_shape2 h' B H)"
      and x: "has_shape2 x B E" and h: "has_shape3 h_0 2 B H"
  shows "\<exists>out h_1 calls. StackedGRU_forward g tr mk x h_0 = Inr (out, h_1, calls)
           \<and> has_shape2 out B H \<and> has_shape3 h_1 2 B H \<and> out = last h_1"
proof -
  note f = StackedGRU_init_fields [OF g]
  have layers: "sg_layers g = [q_gru_cell qs 0 E H, q_gru_cell qs 1 H H]"
    by (simp add: f(4) numeral_2_eq_2)
  from h have len: "length h_0 = 2" and h0: "has_shape2 (h_0 ! 0) B H"
    and h1: "has_shape2 (h_0 ! Suc 0) B H"
    by (auto simp: has_shape3_iff)
  from cell [rule_format, OF x h0, of 0]
  obtain a where a: "q_gru_cell qs 0 E H x (h_0 ! 0) = Inr a" "has_shape2 a B H"
    by blast
  let ?d = "dropout2 (sg_dropout g) tr (mk 0) a"
  have d: "has_shape2 ?d B H" using a(2) by (rule dropout2_shape)
  from cell [rule_format, OF d h1, of "Suc 0"]
  obtain b where b: "q_gru_cell qs (Suc 0) H H ?d (h_0 ! Suc 0) = Inr b" "has_shape2 b B H"
    by blast
  have st: "stack [a, b] = Inr [a, b]"
    using a(2) b(2) by (intro stack_shape [of _ B H]) auto
  have "StackedGRU_forward g tr mk x h_0 = Inr (b, [a, b], [0])"
    by (simp add: StackedGRU_forward_def layers len f(1) a(1) b(1) st)
  moreover have "has_shape3 [a, b] 2 B H"
    using a(2) b(2) by (simp add: has_shape3_iff)
  moreover have "b = last [a, b]" by simp
  ultimately show ?thesis using b(2) by blast
qed


lemma take_shape3:
  assumes "has_shape3 h n B H" "k \<le> n"
  shows "has_shape3 (take k h) k B H"
  using assms by (auto simp: has_shape3_iff dest: in_set_takeD)

text \<open>
  C3 (amended). The scenario's configuration (hidden size 8, two encoder and two decoder
  layers, a bidirectional GRU, gated Luong attention) on a batch of two sequences padded to
  \<open>T\<close> steps, the longer one of length \<open>T\<close>, with the library's modules keeping their
  shape contracts: the recurrent network returns outputs \<open>[T, 2, 16]\<close> and a state
  \<open>[4, 2, 8]\<close>, a cell returns a hidden vector \<open>[2, 8]\<close>, and the attention module returns
  an output \<open>[2, 8]\<close> together with its weights.
  For \<open>T < 7\<close>, so for the scenario's \<open>T = 4\<close>, the encoder raises a RuntimeError.
  For \<open>T \<ge> 7\<close> the encoder returns outputs of shape \<open>[T, 2, 8]\<close>, a convolutional
  context of shape \<open>[2, T - 6, 8]\<close> and an initial state of shape \<open>[2, 2, 8]\<close>, and one
  decoder step on two start tokens from that state and context returns scores of shape
  \<open>[2, tgt_vocab_size]\<close>, a new state of shape \<open>[2, 2, 8]\<close>, and as attention weights
  the weights that the attention module returns for the top layer's new hidden vector and
  that convolutional context. The shape of the weights is the attention module's own.
\<close>

theorem scenario_shapes:
  assumes cfg: "hidden_size config = 8" "enc_num_layers config = 2" "dec_num_layers config = 2"
               "bidirectional config" "cell config = ''gru''" "attention config = ''luong_gate''"
      and E: "0 < emb_size config"
      and einit: "rnn_encoder_init config embedding ps = Inr enc"
      and dinit: "rnn_decoder_init config embedding' True qs = Inr dec"
      and etab: "has_shape2 (enc_embedding enc) (src_vocab_size config) (emb_size config)"
      and dtab: "has_shape2 (dec_embedding dec) (tgt_vocab_size config) (emb_size config)"
      and ids: "has_shape2 inputs T 2" "list_all (list_all (valid_id (enc_embedding enc))) inputs"
      and len: "lengths = [int T, l]" "1 \<le> l" "l \<le> int T"
      and start: "length start = 2" "list_all (valid_id (dec_embedding dec)) start"
      and w: "\<forall>i<3. length (p_conv_weight ps i) = 8 \<and> length (p_conv_bias ps i) = 8"
      and gru: "\<forall>tr n x. has_shape3 x T 2 (emb_size config) \<longrightarrow>
                 (\<exists>raw h. p_gru ps tr n x = Inr (raw, h)
                    \<and> has_shape3 raw T 2 (2 * hidden_size config)
                    \<and> has_shape3 h (2 * enc_num_layers config) 2 (hidden_size config))"
      and cell: "\<forall>i a x h. has_shape2 x 2 a \<longrightarrow> has_shape2 h 2 8 \<longrightarrow>
                 (\<exists>h'. q_gru_cell qs i a 8 x h = Inr h' \<and> has_shape2 h' 2 8)"
      and att: "\<forall>tr n out ctx L. has_shape2 out 2 8 \<longrightarrow> has_shape3 ctx 2 L 8 \<longrightarrow>
                 (\<exists>out' wts. q_luong_gate_attention qs 8 (emb_size config) tr n out (T3 ctx)
                                = Inr (out', wts)
                    \<and> has_shape2 out' 2 8)"
      and lin: "length (q_linear_weight qs) = tgt_vocab_size config"
               "length (q_linear_bias qs) = tgt_vocab_size config"
  shows "(T < 7 \<longrightarrow>
            rnn_encoder_forward (enc\<lparr>enc_training := tr\<rparr>) enz inputs lengths = Inl RuntimeError)
       \<and> (7 \<le> T \<longrightarrow>
            (\<exists>outputs state conv scores state' wts.
               rnn_encoder_forward (enc\<lparr>enc_training := tr\<rparr>) enz inputs lengths
                 = Inr (outputs, Hidden state, conv)
               \<and> has_shape3 outputs T 2 8
               \<and> has_shape3 conv 2 (T - 6) 8
               \<and> has_shape3 state 2 2 8
               \<and> rnn_decoder_forward (dec\<lparr>dec_training := tr'\<rparr>) dnz start (Hidden state) conv
                   = Inr (scores, Hidden state', Some wts)
               \<and> has_shape2 scores 2 (tgt_vocab_size config)
               \<and> has_shape3 state' 2 2 8
               \<and> (\<exists>out'. q_luong_gate_attention qs 8 (emb_size config) tr' (attn_noise dnz)
                             (last state') (T3 conv) = Inr (out', wts))))"
proof -
  let ?E = "emb_size config"
  let ?enc = "enc\<lparr>enc_training := tr\<rparr>"
  let ?dec = "dec\<lparr>dec_training := tr'\<rparr>"
  note ef = init_fields [OF einit]
  have rnn: "enc_rnn enc = GRU (p_gru ps)" using ef(3) cfg(5) by simp
  have T: "0 < T" using len(2,3) by simp
  have B: "(0::nat) < 2" by simp
  define e where "e = map (map (\<lambda>i. enc_embedding enc ! nat i)) inputs"
  have emb: "Embedding2 (enc_embedding enc) inputs = Inr e"
    unfolding e_def by (rule Embedding2_Inr [OF ids(2)])
  have esh: "has_shape3 e T 2 ?E"
    unfolding e_def by (rule embedded_shape [OF etab ids])
  have "\<exists>embs. pack e lengths = Inr embs"
    by (rule pack_succeeds [OF esh T B E]) (use len in simp_all)
  then obtain embs where pk: "pack e lengths = Inr embs" by blast
  have ush: "has_shape3 (fst (unpack embs)) T 2 ?E"
    by (rule unpack_shape [OF pk esh]) (simp add: len)
  from gru [rule_format, OF ush, of tr "rnn_noise enz"]
  obtain raw h where r: "p_gru ps tr (rnn_noise enz) (fst (unpack embs)) = Inr (raw, h)"
      "has_shape3 raw T 2 (2 * hidden_size config)"
      "has_shape3 h (2 * enc_num_layers config) 2 (hidden_size config)"
    by blast
  have run: "rnn_module_forward (enc_rnn enc) tr (rnn_noise enz) (fst (unpack embs))
               = Inr (raw, Hidden h)"
    by (simp add: rnn r(1))
  have raw: "has_shape3 raw T 2 (if bidirectional config then 2 * hidden_size config
                                  else hidden_size config)"
    using r(2) cfg(4) by simp
  have w': "\<forall>i<3. length (p_conv_weight ps i) = hidden_size config
                 \<and> length (p_conv_bias ps i) = hidden_size config"
    using w cfg(1) by simp
  have H: "0 < hidden_size config" using cfg(1) by simp
  note fs = forward_shapes [OF einit w' H B emb pk run raw]
  have red: "reduce_state config (Hidden h) = Inr (Hidden (take 2 h))"
    by (simp add: reduce_state_def cfg)
  have hsh: "has_shape3 h 4 2 8" using r(3) cfg(1,2) by simp
  have st: "has_shape3 (take 2 h) 2 2 8"
    by (rule take_shape3 [OF hsh]) simp
  have 1: "rnn_encoder_forward ?enc enz inputs lengths = Inl RuntimeError" if "T < 7"
    using fs(1) [OF that] .
  have 2: "\<exists>outputs state conv scores state' wts.
               rnn_encoder_forward ?enc enz inputs lengths = Inr (outputs, Hidden state, conv)
               \<and> has_shape3 outputs T 2 8
               \<and> has_shape3 conv 2 (T - 6) 8
               \<and> has_shape3 state 2 2 8
               \<and> rnn_decoder_forward ?dec dnz start (Hidden state) conv
                   = Inr (scores, Hidden state', Some wts)
               \<and> has_shape2 scores 2 (tgt_vocab_size config)
               \<and> has_shape3 state' 2 2 8
               \<and> (\<exists>out'. q_luong_gate_attention qs 8 (emb_size config) tr' (attn_noise dnz)
                             (last state') (T3 conv) = Inr (out', wts))" if T7: "7 \<le> T"
  proof -
    from fs(2) [OF T7] red cfg(1)
    obtain outputs conv where
      fw: "rnn_encoder_forward ?enc enz inputs lengths = Inr (outputs, Hidden (take 2 h), conv)"
      and osh: "has_shape3 outputs T 2 8" and csh: "has_shape3 conv 2 (T - 6) 8"
      by auto
    note df = decoder_init_fields [OF dinit]
    from df(4) [OF cfg(5)] cfg(1,3)
    obtain g where g: "dec_rnn dec = SGRU g" "StackedGRU_init 2 ?E 8 (dropout config) qs = Inr g"
      by auto
    have datt: "dec_attention dec = Some (Some (q_luong_gate_attention qs 8 ?E))"
      using decoder_init_attention(1) [OF dinit] cfg(1,6) by simp
    from Embedding1_shape [OF dtab start(2)] start(1)
    obtain embs' where de: "Embedding1 (dec_embedding dec) start = Inr embs'"
        "has_shape2 embs' 2 ?E"
      by auto
    from stacked_gru_two_layers [OF g(2) cell de(2) st, of tr' "cell_mask dnz"]
    obtain out h1 calls where
      sf: "StackedGRU_forward g tr' (cell_mask dnz) embs' (take 2 h) = Inr (out, h1, calls)"
      and out: "has_shape2 out 2 8" and h1: "has_shape3 h1 2 2 8" and last: "out = last h1"
      by blast
    from att [rule_format, OF out csh, of tr' "attn_noise dnz"]
    obtain out' wts where
      at: "q_luong_gate_attention qs 8 ?E tr' (attn_noise dnz) out (T3 conv) = Inr (out', wts)"
      and out': "has_shape2 out' 2 8"
      by blast
    have wts: "\<exists>out'. q_luong_gate_attention qs 8 ?E tr' (attn_noise dnz) (last h1) (T3 conv)
                       = Inr (out', wts)"
      using at last by blast
    have "has_shape2 out' 2 (lin_in_features (dec_linear dec))"
      using out' by (simp add: df(3) cfg(1))
    from Linear_forward_shape [OF this, of "tgt_vocab_size config"] lin
    obtain scores where lf: "Linear_forward (dec_linear dec) out' = Inr scores"
      and ssh: "has_shape2 scores 2 (tgt_vocab_size config)"
      by (auto simp: df(3))
    have "rnn_decoder_forward ?dec dnz start (Hidden (take 2 h)) conv
            = Inr (scores, Hidden h1, Some wts)"
      by (simp add: decoder_forward_unfold g(1) de(1) sf datt df(1) cfg(6) at compute_score_def lf)
    with fw osh csh st ssh h1 wts show ?thesis by blast
  qed
  from 1 2 show ?thesis by blast
qed


lemma ex_gru_contract:
  assumes "has_shape3 x T B E" "0 < T"
  shows "\<exists>raw h. ex_gru W L H tr n x = Inr (raw, h)
           \<and> has_shape3 raw T B W \<and> has_shape3 h L B H"
proof -
  have "size1 x = B" using assms by (rule size1_shape3)
  then show ?thesis
    using assms(1) by (auto simp: ex_gru_def has_shape3_iff has_shape2_iff)
qed

lemma ex_gru_cell_contract:
  assumes "has_shape2 x B a" "has_shape2 h B H"
  shows "\<exists>h'. ex_gru_cell i a H x h = Inr h' \<and> has_shape2 h' B H"
proof -
  have "length v = H" if "(u, v) \<in> set (zip x h)" for u v
    using that assms(2) by (auto simp: has_shape2_iff dest: set_zip_rightD)
  then show ?thesis
    using assms by (auto simp: ex_gru_cell_def has_shape2_iff)
qed

lemma ex_attention_contract:
  assumes "has_shape2 out B H" "has_shape3 ctx B L H"
  shows "\<exists>out' wts. ex_attention tr n out (T3 ctx) = Inr (out', wts) \<and> has_shape2 out' B H"
  using assms by (auto simp: ex_attention_def has_shape3_iff has_shape2_iff)

theorem scenario_shapes_witness:
  "rnn_encoder_forward ((ex_encoder ex_scenario_config)\<lparr>enc_training := True\<rparr>) ex_enc_noise
       ex_inputs [8, 3]
     = Inr (ex_scenario_outputs, Hidden ex_scenario_state, ex_scenario_conv)
   \<and> has_shape3 ex_scenario_outputs 8 2 8
   \<and> has_shape3 ex_scenario_conv 2 (8 - 6) 8
   \<and> has_shape3 ex_scenario_state 2 2 8
   \<and> rnn_decoder_forward ((ex_decoder ex_scenario_config)\<lparr>dec_training := True\<rparr>) ex_dec_noise
        ex_tokens (Hidden ex_scenario_state) ex_scenario_conv
       = Inr (ex_scenario_scores, Hidden ex_scenario_next_state, Some ex_scenario_weights)
   \<and> has_shape2 ex_scenario_scores 2 (tgt_vocab_size ex_scenario_config)
   \<and> has_shape3 ex_scenario_next_state 2 2 8
   \<and> (\<exists>out'. q_luong_gate_attention (ex_dec_params ex_scenario_config) 8
                 (emb_size ex_scenario_config) True (attn_noise ex_dec_noise)
                 (last ex_scenario_next_state) (T3 ex_scenario_conv)
               = Inr (out', ex_scenario_weights))"
proof -
  let ?c = ex_scenario_config
  have cfg: "hidden_size ?c = 8" "enc_num_layers ?c = 2" "dec_num_layers ?c = 2"
            "bidirectional ?c" "cell ?c = ''gru''" "attention ?c = ''luong_gate''"
    by (simp_all add: ex_scenario_config_def ex_config_def)
  have E: "0 < emb_size ?c" by (simp add: ex_scenario_config_def ex_config_def)
  have einit: "rnn_encoder_init ?c None (ex_enc_params ?c) = Inr (ex_encoder ?c)"
    by (simp add: ex_encoder_def rnn_encoder_init_def valid_dropout_def ex_scenario_config_def
          ex_config_def)
  have dinit: "rnn_decoder_init ?c None True (ex_dec_params ?c) = Inr (ex_decoder ?c)"
    by (simp add: ex_decoder_def rnn_decoder_init_def ex_scenario_config_def ex_config_def
          StackedGRU_init_def valid_dropout_def)
  have etab: "has_shape2 (enc_embedding (ex_encoder ?c)) (src_vocab_size ?c) (emb_size ?c)"
    by code_simp
  have dtab: "has_shape2 (dec_embedding (ex_decoder ?c)) (tgt_vocab_size ?c) (emb_size ?c)"
    by code_simp
  have ids: "has_shape2 ex_inputs 8 2"
            "list_all (list_all (valid_id (enc_embedding (ex_encoder ?c)))) ex_inputs"
    by code_simp+
  have len: "[8, 3] = [int 8, 3]" "(1::int) \<le> 3" "3 \<le> int 8"
    by simp_all
  have start: "length ex_tokens = 2" "list_all (valid_id (dec_embedding (ex_decoder ?c))) ex_tokens"
    by code_simp+
  have w: "\<forall>i<3. length (p_conv_weight (ex_enc_params ?c) i) = 8
                \<and> length (p_conv_bias (ex_enc_params ?c) i) = 8"
    by (simp add: ex_enc_params_def ex_scenario_config_def ex_config_def)
  have pg: "p_gru (ex_enc_params ?c) = ex_gru (2 * hidden_size ?c) (2 * enc_num_layers ?c)
                                          (hidden_size ?c)"
    by (simp add: ex_enc_params_def ex_scenario_config_def ex_config_def)
  have gru: "\<forall>tr n x. has_shape3 x 8 2 (emb_size ?c) \<longrightarrow>
                 (\<exists>raw h. p_gru (ex_enc_params ?c) tr n x = Inr (raw, h)
                    \<and> has_shape3 raw 8 2 (2 * hidden_size ?c)
                    \<and> has_shape3 h (2 * enc_num_layers ?c) 2 (hidden_size ?c))"
    unfolding pg by (intro allI impI ex_gru_contract) simp_all
  have cell: "\<forall>i a x h. has_shape2 x 2 a \<longrightarrow> has_shape2 h 2 8 \<longrightarrow>
                 (\<exists>h'. q_gru_cell (ex_dec_params ?c) i a 8 x h = Inr h' \<and> has_shape2 h' 2 8)"
    by (simp add: ex_dec_params_def ex_gru_cell_contract)
  have qa: "q_luong_gate_attention (ex_dec_params ?c) 8 (emb_size ?c) = ex_attention"
    by (simp add: ex_dec_params_def)
  have att: "\<forall>tr n out ctx L. has_shape2 out 2 8 \<longrightarrow> has_shape3 ctx 2 L 8 \<longrightarrow>
                 (\<exists>out' wts. q_luong_gate_attention (ex_dec_params ?c) 8 (emb_size ?c) tr n out
                                 (T3 ctx) = Inr (out', wts)
                    \<and> has_shape2 out' 2 8)"
    unfolding qa by (intro allI impI ex_attention_contract; assumption)
  have lin: "length (q_linear_weight (ex_dec_params ?c)) = tgt_vocab_size ?c"
            "length (q_linear_bias (ex_dec_params ?c)) = tgt_vocab_size ?c"
    by (simp_all add: ex_dec_params_def)
  have f: "rnn_encoder_forward ((ex_encoder ?c)\<lparr>enc_training := True\<rparr>) ex_enc_noise
             ex_inputs [8, 3]
           = Inr (ex_scenario_outputs, Hidden ex_scenario_state, ex_scenario_conv)"
    by code_simp
  have d: "rnn_decoder_forward ((ex_decoder ?c)\<lparr>dec_training := True\<rparr>) ex_dec_noise
             ex_tokens (Hidden ex_scenario_state) ex_scenario_conv
           = Inr (ex_scenario_scores, Hidden ex_scenario_next_state, Some ex_scenario_weights)"
    by code_simp
  have seven: "(7::nat) \<le> 8" by simp
  note t = scenario_shapes [OF cfg E einit dinit etab dtab ids len start w gru cell att lin,
             THEN conjunct2, THEN mp, OF seven, of True ex_enc_noise True ex_dec_noise]
  from t have r: "has_shape3 ex_scenario_outputs 8 2 8
       \<and> has_shape3 ex_scenario_conv 2 (8 - 6) 8
       \<and> has_shape3 ex_scenario_state 2 2 8
       \<and> has_shape2 ex_scenario_scores 2 (tgt_vocab_size ?c)
       \<and> has_shape3 ex_scenario_next_state 2 2 8
       \<and> (\<exists>out'. q_luong_gate_attention (ex_dec_params ?c) 8 (emb_size ?c) True
                     (attn_noise ex_dec_noise) (last ex_scenario_next_state) (T3 ex_scenario_conv)
                   = Inr (out', ex_scenario_weights))"
    unfolding f using d by auto
  then have r1: "has_shape3 ex_scenario_outputs 8 2 8"
    and r2: "has_shape3 ex_scenario_conv 2 (8 - 6) 8"
    and r3: "has_shape3 ex_scenario_state 2 2 8"
    and r4: "has_shape2 ex_scenario_scores 2 (tgt_vocab_size ?c)"
    and r5: "has_shape3 ex_scenario_next_state 2 2 8"
    and r6: "\<exists>out'. q_luong_gate_attention (ex_dec_params ?c) 8 (emb_size ?c) True
                     (attn_noise ex_dec_noise) (last ex_scenario_next_state) (T3 ex_scenario_conv)
                   = Inr (out', ex_scenario_weights)"
    by blast+
  show ?thesis by (intro conjI f r1 r2 r3 d r4 r5 r6)
qed

text \<open>
  C3 (as stated). In the scenario itself, two sequences of lengths 4 and 2 padded to length
  4 with hidden size 8, two layers on either side, a bidirectional GRU and gated Luong
  attention, the encoder returns nothing: its forward pass raises a RuntimeError.
\<close>

theorem scenario_counterexample:
  "hidden_size ex_scenario_config = 8 \<and> enc_num_layers ex_scenario_config = 2
   \<and> dec_num_layers ex_scenario_config = 2 \<and> bidirectional ex_scenario_config
   \<and> cell ex_scenario_config = ''gru'' \<and> attention ex_scenario_config = ''luong_gate''
   \<and> has_shape2 ex_inputs4 4 2
   \<and> rnn_encoder_forward (ex_encoder ex_scenario_config) ex_enc_noise ex_inputs4 [4, 2]
       = Inl RuntimeError"
  by code_simp

end
